theory Spec2Isabelle
  imports Main "HOL-Library.Word" "HOL-Library.Signed_Division"
begin

unbundle bit_operations_syntax

section \<open>Machine integers, bytes and errors\<close>

text \<open>
  The Go sources use the fixed-width unsigned types \<^verbatim>\<open>uint8\<close>, \<^verbatim>\<open>uint16\<close>, \<^verbatim>\<open>uint32\<close> and
  \<^verbatim>\<open>uint64\<close>; they are words here, so that \<open>+\<close> wraps as it does in Go. A \<^verbatim>\<open>[]byte\<close> is a
  list of bytes. Go's \<^verbatim>\<open>int\<close> is taken to be 64 bits wide, so that \<^verbatim>\<open>int(x)\<close> of a
  \<^verbatim>\<open>uint32\<close> is the natural number \<open>unat x\<close>.
\<close>

type_synonym u8 = "8 word"
type_synonym u16 = "16 word"
type_synonym u32 = "32 word"
type_synonym u64 = "64 word"
type_synonym bytes = "u8 list"

text \<open>
  Every error value the modelled functions can return. \<open>Wrap msg e\<close> stands for
  \<^verbatim>\<open>fmt.Errorf(msg + ": %w", e)\<close>; a constructor with an argument stands for the message
  formatted with that argument; \<open>ErrConn\<close> is an error of the TCP connection.
\<close>

datatype error =
    ErrTimeout
  | ErrCanceled
  | ErrDeadlineExceeded
  | ErrConn
  | ErrUnexpectedEOF
  | ErrTypeMismatch
  | ErrEmptyPath
  | ErrFieldNotFound string
  | ErrFieldDataSizeMismatch
  | ErrInvalidSymbolInfo nat
  | ErrInvalidDataTypeInfo
  | ErrDataTypeInfoTooShort
  | ErrFailedGetSymHandleByName string error
  | ErrFailedReadWrite u32
  | ErrNotEnoughData nat
  | ErrHandleNotFound u32
  | ErrDeleteNotification u32
  | ErrAddNotification u32
  | ErrAlreadyRunning
  | ErrSymbolNotInRegistry string
  | Wrap string error

subsection \<open>Little-endian integers (\<^verbatim>\<open>encoding/binary\<close>)\<close>

definition PutUint16 :: "u16 \<Rightarrow> bytes" where
  "PutUint16 v = [ucast v, ucast (drop_bit 8 v)]"

definition Uint16 :: "bytes \<Rightarrow> u16" where
  "Uint16 b = ucast (b ! 0) OR push_bit 8 (ucast (b ! 1))"

definition PutUint32 :: "u32 \<Rightarrow> bytes" where
  "PutUint32 v = [ucast v, ucast (drop_bit 8 v), ucast (drop_bit 16 v), ucast (drop_bit 24 v)]"

definition Uint32 :: "bytes \<Rightarrow> u32" where
  "Uint32 b = ucast (b ! 0) OR push_bit 8 (ucast (b ! 1)) OR push_bit 16 (ucast (b ! 2))
     OR push_bit 24 (ucast (b ! 3))"

section \<open>The packet buffer\<close>

text \<open>
  Modelled from the spec: the type \<^verbatim>\<open>ams.Buffer\<close> and its methods are not among the source
  files. The spec fixes what they must do: all multi-byte integers are little-endian, all
  structs are tightly packed, and a read past the end of the stream is detected and
  reported as an explicit decode error. The buffer is a byte slice with a read position
  and a sticky error: once the error is set every further read returns the zero value and
  every further write is dropped, which is what lets the packet codecs in the sources call
  several reads in a row and test \<^verbatim>\<open>b.Err()\<close> afterwards.
\<close>

record Buffer =
  buf :: bytes
  pos :: nat
  err :: "error option"

definition NewBuffer :: "bytes \<Rightarrow> Buffer" where
  "NewBuffer b = \<lparr>buf = b, pos = 0, err = None\<rparr>"

definition Bytes :: "Buffer \<Rightarrow> bytes" where
  "Bytes b = buf b"

definition ReadN :: "nat \<Rightarrow> Buffer \<Rightarrow> bytes \<times> Buffer" where
  "ReadN n b =
     (if err b \<noteq> None then ([], b)
      else let d = drop (pos b) (buf b)
           in if n > length d then ([], b\<lparr>err := Some ErrUnexpectedEOF\<rparr>)
              else (take n d, b\<lparr>pos := pos b + n\<rparr>))"

definition ReadUint16 :: "Buffer \<Rightarrow> u16 \<times> Buffer" where
  "ReadUint16 b = (case ReadN 2 b of (d, b') \<Rightarrow> (if length d < 2 then 0 else Uint16 d, b'))"

definition ReadUint32 :: "Buffer \<Rightarrow> u32 \<times> Buffer" where
  "ReadUint32 b = (case ReadN 4 b of (d, b') \<Rightarrow> (if length d < 4 then 0 else Uint32 d, b'))"

definition Write :: "bytes \<Rightarrow> Buffer \<Rightarrow> Buffer" where
  "Write d b = (if err b \<noteq> None then b else b\<lparr>buf := buf b @ d\<rparr>)"

text \<open>\<^verbatim>\<open>WriteN(d, n)\<close> writes exactly \<open>n\<close> bytes: those of \<open>d\<close>, cut or zero-padded to \<open>n\<close>.\<close>

definition WriteN :: "bytes \<Rightarrow> nat \<Rightarrow> Buffer \<Rightarrow> Buffer" where
  "WriteN d n b = Write (take n d @ replicate (n - length d) 0) b"

definition WriteUint16 :: "u16 \<Rightarrow> Buffer \<Rightarrow> Buffer" where
  "WriteUint16 v b = Write (PutUint16 v) b"

definition WriteUint32 :: "u32 \<Rightarrow> Buffer \<Rightarrow> Buffer" where
  "WriteUint32 v b = Write (PutUint32 v) b"

section \<open>Frame headers\<close>

text \<open>
  Modelled from the spec: the declarations of \<^verbatim>\<open>ams.Addr\<close>, \<^verbatim>\<open>ams.TCPHeader\<close>,
  \<^verbatim>\<open>ams.AMSHeader\<close>, the command and state-flag constants and \<^verbatim>\<open>HasState\<close> are not among
  the source files. The spec gives the layout: a 6-byte TCP header (2 reserved bytes and the
  4-byte payload length) followed by a 32-byte AMS header with target and sender (each a
  6-byte NetId and a 16-bit port), CmdID, StateFlags, length, error code and invoke-id.
\<close>

datatype NetID = NetID u8 u8 u8 u8 u8 u8

record Addr =
  addr_NetID :: NetID
  addr_Port :: u16

record TCPHeader =
  tcp_Reserved :: u16
  tcp_Length :: u32

record AMSHeader =
  Target :: Addr
  Sender :: Addr
  CmdID :: u16
  StateFlags :: u16
  ams_Length :: u32
  ErrorCode :: u32
  InvokeID :: u32

definition amsHeaderLen :: u32 where "amsHeaderLen = 32"

definition CmdADSReadDeviceInfo :: u16 where "CmdADSReadDeviceInfo = 1"
definition CmdADSRead :: u16 where "CmdADSRead = 2"
definition CmdADSWrite :: u16 where "CmdADSWrite = 3"
definition CmdADSReadState :: u16 where "CmdADSReadState = 4"
definition CmdADSAddDeviceNotification :: u16 where "CmdADSAddDeviceNotification = 6"
definition CmdADSDeleteDeviceNotification :: u16 where "CmdADSDeleteDeviceNotification = 7"
definition CmdADSDeviceNotification :: u16 where "CmdADSDeviceNotification = 8"
definition CmdADSReadWrite :: u16 where "CmdADSReadWrite = 9"

definition StateResponse :: u16 where "StateResponse = 0x0001"
definition StateADSCommand :: u16 where "StateADSCommand = 0x0004"

definition NoError :: u32 where "NoError = 0"

definition ADSStateStart :: u16 where "ADSStateStart = 4"
definition ADSStateRun :: u16 where "ADSStateRun = 5"
definition ADSStateStop :: u16 where "ADSStateStop = 6"

definition HasState :: "AMSHeader \<Rightarrow> u16 \<Rightarrow> bool" where
  "HasState h s = (StateFlags h AND s = s)"

definition zeroAddr :: Addr where
  "zeroAddr = \<lparr>addr_NetID = NetID 0 0 0 0 0 0, addr_Port = 0\<rparr>"

definition zeroTCPHeader :: TCPHeader where
  "zeroTCPHeader = \<lparr>tcp_Reserved = 0, tcp_Length = 0\<rparr>"

definition zeroAMSHeader :: AMSHeader where
  "zeroAMSHeader = \<lparr>Target = zeroAddr, Sender = zeroAddr, CmdID = 0, StateFlags = 0,
     ams_Length = 0, ErrorCode = 0, InvokeID = 0\<rparr>"

definition putAddr :: "Addr \<Rightarrow> bytes" where
  "putAddr a = (case addr_NetID a of NetID a0 a1 a2 a3 a4 a5 \<Rightarrow>
     [a0, a1, a2, a3, a4, a5] @ PutUint16 (addr_Port a))"

definition getAddr :: "bytes \<Rightarrow> Addr" where
  "getAddr d = \<lparr>addr_NetID = NetID (d ! 0) (d ! 1) (d ! 2) (d ! 3) (d ! 4) (d ! 5),
     addr_Port = Uint16 (drop 6 d)\<rparr>"

definition WriteStruct_TCPHeader :: "TCPHeader \<Rightarrow> Buffer \<Rightarrow> Buffer" where
  "WriteStruct_TCPHeader h b = Write (PutUint16 (tcp_Reserved h) @ PutUint32 (tcp_Length h)) b"

definition WriteStruct_AMSHeader :: "AMSHeader \<Rightarrow> Buffer \<Rightarrow> Buffer" where
  "WriteStruct_AMSHeader h b =
     Write (putAddr (Target h) @ putAddr (Sender h) @ PutUint16 (CmdID h)
            @ PutUint16 (StateFlags h) @ PutUint32 (ams_Length h) @ PutUint32 (ErrorCode h)
            @ PutUint32 (InvokeID h)) b"

text \<open>
  \<^verbatim>\<open>ReadStruct\<close> fills the struct from the next bytes; on a short stream it sets the error
  and leaves the struct as it was (the zero value in every caller).
\<close>

definition ReadStruct_TCPHeader :: "Buffer \<Rightarrow> TCPHeader \<times> Buffer" where
  "ReadStruct_TCPHeader b =
     (case ReadN 6 b of (d, b') \<Rightarrow>
        (if length d < 6 then zeroTCPHeader
         else \<lparr>tcp_Reserved = Uint16 d, tcp_Length = Uint32 (drop 2 d)\<rparr>, b'))"

definition ReadStruct_AMSHeader :: "Buffer \<Rightarrow> AMSHeader \<times> Buffer" where
  "ReadStruct_AMSHeader b =
     (case ReadN 32 b of (d, b') \<Rightarrow>
        (if length d < 32 then zeroAMSHeader
         else \<lparr>Target = getAddr d, Sender = getAddr (drop 8 d), CmdID = Uint16 (drop 16 d),
                StateFlags = Uint16 (drop 18 d), ams_Length = Uint32 (drop 20 d),
                ErrorCode = Uint32 (drop 24 d), InvokeID = Uint32 (drop 28 d)\<rparr>, b'))"

section \<open>The DeviceNotification packet (\<^verbatim>\<open>ams/notification.go\<close>)\<close>

record ams_NotificationSample =
  Handle :: u32
  Size :: u32
  Data :: bytes

record NotificationStamp =
  Timestamp :: u64
  SampleCount :: u32
  Samples :: "ams_NotificationSample list"

record DeviceNotificationRequest =
  dn_tcpHeader :: TCPHeader
  dn_amsHeader :: AMSHeader
  dn_Length :: u32
  StampCount :: u32
  Stamps :: "NotificationStamp list"

text \<open>The inner loop of \<^verbatim>\<open>Encode\<close>: \<^verbatim>\<open>for j := range r.Stamps[i].Samples\<close>.\<close>

fun encode_samples :: "ams_NotificationSample list \<Rightarrow> Buffer \<Rightarrow> Buffer" where
  "encode_samples [] b = b"
| "encode_samples (s # ss) b =
     encode_samples ss (WriteN (Data s) (unat (Size s)) (WriteUint32 (Size s) (WriteUint32 (Handle s) b)))"

text \<open>The outer loop of \<^verbatim>\<open>Encode\<close>: \<^verbatim>\<open>for i := range r.Stamps\<close>.\<close>

fun encode_stamps :: "NotificationStamp list \<Rightarrow> Buffer \<Rightarrow> Buffer" where
  "encode_stamps [] b = b"
| "encode_stamps (st # sts) b =
     encode_stamps sts
       (encode_samples (Samples st)
         (WriteUint32 (SampleCount st)
           (WriteUint32 (ucast (drop_bit 32 (Timestamp st)))
             (WriteUint32 (ucast (Timestamp st)) b))))"

definition DeviceNotificationRequest_Encode :: "DeviceNotificationRequest \<Rightarrow> Buffer \<Rightarrow> error option \<times> Buffer" where
  "DeviceNotificationRequest_Encode r b =
     (let b1 = WriteStruct_TCPHeader (dn_tcpHeader r) b;
          b2 = WriteStruct_AMSHeader (dn_amsHeader r) b1;
          b3 = WriteUint32 (dn_Length r) b2;
          b4 = WriteUint32 (StampCount r) b3;
          b5 = encode_stamps (Stamps r) b4
      in (err b5, b5))"

text \<open>
  The inner loop of \<^verbatim>\<open>Decode\<close>, \<^verbatim>\<open>for j := uint32(0); j < SampleCount; j++\<close>, as recursion on
  the number of samples still to read. Each read is followed by the source's test of
  \<^verbatim>\<open>b.Err()\<close>; an error ends the whole decode.
\<close>

fun decode_samples :: "nat \<Rightarrow> Buffer \<Rightarrow> error + (ams_NotificationSample list \<times> Buffer)" where
  "decode_samples 0 b = Inr ([], b)"
| "decode_samples (Suc n) b =
     (case ReadUint32 b of (h, b1) \<Rightarrow>
      (case err b1 of Some e \<Rightarrow> Inl e | None \<Rightarrow>
      (case ReadUint32 b1 of (sz, b2) \<Rightarrow>
      (case err b2 of Some e \<Rightarrow> Inl e | None \<Rightarrow>
      (case ReadN (unat sz) b2 of (d, b3) \<Rightarrow>
      (case err b3 of Some e \<Rightarrow> Inl e | None \<Rightarrow>
      (case decode_samples n b3 of Inl e \<Rightarrow> Inl e
       | Inr (ss, b4) \<Rightarrow> Inr (\<lparr>Handle = h, Size = sz, Data = d\<rparr> # ss, b4))))))))"

text \<open>
  \<^verbatim>\<open>Decode\<close> allocates before it reads: \<^verbatim>\<open>make([]NotificationStamp, r.StampCount)\<close> ahead of
  the loop over the stamps and \<^verbatim>\<open>make([]NotificationSample, SampleCount)\<close> ahead of each loop
  over the samples, with the counts just read from the stream. \<^verbatim>\<open>make([]T, n)\<close> asks the Go
  runtime for a block of \<open>n\<close> times the size of \<open>T\<close> bytes. The runtime provides the block,
  or it ends the process (with the fatal error "out of memory", or with the panic
  "makeslice: len out of range", which neither the decoder nor the pump recovers): then the
  call does not return. Whether a block of a given size can be had is for the machine to
  say; an allocator is its answer as a function of the number of bytes, taken to be the
  same throughout one decode. A block of no bytes is always had. A decode that does not
  return has the value \<open>None\<close>.

  On a 64-bit platform a \<^verbatim>\<open>NotificationStamp\<close> takes 40 bytes (8 for the timestamp, 4 for
  the count, 4 of padding, 24 for the slice of samples) and a \<^verbatim>\<open>NotificationSample\<close> takes
  32 bytes (4, 4, and 24 for the slice of data).
\<close>

type_synonym allocator = "nat \<Rightarrow> bool"

definition granted :: "allocator \<Rightarrow> nat \<Rightarrow> bool" where
  "granted alloc n = (n = 0 \<or> alloc n)"

definition sizeof_NotificationStamp :: nat where "sizeof_NotificationStamp = 40"
definition sizeof_NotificationSample :: nat where "sizeof_NotificationSample = 32"

text \<open>
  The outer loop of \<^verbatim>\<open>Decode\<close>, \<^verbatim>\<open>for i := uint32(0); i < r.StampCount; i++\<close>, with the
  allocation of each stamp's samples.
\<close>

fun decode_stamps ::
  "allocator \<Rightarrow> nat \<Rightarrow> Buffer \<Rightarrow> (error + (NotificationStamp list \<times> Buffer)) option" where
  "decode_stamps alloc 0 b = Some (Inr ([], b))"
| "decode_stamps alloc (Suc n) b =
     (case ReadUint32 b of (low, b1) \<Rightarrow>
      (case ReadUint32 b1 of (high, b2) \<Rightarrow>
      (case err b2 of Some e \<Rightarrow> Some (Inl e) | None \<Rightarrow>
      (case ReadUint32 b2 of (cnt, b3) \<Rightarrow>
      (case err b3 of Some e \<Rightarrow> Some (Inl e) | None \<Rightarrow>
      (if \<not> granted alloc (unat cnt * sizeof_NotificationSample) then None
       else
      (case decode_samples (unat cnt) b3 of Inl e \<Rightarrow> Some (Inl e)
       | Inr (ss, b4) \<Rightarrow>
      (case decode_stamps alloc n b4 of
         None \<Rightarrow> None
       | Some (Inl e) \<Rightarrow> Some (Inl e)
       | Some (Inr (sts, b5)) \<Rightarrow>
           Some (Inr (\<lparr>Timestamp = ucast low OR push_bit 32 (ucast high), SampleCount = cnt,
                        Samples = ss\<rparr> # sts, b5))))))))))"

definition DeviceNotificationRequest_Decode ::
  "allocator \<Rightarrow> Buffer \<Rightarrow> (error + DeviceNotificationRequest) option" where
  "DeviceNotificationRequest_Decode alloc b =
     (case ReadStruct_TCPHeader b of (tcp, b1) \<Rightarrow>
      (case ReadStruct_AMSHeader b1 of (ams, b2) \<Rightarrow>
      (case err b2 of Some e \<Rightarrow> Some (Inl e) | None \<Rightarrow>
      (case ReadUint32 b2 of (len, b3) \<Rightarrow>
      (case err b3 of Some e \<Rightarrow> Some (Inl e) | None \<Rightarrow>
      (case ReadUint32 b3 of (cnt, b4) \<Rightarrow>
      (case err b4 of Some e \<Rightarrow> Some (Inl e) | None \<Rightarrow>
        (if cnt = 0
         then Some (Inr \<lparr>dn_tcpHeader = tcp, dn_amsHeader = ams, dn_Length = len,
                          StampCount = cnt, Stamps = []\<rparr>)
         else if \<not> granted alloc (unat cnt * sizeof_NotificationStamp) then None
         else (case decode_stamps alloc (unat cnt) b4 of
                 None \<Rightarrow> None
               | Some (Inl e) \<Rightarrow> Some (Inl e)
               | Some (Inr (sts, b5)) \<Rightarrow>
                   Some (Inr \<lparr>dn_tcpHeader = tcp, dn_amsHeader = ams, dn_Length = len,
                              StampCount = cnt, Stamps = sts\<rparr>))))))))))"

definition IsDeviceNotificationRequest :: "AMSHeader \<Rightarrow> bool" where
  "IsDeviceNotificationRequest h = (CmdID h = CmdADSDeviceNotification)"

section \<open>Notification control packets (\<^verbatim>\<open>ams\<close>, AddDeviceNotification and DeleteDeviceNotification)\<close>

record AddDeviceNotificationRequest =
  adn_tcpHeader :: TCPHeader
  adn_amsHeader :: AMSHeader
  IndexGroup :: u32
  IndexOff :: u32
  adn_Length :: u32
  TransMode :: u32
  MaxDelay :: u32
  CycleTime :: u32
  Reserved :: bytes

record AddDeviceNotificationResponse =
  adr_tcpHeader :: TCPHeader
  adr_amsHeader :: AMSHeader
  adr_Result :: u32
  adr_NotificationHandle :: u32

record DeleteDeviceNotificationRequest =
  ddn_tcpHeader :: TCPHeader
  ddn_amsHeader :: AMSHeader
  ddn_NotificationHandle :: u32

record DeleteDeviceNotificationResponse =
  ddr_tcpHeader :: TCPHeader
  ddr_amsHeader :: AMSHeader
  ddr_Result :: u32

definition NewAddDeviceNotificationRequest ::
  "Addr \<Rightarrow> Addr \<Rightarrow> u32 \<Rightarrow> u32 \<Rightarrow> u32 \<Rightarrow> u32 \<Rightarrow> u32 \<Rightarrow> u32 \<Rightarrow> AddDeviceNotificationRequest" where
  "NewAddDeviceNotificationRequest target sender indexGroup indexOffset len transMode maxDelay cycleTime =
     \<lparr>adn_tcpHeader = zeroTCPHeader,
      adn_amsHeader = zeroAMSHeader\<lparr>Target := target, Sender := sender,
         CmdID := CmdADSAddDeviceNotification, StateFlags := StateADSCommand\<rparr>,
      IndexGroup = indexGroup, IndexOff = indexOffset, adn_Length = len, TransMode = transMode,
      MaxDelay = maxDelay, CycleTime = cycleTime, Reserved = replicate 16 0\<rparr>"

definition NewDeleteDeviceNotificationRequest :: "Addr \<Rightarrow> Addr \<Rightarrow> u32 \<Rightarrow> DeleteDeviceNotificationRequest" where
  "NewDeleteDeviceNotificationRequest target sender notificationHandle =
     \<lparr>ddn_tcpHeader = zeroTCPHeader,
      ddn_amsHeader = zeroAMSHeader\<lparr>Target := target, Sender := sender,
         CmdID := CmdADSDeleteDeviceNotification, StateFlags := StateADSCommand\<rparr>,
      ddn_NotificationHandle = notificationHandle\<rparr>"

text \<open>
  \<^verbatim>\<open>Encode\<close> first stores the lengths and the command id in the packet's own headers and
  then writes; the result is \<^verbatim>\<open>b.Err()\<close> together with the buffer.
\<close>

definition AddDeviceNotificationRequest_Encode ::
  "AddDeviceNotificationRequest \<Rightarrow> Buffer \<Rightarrow> error option \<times> Buffer" where
  "AddDeviceNotificationRequest_Encode r b =
     (let tcp = (adn_tcpHeader r)\<lparr>tcp_Length := amsHeaderLen + 40\<rparr>;
          ams = (adn_amsHeader r)\<lparr>ams_Length := 40, CmdID := CmdADSAddDeviceNotification\<rparr>;
          b1 = WriteStruct_TCPHeader tcp b;
          b2 = WriteStruct_AMSHeader ams b1;
          b3 = WriteUint32 (IndexGroup r) b2;
          b4 = WriteUint32 (IndexOff r) b3;
          b5 = WriteUint32 (adn_Length r) b4;
          b6 = WriteUint32 (TransMode r) b5;
          b7 = WriteUint32 (MaxDelay r) b6;
          b8 = WriteUint32 (CycleTime r) b7;
          b9 = WriteN (Reserved r) 16 b8
      in (err b9, b9))"

definition DeleteDeviceNotificationRequest_Encode ::
  "DeleteDeviceNotificationRequest \<Rightarrow> Buffer \<Rightarrow> error option \<times> Buffer" where
  "DeleteDeviceNotificationRequest_Encode r b =
     (let tcp = (ddn_tcpHeader r)\<lparr>tcp_Length := amsHeaderLen + 4\<rparr>;
          ams = (ddn_amsHeader r)\<lparr>ams_Length := 4, CmdID := CmdADSDeleteDeviceNotification\<rparr>;
          b1 = WriteStruct_TCPHeader tcp b;
          b2 = WriteStruct_AMSHeader ams b1;
          b3 = WriteUint32 (ddn_NotificationHandle r) b2
      in (err b3, b3))"

definition AddDeviceNotificationResponse_Decode :: "Buffer \<Rightarrow> error + AddDeviceNotificationResponse" where
  "AddDeviceNotificationResponse_Decode b =
     (case ReadStruct_TCPHeader b of (tcp, b1) \<Rightarrow>
      (case ReadStruct_AMSHeader b1 of (ams, b2) \<Rightarrow>
      (case ReadUint32 b2 of (res, b3) \<Rightarrow>
      (case ReadUint32 b3 of (h, b4) \<Rightarrow>
      (case err b4 of Some e \<Rightarrow> Inl e
       | None \<Rightarrow> Inr \<lparr>adr_tcpHeader = tcp, adr_amsHeader = ams, adr_Result = res,
                        adr_NotificationHandle = h\<rparr>)))))"

definition DeleteDeviceNotificationResponse_Decode :: "Buffer \<Rightarrow> error + DeleteDeviceNotificationResponse" where
  "DeleteDeviceNotificationResponse_Decode b =
     (case ReadStruct_TCPHeader b of (tcp, b1) \<Rightarrow>
      (case ReadStruct_AMSHeader b1 of (ams, b2) \<Rightarrow>
      (case ReadUint32 b2 of (res, b3) \<Rightarrow>
      (case err b3 of Some e \<Rightarrow> Inl e
       | None \<Rightarrow> Inr \<lparr>ddr_tcpHeader = tcp, ddr_amsHeader = ams, ddr_Result = res\<rparr>))))"

definition IsAddDeviceNotificationResponse :: "AMSHeader \<Rightarrow> bool" where
  "IsAddDeviceNotificationResponse h =
     (CmdID h = CmdADSAddDeviceNotification \<and> HasState h StateResponse)"

definition IsDeleteDeviceNotificationResponse :: "AMSHeader \<Rightarrow> bool" where
  "IsDeleteDeviceNotificationResponse h =
     (CmdID h = CmdADSDeleteDeviceNotification \<and> HasState h StateResponse)"

section \<open>Read, Write, ReadWrite and ReadState packets\<close>

text \<open>
  Modelled from the spec: the packet types \<^verbatim>\<open>ams.ReadResponse\<close>, \<^verbatim>\<open>ams.WriteResponse\<close>,
  \<^verbatim>\<open>ams.ReadWriteResponse\<close>, \<^verbatim>\<open>ams.ReadStateRequest\<close>, \<^verbatim>\<open>ams.ReadStateResponse\<close>, the
  combined \<^verbatim>\<open>ams.Header\<close>, their codecs, their routing predicates and
  \<^verbatim>\<open>NewReadStateResponse\<close> are not among the source files. Their bodies follow the table of
  body layouts in the spec (Read and ReadWrite response: \<open>result:u32, length:u32,
  data:length bytes\<close>; Write response: \<open>result:u32\<close>; ReadState request: empty; ReadState
  response: \<open>result:u32, adsState:u16, deviceState:u16\<close>) and their shape follows the codecs
  that are in the sources: read both headers, read the body, return \<^verbatim>\<open>b.Err()\<close>. A frame is a
  response when the Response bit is set.
\<close>

record Header =
  hdr_TCPHeader :: TCPHeader
  hdr_AMSHeader :: AMSHeader

record ReadResponse =
  rd_tcpHeader :: TCPHeader
  rd_amsHeader :: AMSHeader
  rd_Result :: u32
  rd_Length :: u32
  rd_Data :: bytes

record WriteResponse =
  wr_tcpHeader :: TCPHeader
  wr_amsHeader :: AMSHeader
  wr_Result :: u32

record ReadWriteResponse =
  rw_tcpHeader :: TCPHeader
  rw_amsHeader :: AMSHeader
  rw_Result :: u32
  rw_Length :: u32
  rw_Data :: bytes

record ReadStateRequest =
  rsq_tcpHeader :: TCPHeader
  rsq_amsHeader :: AMSHeader

record ReadStateResponse =
  rsr_tcpHeader :: TCPHeader
  rsr_amsHeader :: AMSHeader
  rsr_Result :: u32
  rsr_ADSState :: u16
  rsr_DeviceState :: u16

definition Header_Decode :: "Buffer \<Rightarrow> error + Header" where
  "Header_Decode b =
     (case ReadStruct_TCPHeader b of (tcp, b1) \<Rightarrow>
      (case ReadStruct_AMSHeader b1 of (ams, b2) \<Rightarrow>
      (case err b2 of Some e \<Rightarrow> Inl e
       | None \<Rightarrow> Inr \<lparr>hdr_TCPHeader = tcp, hdr_AMSHeader = ams\<rparr>)))"

definition ReadResponse_Decode :: "Buffer \<Rightarrow> error + ReadResponse" where
  "ReadResponse_Decode b =
     (case ReadStruct_TCPHeader b of (tcp, b1) \<Rightarrow>
      (case ReadStruct_AMSHeader b1 of (ams, b2) \<Rightarrow>
      (case ReadUint32 b2 of (res, b3) \<Rightarrow>
      (case ReadUint32 b3 of (len, b4) \<Rightarrow>
      (case ReadN (unat len) b4 of (d, b5) \<Rightarrow>
      (case err b5 of Some e \<Rightarrow> Inl e
       | None \<Rightarrow> Inr \<lparr>rd_tcpHeader = tcp, rd_amsHeader = ams, rd_Result = res,
                        rd_Length = len, rd_Data = d\<rparr>))))))"

definition WriteResponse_Decode :: "Buffer \<Rightarrow> error + WriteResponse" where
  "WriteResponse_Decode b =
     (case ReadStruct_TCPHeader b of (tcp, b1) \<Rightarrow>
      (case ReadStruct_AMSHeader b1 of (ams, b2) \<Rightarrow>
      (case ReadUint32 b2 of (res, b3) \<Rightarrow>
      (case err b3 of Some e \<Rightarrow> Inl e
       | None \<Rightarrow> Inr \<lparr>wr_tcpHeader = tcp, wr_amsHeader = ams, wr_Result = res\<rparr>))))"

definition ReadWriteResponse_Decode :: "Buffer \<Rightarrow> error + ReadWriteResponse" where
  "ReadWriteResponse_Decode b =
     (case ReadStruct_TCPHeader b of (tcp, b1) \<Rightarrow>
      (case ReadStruct_AMSHeader b1 of (ams, b2) \<Rightarrow>
      (case ReadUint32 b2 of (res, b3) \<Rightarrow>
      (case ReadUint32 b3 of (len, b4) \<Rightarrow>
      (case ReadN (unat len) b4 of (d, b5) \<Rightarrow>
      (case err b5 of Some e \<Rightarrow> Inl e
       | None \<Rightarrow> Inr \<lparr>rw_tcpHeader = tcp, rw_amsHeader = ams, rw_Result = res,
                        rw_Length = len, rw_Data = d\<rparr>))))))"

definition ReadStateRequest_Decode :: "Buffer \<Rightarrow> error + ReadStateRequest" where
  "ReadStateRequest_Decode b =
     (case ReadStruct_TCPHeader b of (tcp, b1) \<Rightarrow>
      (case ReadStruct_AMSHeader b1 of (ams, b2) \<Rightarrow>
      (case err b2 of Some e \<Rightarrow> Inl e
       | None \<Rightarrow> Inr \<lparr>rsq_tcpHeader = tcp, rsq_amsHeader = ams\<rparr>)))"

definition NewReadStateResponse :: "Addr \<Rightarrow> Addr \<Rightarrow> u32 \<Rightarrow> u16 \<Rightarrow> u16 \<Rightarrow> ReadStateResponse" where
  "NewReadStateResponse target sender result adsState deviceState =
     \<lparr>rsr_tcpHeader = \<lparr>tcp_Reserved = 0, tcp_Length = amsHeaderLen + 8\<rparr>,
      rsr_amsHeader = zeroAMSHeader\<lparr>Target := target, Sender := sender,
         CmdID := CmdADSReadState, StateFlags := StateADSCommand OR StateResponse,
         ams_Length := 8\<rparr>,
      rsr_Result = result, rsr_ADSState = adsState, rsr_DeviceState = deviceState\<rparr>"

definition ReadStateResponse_Encode :: "ReadStateResponse \<Rightarrow> Buffer \<Rightarrow> error option \<times> Buffer" where
  "ReadStateResponse_Encode r b =
     (let b1 = WriteStruct_TCPHeader (rsr_tcpHeader r) b;
          b2 = WriteStruct_AMSHeader (rsr_amsHeader r) b1;
          b3 = WriteUint32 (rsr_Result r) b2;
          b4 = WriteUint16 (rsr_ADSState r) b3;
          b5 = WriteUint16 (rsr_DeviceState r) b4
      in (err b5, b5))"

definition ReadStateResponse_Decode :: "Buffer \<Rightarrow> error + ReadStateResponse" where
  "ReadStateResponse_Decode b =
     (case ReadStruct_TCPHeader b of (tcp, b1) \<Rightarrow>
      (case ReadStruct_AMSHeader b1 of (ams, b2) \<Rightarrow>
      (case ReadUint32 b2 of (res, b3) \<Rightarrow>
      (case ReadUint16 b3 of (a, b4) \<Rightarrow>
      (case ReadUint16 b4 of (d, b5) \<Rightarrow>
      (case err b5 of Some e \<Rightarrow> Inl e
       | None \<Rightarrow> Inr \<lparr>rsr_tcpHeader = tcp, rsr_amsHeader = ams, rsr_Result = res,
                        rsr_ADSState = a, rsr_DeviceState = d\<rparr>))))))"

definition IsReadResponse :: "AMSHeader \<Rightarrow> bool" where
  "IsReadResponse h = (CmdID h = CmdADSRead \<and> HasState h StateResponse)"

definition IsWriteResponse :: "AMSHeader \<Rightarrow> bool" where
  "IsWriteResponse h = (CmdID h = CmdADSWrite \<and> HasState h StateResponse)"

definition IsReadWriteResponse :: "AMSHeader \<Rightarrow> bool" where
  "IsReadWriteResponse h = (CmdID h = CmdADSReadWrite \<and> HasState h StateResponse)"

definition IsReadStateRequest :: "AMSHeader \<Rightarrow> bool" where
  "IsReadStateRequest h = (CmdID h = CmdADSReadState \<and> StateFlags h = StateADSCommand)"

text \<open>
  Modelled from the spec: the request types \<^verbatim>\<open>ams.ReadRequest\<close>, \<^verbatim>\<open>ams.WriteRequest\<close> and
  \<^verbatim>\<open>ams.ReadWriteRequest\<close> with their constructors and encoders are not among the source
  files either. The constructors take the arguments the callers in the sources pass; the
  bodies follow the spec's table (Read request: \<open>indexGroup, indexOffset, length\<close>; Write
  request: \<open>indexGroup, indexOffset, length, data\<close>; ReadWrite request: \<open>indexGroup,
  indexOffset, readLength, writeLength, data\<close>).
\<close>

record ReadRequest =
  rq_tcpHeader :: TCPHeader
  rq_amsHeader :: AMSHeader
  rq_IndexGroup :: u32
  rq_IndexOffset :: u32
  rq_Length :: u32

record WriteRequest =
  wq_tcpHeader :: TCPHeader
  wq_amsHeader :: AMSHeader
  wq_IndexGroup :: u32
  wq_IndexOffset :: u32
  wq_Length :: u32
  wq_Data :: bytes

record ReadWriteRequest =
  rwq_tcpHeader :: TCPHeader
  rwq_amsHeader :: AMSHeader
  rwq_IndexGroup :: u32
  rwq_IndexOffset :: u32
  rwq_ReadLength :: u32
  rwq_WriteLength :: u32
  rwq_Data :: bytes

definition NewReadRequest :: "Addr \<Rightarrow> Addr \<Rightarrow> u32 \<Rightarrow> u32 \<Rightarrow> u32 \<Rightarrow> ReadRequest" where
  "NewReadRequest target sender indexGroup indexOffset len =
     \<lparr>rq_tcpHeader = \<lparr>tcp_Reserved = 0, tcp_Length = amsHeaderLen + 12\<rparr>,
      rq_amsHeader = zeroAMSHeader\<lparr>Target := target, Sender := sender, CmdID := CmdADSRead,
         StateFlags := StateADSCommand, ams_Length := 12\<rparr>,
      rq_IndexGroup = indexGroup, rq_IndexOffset = indexOffset, rq_Length = len\<rparr>"

definition NewWriteRequest :: "Addr \<Rightarrow> Addr \<Rightarrow> u32 \<Rightarrow> u32 \<Rightarrow> bytes \<Rightarrow> WriteRequest" where
  "NewWriteRequest target sender indexGroup indexOffset data =
     \<lparr>wq_tcpHeader = \<lparr>tcp_Reserved = 0, tcp_Length = amsHeaderLen + 12 + of_nat (length data)\<rparr>,
      wq_amsHeader = zeroAMSHeader\<lparr>Target := target, Sender := sender, CmdID := CmdADSWrite,
         StateFlags := StateADSCommand, ams_Length := 12 + of_nat (length data)\<rparr>,
      wq_IndexGroup = indexGroup, wq_IndexOffset = indexOffset,
      wq_Length = of_nat (length data), wq_Data = data\<rparr>"

definition NewReadWriteRequest :: "Addr \<Rightarrow> Addr \<Rightarrow> u32 \<Rightarrow> u32 \<Rightarrow> u32 \<Rightarrow> bytes \<Rightarrow> ReadWriteRequest" where
  "NewReadWriteRequest target sender indexGroup indexOffset readLength data =
     \<lparr>rwq_tcpHeader = \<lparr>tcp_Reserved = 0, tcp_Length = amsHeaderLen + 16 + of_nat (length data)\<rparr>,
      rwq_amsHeader = zeroAMSHeader\<lparr>Target := target, Sender := sender, CmdID := CmdADSReadWrite,
         StateFlags := StateADSCommand, ams_Length := 16 + of_nat (length data)\<rparr>,
      rwq_IndexGroup = indexGroup, rwq_IndexOffset = indexOffset, rwq_ReadLength = readLength,
      rwq_WriteLength = of_nat (length data), rwq_Data = data\<rparr>"

definition ReadRequest_Encode :: "ReadRequest \<Rightarrow> Buffer \<Rightarrow> error option \<times> Buffer" where
  "ReadRequest_Encode r b =
     (let b1 = WriteStruct_TCPHeader (rq_tcpHeader r) b;
          b2 = WriteStruct_AMSHeader (rq_amsHeader r) b1;
          b3 = WriteUint32 (rq_IndexGroup r) b2;
          b4 = WriteUint32 (rq_IndexOffset r) b3;
          b5 = WriteUint32 (rq_Length r) b4
      in (err b5, b5))"

definition WriteRequest_Encode :: "WriteRequest \<Rightarrow> Buffer \<Rightarrow> error option \<times> Buffer" where
  "WriteRequest_Encode r b =
     (let b1 = WriteStruct_TCPHeader (wq_tcpHeader r) b;
          b2 = WriteStruct_AMSHeader (wq_amsHeader r) b1;
          b3 = WriteUint32 (wq_IndexGroup r) b2;
          b4 = WriteUint32 (wq_IndexOffset r) b3;
          b5 = WriteUint32 (wq_Length r) b4;
          b6 = WriteN (wq_Data r) (unat (wq_Length r)) b5
      in (err b6, b6))"

definition ReadWriteRequest_Encode :: "ReadWriteRequest \<Rightarrow> Buffer \<Rightarrow> error option \<times> Buffer" where
  "ReadWriteRequest_Encode r b =
     (let b1 = WriteStruct_TCPHeader (rwq_tcpHeader r) b;
          b2 = WriteStruct_AMSHeader (rwq_amsHeader r) b1;
          b3 = WriteUint32 (rwq_IndexGroup r) b2;
          b4 = WriteUint32 (rwq_IndexOffset r) b3;
          b5 = WriteUint32 (rwq_ReadLength r) b4;
          b6 = WriteUint32 (rwq_WriteLength r) b5;
          b7 = WriteN (rwq_Data r) (unat (rwq_WriteLength r)) b6
      in (err b7, b7))"

section \<open>The transport (\<^verbatim>\<open>client.go\<close>)\<close>

subsection \<open>Packets as values of the \<^verbatim>\<open>packet\<close> interface\<close>

text \<open>
  The interface \<^verbatim>\<open>packet\<close> has the methods \<^verbatim>\<open>Header\<close>, \<^verbatim>\<open>Decode\<close> and \<^verbatim>\<open>Encode\<close>. The
  values that flow through the client are the requests it sends and the packets the
  receive pump decodes; each is a sum over the concrete struct types, and the interface
  methods dispatch on the constructor. \<open>packet_type\<close> names the empty packet the pump
  allocates before it decodes into it.
\<close>

datatype request =
    ReqRead ReadRequest
  | ReqWrite WriteRequest
  | ReqReadWrite ReadWriteRequest
  | ReqAddDeviceNotification AddDeviceNotificationRequest
  | ReqDeleteDeviceNotification DeleteDeviceNotificationRequest

datatype packet =
    PktReadResponse ReadResponse
  | PktWriteResponse WriteResponse
  | PktReadWriteResponse ReadWriteResponse
  | PktReadStateRequest ReadStateRequest
  | PktDeviceNotificationRequest DeviceNotificationRequest
  | PktAddDeviceNotificationResponse AddDeviceNotificationResponse
  | PktDeleteDeviceNotificationResponse DeleteDeviceNotificationResponse

datatype packet_type =
    TReadResponse
  | TWriteResponse
  | TReadWriteResponse
  | TReadStateRequest
  | TDeviceNotificationRequest
  | TAddDeviceNotificationResponse
  | TDeleteDeviceNotificationResponse

fun request_Header :: "request \<Rightarrow> AMSHeader" where
  "request_Header (ReqRead r) = rq_amsHeader r"
| "request_Header (ReqWrite r) = wq_amsHeader r"
| "request_Header (ReqReadWrite r) = rwq_amsHeader r"
| "request_Header (ReqAddDeviceNotification r) = adn_amsHeader r"
| "request_Header (ReqDeleteDeviceNotification r) = ddn_amsHeader r"

fun request_set_InvokeID :: "u32 \<Rightarrow> request \<Rightarrow> request" where
  "request_set_InvokeID i (ReqRead r) = ReqRead (r\<lparr>rq_amsHeader := (rq_amsHeader r)\<lparr>InvokeID := i\<rparr>\<rparr>)"
| "request_set_InvokeID i (ReqWrite r) = ReqWrite (r\<lparr>wq_amsHeader := (wq_amsHeader r)\<lparr>InvokeID := i\<rparr>\<rparr>)"
| "request_set_InvokeID i (ReqReadWrite r) =
     ReqReadWrite (r\<lparr>rwq_amsHeader := (rwq_amsHeader r)\<lparr>InvokeID := i\<rparr>\<rparr>)"
| "request_set_InvokeID i (ReqAddDeviceNotification r) =
     ReqAddDeviceNotification (r\<lparr>adn_amsHeader := (adn_amsHeader r)\<lparr>InvokeID := i\<rparr>\<rparr>)"
| "request_set_InvokeID i (ReqDeleteDeviceNotification r) =
     ReqDeleteDeviceNotification (r\<lparr>ddn_amsHeader := (ddn_amsHeader r)\<lparr>InvokeID := i\<rparr>\<rparr>)"

fun request_Encode :: "request \<Rightarrow> Buffer \<Rightarrow> error option \<times> Buffer" where
  "request_Encode (ReqRead r) b = ReadRequest_Encode r b"
| "request_Encode (ReqWrite r) b = WriteRequest_Encode r b"
| "request_Encode (ReqReadWrite r) b = ReadWriteRequest_Encode r b"
| "request_Encode (ReqAddDeviceNotification r) b = AddDeviceNotificationRequest_Encode r b"
| "request_Encode (ReqDeleteDeviceNotification r) b = DeleteDeviceNotificationRequest_Encode r b"

fun packet_Header :: "packet \<Rightarrow> AMSHeader" where
  "packet_Header (PktReadResponse r) = rd_amsHeader r"
| "packet_Header (PktWriteResponse r) = wr_amsHeader r"
| "packet_Header (PktReadWriteResponse r) = rw_amsHeader r"
| "packet_Header (PktReadStateRequest r) = rsq_amsHeader r"
| "packet_Header (PktDeviceNotificationRequest r) = dn_amsHeader r"
| "packet_Header (PktAddDeviceNotificationResponse r) = adr_amsHeader r"
| "packet_Header (PktDeleteDeviceNotificationResponse r) = ddr_amsHeader r"

text \<open>
  \<^verbatim>\<open>pkt.Decode\<close>. Only the decoder of DeviceNotification packets allocates; the result is
  \<open>None\<close> where the decode does not return.
\<close>

fun packet_Decode :: "allocator \<Rightarrow> packet_type \<Rightarrow> Buffer \<Rightarrow> (error + packet) option" where
  "packet_Decode alloc TReadResponse b = Some (map_sum id PktReadResponse (ReadResponse_Decode b))"
| "packet_Decode alloc TWriteResponse b = Some (map_sum id PktWriteResponse (WriteResponse_Decode b))"
| "packet_Decode alloc TReadWriteResponse b =
     Some (map_sum id PktReadWriteResponse (ReadWriteResponse_Decode b))"
| "packet_Decode alloc TReadStateRequest b =
     Some (map_sum id PktReadStateRequest (ReadStateRequest_Decode b))"
| "packet_Decode alloc TDeviceNotificationRequest b =
     map_option (map_sum id PktDeviceNotificationRequest) (DeviceNotificationRequest_Decode alloc b)"
| "packet_Decode alloc TAddDeviceNotificationResponse b =
     Some (map_sum id PktAddDeviceNotificationResponse (AddDeviceNotificationResponse_Decode b))"
| "packet_Decode alloc TDeleteDeviceNotificationResponse b =
     Some (map_sum id PktDeleteDeviceNotificationResponse (DeleteDeviceNotificationResponse_Decode b))"

text \<open>The \<^verbatim>\<open>switch\<close> of the pump that picks the packet type, in the order of the source.\<close>

definition select_packet_type :: "AMSHeader \<Rightarrow> packet_type option" where
  "select_packet_type h =
     (if IsReadResponse h then Some TReadResponse
      else if IsWriteResponse h then Some TWriteResponse
      else if IsReadWriteResponse h then Some TReadWriteResponse
      else if IsReadStateRequest h then Some TReadStateRequest
      else if IsDeviceNotificationRequest h then Some TDeviceNotificationRequest
      else if IsAddDeviceNotificationResponse h then Some TAddDeviceNotificationResponse
      else if IsDeleteDeviceNotificationResponse h then Some TDeleteDeviceNotificationResponse
      else None)"

subsection \<open>The client state\<close>

text \<open>
  The fields of \<^verbatim>\<open>Client\<close> that the pump and \<^verbatim>\<open>send\<close> touch. A response channel
  (\<^verbatim>\<open>chan ams.Response\<close> of capacity 1) is an entry of \<open>chans\<close>: its buffered values and
  whether it is closed; \<open>handler\<close> maps an invoke-id to the number of its channel. What the
  client does to the outside is recorded in the state: \<open>conn_writes\<close> are the byte slices
  passed to \<^verbatim>\<open>conn.Write\<close>, \<open>logged\<close> the calls of \<^verbatim>\<open>log.Printf\<close>, \<open>callback_calls\<close> the
  packets handed to the notification callback. A callback is a function that tells whether
  the call returns or panics.
\<close>

datatype log_entry =
    LogUnknownPacket Header
  | LogFailedDecodeNotification error
  | LogFailedDecode error
  | LogNoHandler u32
  | LogCallbackPanic

datatype callback_result = CallbackReturns | CallbackPanics

record chan =
  chan_buf :: "packet list"
  chan_closed :: bool

record Client =
  nextInvokeID :: u32
  handler :: "u32 \<rightharpoonup> nat"
  chans :: "chan list"
  adsState :: u16
  deviceState :: u16
  notificationCallback :: "(DeviceNotificationRequest \<Rightarrow> callback_result) option"
  conn_writes :: "bytes list"
  logged :: "log_entry list"
  callback_calls :: "DeviceNotificationRequest list"

definition SetNotificationCallback ::
  "(DeviceNotificationRequest \<Rightarrow> callback_result) option \<Rightarrow> Client \<Rightarrow> Client" where
  "SetNotificationCallback callback c = c\<lparr>notificationCallback := callback\<rparr>"

text \<open>
  What the environment decides in one round of the pump: what \<^verbatim>\<open>conn.Read\<close> returns (an
  error, or the bytes read, at most 1500), what \<^verbatim>\<open>conn.Write\<close> returns should the round
  write, whether the \<^verbatim>\<open>select\<close> that delivers a response takes the \<^verbatim>\<open>ctx.Done()\<close> case
  (possible only once the context is cancelled), and which blocks of memory the runtime can
  provide during the round. A round ends in one of three ways: the loop continues, the
  pump returns an error, or the process ends in a failed allocation (\<open>Crash\<close>).
\<close>

record pump_input =
  read_result :: "error + bytes"
  write_result :: "error option"
  select_ctx_done :: bool
  can_alloc :: allocator

datatype pump_result = Continue | Return error | Crash

subsection \<open>Answering an inbound ReadState request\<close>

text \<open>
  \<^verbatim>\<open>sendResponse\<close> takes any packet; its one caller passes a ReadStateResponse, and \<open>wr\<close> is
  what \<^verbatim>\<open>conn.Write\<close> returns.
\<close>

definition sendResponse :: "error option \<Rightarrow> AMSHeader \<Rightarrow> ReadStateResponse \<Rightarrow> Client \<Rightarrow> error option \<times> Client" where
  "sendResponse wr req_hdr pkt c =
     (let pkt' = pkt\<lparr>rsr_amsHeader := (rsr_amsHeader pkt)\<lparr>InvokeID := InvokeID req_hdr\<rparr>\<rparr>
      in case ReadStateResponse_Encode pkt' (NewBuffer []) of
           (Some e, b) \<Rightarrow> (Some e, c)
         | (None, b) \<Rightarrow> (wr, c\<lparr>conn_writes := conn_writes c @ [Bytes b]\<rparr>))"

definition handleReadStateRequest :: "error option \<Rightarrow> ReadStateRequest \<Rightarrow> Client \<Rightarrow> error option \<times> Client" where
  "handleReadStateRequest wr req c =
     (let hdr = rsq_amsHeader req;
          resp = NewReadStateResponse (Sender hdr) (Target hdr) NoError (adsState c) (deviceState c)
      in sendResponse wr (rsq_amsHeader req) resp c)"

subsection \<open>The receive pump\<close>

text \<open>The last \<^verbatim>\<open>case\<close> of the pump: forward a decoded response to its handler channel.\<close>

definition forward_response :: "bool \<Rightarrow> u32 \<Rightarrow> packet \<Rightarrow> Client \<Rightarrow> Client" where
  "forward_response ctx_done invokeID pkt c =
     (let h = handler c invokeID;
          c1 = c\<lparr>handler := (handler c)(invokeID := None)\<rparr>
      in case h of
           None \<Rightarrow> c1\<lparr>logged := logged c1 @ [LogNoHandler invokeID]\<rparr>
         | Some ch \<Rightarrow>
             if ctx_done then c1
             else c1\<lparr>chans := (chans c1)[ch := \<lparr>chan_buf = chan_buf (chans c1 ! ch) @ [pkt],
                                                 chan_closed = True\<rparr>]\<rparr>)"

text \<open>One round of the \<^verbatim>\<open>for\<close> loop of \<^verbatim>\<open>receive\<close>.\<close>

definition receive_step :: "pump_input \<Rightarrow> Client \<Rightarrow> pump_result \<times> Client" where
  "receive_step ev c =
     (case read_result ev of
        Inl e \<Rightarrow> (Return e, c)
      | Inr data \<Rightarrow>
     (case Header_Decode (NewBuffer data) of
        Inl e \<Rightarrow> (Return e, c)
      | Inr hdr \<Rightarrow>
     (case select_packet_type (hdr_AMSHeader hdr) of
        None \<Rightarrow> (Continue, c\<lparr>logged := logged c @ [LogUnknownPacket hdr]\<rparr>)
      | Some ty \<Rightarrow>
     (case packet_Decode (can_alloc ev) ty (NewBuffer data) of
        None \<Rightarrow> (Crash, c)
      | Some (Inl e) \<Rightarrow>
          if ty = TDeviceNotificationRequest
          then (Continue,
                if notificationCallback c \<noteq> None
                then c\<lparr>logged := logged c @ [LogFailedDecodeNotification e]\<rparr> else c)
          else (Return e, c\<lparr>logged := logged c @ [LogFailedDecode e]\<rparr>)
      | Some (Inr pkt) \<Rightarrow>
     (case pkt of
        PktReadStateRequest req \<Rightarrow>
          (case handleReadStateRequest (write_result ev) req c of
             (Some e, c') \<Rightarrow> (Return e, c')
           | (None, c') \<Rightarrow> (Continue, c'))
      | PktDeviceNotificationRequest req \<Rightarrow>
          (case notificationCallback c of
             None \<Rightarrow> (Continue, c)
           | Some callback \<Rightarrow>
               (Continue,
                c\<lparr>callback_calls := callback_calls c @ [req],
                  logged := (if callback req = CallbackPanics then logged c @ [LogCallbackPanic]
                             else logged c)\<rparr>))
      | _ \<Rightarrow>
          (Continue,
           forward_response (select_ctx_done ev) (InvokeID (hdr_AMSHeader hdr)) pkt c))))))"

text \<open>
  The loop over the rounds the environment supplies. It ends with the pump blocked in the
  next \<^verbatim>\<open>conn.Read\<close> (the rounds are used up), with the pump returned, or with the process
  ended by a failed allocation; in the last case no further round is run.
\<close>

datatype pump_exit = Blocked | Returned error | Crashed

fun receive_loop :: "pump_input list \<Rightarrow> Client \<Rightarrow> pump_exit \<times> Client" where
  "receive_loop [] c = (Blocked, c)"
| "receive_loop (ev # evs) c =
     (case receive_step ev c of
        (Return e, c') \<Rightarrow> (Returned e, c')
      | (Crash, c') \<Rightarrow> (Crashed, c')
      | (Continue, c') \<Rightarrow> receive_loop evs c')"

text \<open>
  \<^verbatim>\<open>receive\<close>: the states are set to Run on entry and, deferred, to Stop on return. When the
  process ends there is no client left, and the state is given as it was.
\<close>

definition receive :: "pump_input list \<Rightarrow> Client \<Rightarrow> pump_exit \<times> Client" where
  "receive evs c =
     (case receive_loop evs (c\<lparr>adsState := ADSStateRun, deviceState := ADSStateRun\<rparr>) of
        (Returned e, c') \<Rightarrow> (Returned e, c'\<lparr>deviceState := ADSStateStop, adsState := ADSStateStop\<rparr>)
      | (Crashed, c') \<Rightarrow> (Crashed, c')
      | (Blocked, c') \<Rightarrow> (Blocked, c'))"

subsection \<open>Sending a request\<close>

text \<open>
  \<^verbatim>\<open>send\<close> blocks in its final \<^verbatim>\<open>select\<close>, so it is split where it blocks. \<open>send_begin\<close> is
  everything up to the \<^verbatim>\<open>select\<close>: the fresh invoke-id, the encoding, the registration of a
  new channel and the write (\<open>wr\<close> is what \<^verbatim>\<open>conn.Write\<close> returns); it yields the error
  returned, or the invoke-id and the channel to wait on. \<open>send_wait\<close> is the \<^verbatim>\<open>select\<close>: the
  environment says which case fires, and the result is \<open>None\<close> where that case cannot fire
  (a receive from a channel with nothing buffered that is still open).
\<close>

definition send_begin :: "error option \<Rightarrow> request \<Rightarrow> Client \<Rightarrow> (error + u32 \<times> nat) \<times> Client" where
  "send_begin wr pkt c =
     (let invokeID = nextInvokeID c + 1;
          c1 = c\<lparr>nextInvokeID := invokeID\<rparr>;
          pkt' = request_set_InvokeID invokeID pkt
      in case request_Encode pkt' (NewBuffer []) of
           (Some e, b) \<Rightarrow> (Inl e, c1)
         | (None, b) \<Rightarrow>
             let h = length (chans c1);
                 c2 = c1\<lparr>chans := chans c1 @ [\<lparr>chan_buf = [], chan_closed = False\<rparr>],
                         handler := (handler c1)(InvokeID (request_Header pkt') \<mapsto> h)\<rparr>;
                 c3 = c2\<lparr>conn_writes := conn_writes c2 @ [Bytes b]\<rparr>
             in case wr of
                  Some e \<Rightarrow>
                    (Inl e, c3\<lparr>handler := (handler c3)(InvokeID (request_Header pkt') := None)\<rparr>)
                | None \<Rightarrow> (Inr (InvokeID (request_Header pkt'), h), c3))"

datatype wait_event = CtxDone error | TimeoutElapsed | ResponseReady

definition send_wait ::
  "wait_event \<Rightarrow> nat \<Rightarrow> (packet option \<Rightarrow> error option) \<Rightarrow> Client \<Rightarrow> (error option \<times> Client) option" where
  "send_wait ev h cb c =
     (case ev of
        CtxDone e \<Rightarrow> Some (Some e, c)
      | TimeoutElapsed \<Rightarrow> Some (Some ErrTimeout, c)
      | ResponseReady \<Rightarrow>
          (case chan_buf (chans c ! h) of
             r # rs \<Rightarrow> Some (cb (Some r), c\<lparr>chans := (chans c)[h := (chans c ! h)\<lparr>chan_buf := rs\<rparr>]\<rparr>)
           | [] \<Rightarrow> if chan_closed (chans c ! h) then Some (cb None, c) else None))"

text \<open>
  The callback with which \<^verbatim>\<open>Client.Read\<close> calls \<^verbatim>\<open>send\<close>: it accepts a Read response and
  rejects every other value (a receive from a closed, empty channel yields \<^verbatim>\<open>nil\<close>).
\<close>

definition Read_callback :: "packet option \<Rightarrow> error option" where
  "Read_callback r = (case r of Some (PktReadResponse x) \<Rightarrow> None | _ \<Rightarrow> Some ErrTypeMismatch)"

section \<open>Symbols and struct fields (\<^verbatim>\<open>symbol.go\<close>)\<close>

text \<open>
  \<^verbatim>\<open>StructField\<close> contains a slice of itself, so it is a datatype. Its field \<^verbatim>\<open>Value\<close> (an
  \<^verbatim>\<open>interface{}\<close> filled in only when field values are printed) is left out.
\<close>

datatype StructField =
  StructField (sf_Name: string) (sf_DataType: string) (sf_Offset: u32) (sf_Size: u32)
    (sf_Fields: "StructField list")

record Symbol =
  sym_Name :: string
  sym_DataType :: string
  sym_Size :: u32
  sym_Fields :: "StructField list"

text \<open>Conversions between a Go string and its bytes, and the slice expression \<^verbatim>\<open>d[a:b]\<close>.\<close>

definition bytes_of_string :: "string \<Rightarrow> bytes" where
  "bytes_of_string n = map of_char n"

definition string_of_bytes :: "bytes \<Rightarrow> string" where
  "string_of_bytes d = map (\<lambda>b. char_of (unat b)) d"

definition slice :: "'a list \<Rightarrow> nat \<Rightarrow> nat \<Rightarrow> 'a list" where
  "slice d a b = take (b - a) (drop a d)"

text \<open>The loop that cuts a string at its first NUL byte.\<close>

definition cut_at_nul :: "bytes \<Rightarrow> bytes" where
  "cut_at_nul d = takeWhile (\<lambda>b. b \<noteq> 0) d"

text \<open>
  \<^verbatim>\<open>FindFieldByPathWithOffset\<close>: the \<^verbatim>\<open>for\<close> loop returns at the first field whose name is
  \<^verbatim>\<open>path[0]\<close>, so it is \<open>find\<close>; the offset is added in \<^verbatim>\<open>uint32\<close>.
\<close>

fun FindFieldByPathWithOffset ::
  "StructField list \<Rightarrow> string list \<Rightarrow> u32 \<Rightarrow> error + (StructField \<times> u32)" where
  "FindFieldByPathWithOffset flds [] baseOffset = Inl ErrEmptyPath"
| "FindFieldByPathWithOffset flds (p # ps) baseOffset =
     (case find (\<lambda>f. sf_Name f = p) flds of
        None \<Rightarrow> Inl (ErrFieldNotFound p)
      | Some f \<Rightarrow>
          let currentOffset = baseOffset + sf_Offset f
          in if ps = [] then Inr (f, currentOffset)
             else FindFieldByPathWithOffset (sf_Fields f) ps currentOffset)"

text \<open>
  The walk the spec describes, kept apart from the code: the fields met along a path from
  the root, each looked up by name among the fields of the one before.
\<close>

fun fields_along :: "StructField list \<Rightarrow> string list \<Rightarrow> StructField list option" where
  "fields_along flds [] = Some []"
| "fields_along flds (p # ps) =
     (case find (\<lambda>f. sf_Name f = p) flds of
        None \<Rightarrow> None
      | Some f \<Rightarrow> map_option ((#) f) (fields_along (sf_Fields f) ps))"

text \<open>
  The absolute offset the spec describes, likewise kept apart from the code: the sum of the
  relative offsets of the fields along the path, as a number.
\<close>

definition offset_along :: "StructField list \<Rightarrow> nat" where
  "offset_along chain = sum_list (map (\<lambda>g. unat (sf_Offset g)) chain)"

section \<open>The session (\<^verbatim>\<open>session.go\<close>)\<close>

record SymbolInfo =
  si_Name :: string
  si_DataType :: string
  si_Size :: u32
  si_IndexGroup :: u32
  si_IndexOffset :: u32
  si_Handle :: u32
  si_Comment :: string
  si_Fields :: "StructField list"

text \<open>
  A session is its two addresses, its symbol registry (a map from names to symbol infos)
  and its client. Of the client the session layer sees only round trips, so the client is
  represented by \<open>sent\<close>, the requests handed to \<^verbatim>\<open>Client.send\<close> so far, oldest first.

  The registry stores pointers to \<^verbatim>\<open>SymbolInfo\<close>. Every pointer is stored under one name
  only, and the functions below that change an info through a pointer store it back under
  that name, so a map to values describes the same states.
\<close>

record Session =
  targetAddr :: Addr
  senderAddr :: Addr
  registry :: "string \<rightharpoonup> SymbolInfo"
  sent :: "request list"

text \<open>
  The outcome of a round trip is decided by the PLC and the network: \<^verbatim>\<open>send\<close> returns an
  error (a failed write, a timeout, a cancelled context) or hands the response that the
  pump delivered to the callback. The environment is a function from the requests sent
  before and the request sent now to that outcome.
\<close>

type_synonym plc = "request list \<Rightarrow> request \<Rightarrow> error + packet"

definition Client_send :: "plc \<Rightarrow> request \<Rightarrow> Session \<Rightarrow> (error + packet) \<times> Session" where
  "Client_send srv req s = (srv (sent s) req, s\<lparr>sent := sent s @ [req]\<rparr>)"

text \<open>The typed wrappers of \<^verbatim>\<open>send\<close>: the callback accepts a response of the expected type only.\<close>

definition Client_Read :: "plc \<Rightarrow> ReadRequest \<Rightarrow> Session \<Rightarrow> (error + ReadResponse) \<times> Session" where
  "Client_Read srv r s =
     (case Client_send srv (ReqRead r) s of
        (Inl e, s') \<Rightarrow> (Inl e, s')
      | (Inr (PktReadResponse x), s') \<Rightarrow> (Inr x, s')
      | (Inr _, s') \<Rightarrow> (Inl ErrTypeMismatch, s'))"

definition Client_ReadWrite :: "plc \<Rightarrow> ReadWriteRequest \<Rightarrow> Session \<Rightarrow> (error + ReadWriteResponse) \<times> Session" where
  "Client_ReadWrite srv r s =
     (case Client_send srv (ReqReadWrite r) s of
        (Inl e, s') \<Rightarrow> (Inl e, s')
      | (Inr (PktReadWriteResponse x), s') \<Rightarrow> (Inr x, s')
      | (Inr _, s') \<Rightarrow> (Inl ErrTypeMismatch, s'))"

definition Client_Write :: "plc \<Rightarrow> WriteRequest \<Rightarrow> Session \<Rightarrow> (error + WriteResponse) \<times> Session" where
  "Client_Write srv r s =
     (case Client_send srv (ReqWrite r) s of
        (Inl e, s') \<Rightarrow> (Inl e, s')
      | (Inr (PktWriteResponse x), s') \<Rightarrow> (Inr x, s')
      | (Inr _, s') \<Rightarrow> (Inl ErrTypeMismatch, s'))"

definition Client_AddDeviceNotification ::
  "plc \<Rightarrow> AddDeviceNotificationRequest \<Rightarrow> Session \<Rightarrow> (error + AddDeviceNotificationResponse) \<times> Session" where
  "Client_AddDeviceNotification srv r s =
     (case Client_send srv (ReqAddDeviceNotification r) s of
        (Inl e, s') \<Rightarrow> (Inl e, s')
      | (Inr (PktAddDeviceNotificationResponse x), s') \<Rightarrow> (Inr x, s')
      | (Inr _, s') \<Rightarrow> (Inl ErrTypeMismatch, s'))"

definition Client_DeleteDeviceNotification ::
  "plc \<Rightarrow> DeleteDeviceNotificationRequest \<Rightarrow> Session \<Rightarrow> (error + DeleteDeviceNotificationResponse) \<times> Session" where
  "Client_DeleteDeviceNotification srv r s =
     (case Client_send srv (ReqDeleteDeviceNotification r) s of
        (Inl e, s') \<Rightarrow> (Inl e, s')
      | (Inr (PktDeleteDeviceNotificationResponse x), s') \<Rightarrow> (Inr x, s')
      | (Inr _, s') \<Rightarrow> (Inl ErrTypeMismatch, s'))"

text \<open>
  Modelled from the spec: the constant \<^verbatim>\<open>ams.IdxGetSymHandleByName\<close> is not among the source
  files. The spec names the index group (get symbol handle by name) without its number;
  \<open>0xF003\<close> is the number ADS gives it, and no theorem below depends on it.
\<close>

definition IdxGetSymHandleByName :: u32 where "IdxGetSymHandleByName = 0xF003"

text \<open>\<^verbatim>\<open>Client.GetSymHandleByName\<close> (\<^verbatim>\<open>client.go\<close>).\<close>

definition GetSymHandleByName :: "plc \<Rightarrow> Addr \<Rightarrow> Addr \<Rightarrow> string \<Rightarrow> Session \<Rightarrow> (error + u32) \<times> Session" where
  "GetSymHandleByName srv targetID senderID name s =
     (let req = NewReadWriteRequest targetID senderID IdxGetSymHandleByName 0 4 (bytes_of_string name)
      in case Client_ReadWrite srv req s of
           (Inl e, s') \<Rightarrow> (Inl (ErrFailedGetSymHandleByName name e), s')
         | (Inr res, s') \<Rightarrow>
             if ErrorCode (rw_amsHeader res) \<noteq> NoError
             then (Inl (ErrFailedReadWrite (ErrorCode (rw_amsHeader res))), s')
             else if length (rw_Data res) < 4
             then (Inl (ErrNotEnoughData (length (rw_Data res))), s')
             else (Inr (Uint32 (take 4 (rw_Data res))), s'))"

text \<open>\<^verbatim>\<open>Client.GetSymbol\<close> (\<^verbatim>\<open>symbol.go\<close>): the single-symbol fetch.\<close>

definition Client_GetSymbol :: "plc \<Rightarrow> Addr \<Rightarrow> Addr \<Rightarrow> string \<Rightarrow> Session \<Rightarrow> (error + Symbol) \<times> Session" where
  "Client_GetSymbol srv target sender name s =
     (let nameBytes = bytes_of_string name @ [0];
          req = NewReadWriteRequest target sender 0xF009 0 0xFFFF nameBytes
      in case Client_ReadWrite srv req s of
           (Inl e, s') \<Rightarrow> (Inl (Wrap ''failed to get symbol info'' e), s')
         | (Inr resp, s') \<Rightarrow>
             if length (rw_Data resp) < 32
             then (Inl (ErrInvalidSymbolInfo (length (rw_Data resp))), s')
             else
               let size = Uint32 (slice (rw_Data resp) 12 16);
                   nameLength = Uint16 (slice (rw_Data resp) 24 26);
                   typeLength = Uint16 (slice (rw_Data resp) 26 28);
                   typeStart = 30 + unat nameLength + 1;
                   typeEnd = typeStart + unat typeLength;
                   dataType =
                     (if typeEnd \<le> length (rw_Data resp)
                      then let dt = slice (rw_Data resp) typeStart typeEnd
                           in string_of_bytes
                                (if 0 < length dt \<and> dt ! 0 = 0 then take 0 dt else cut_at_nul dt)
                      else ''UNKNOWN'')
               in (Inr \<lparr>sym_Name = name, sym_DataType = dataType, sym_Size = size,
                         sym_Fields = []\<rparr>, s'))"

text \<open>The loop of \<^verbatim>\<open>Client.GetDataTypeInfo\<close> over the sub-items, on the sub-items still to read.\<close>

fun parse_subitems :: "nat \<Rightarrow> nat \<Rightarrow> bytes \<Rightarrow> StructField list" where
  "parse_subitems 0 offset d = []"
| "parse_subitems (Suc n) offset d =
     (if \<not> offset < length d then []
      else if offset + 42 > length d then []
      else
        let fieldSize = Uint32 (slice d (offset + 16) (offset + 20));
            fieldOffset = Uint32 (slice d (offset + 20) (offset + 24));
            fieldNameLen = Uint16 (slice d (offset + 32) (offset + 34));
            fieldTypeLen = Uint16 (slice d (offset + 34) (offset + 36));
            fieldNameStart = offset + 42;
            fieldNameEnd = fieldNameStart + unat fieldNameLen
        in if fieldNameEnd > length d then []
           else
             let fieldName = string_of_bytes (cut_at_nul (slice d fieldNameStart fieldNameEnd));
                 fieldTypeStart = fieldNameEnd + 1;
                 fieldTypeEnd = fieldTypeStart + unat fieldTypeLen
             in if fieldTypeEnd > length d then []
                else
                  let fieldType = string_of_bytes (cut_at_nul (slice d fieldTypeStart fieldTypeEnd));
                      entryLength = Uint32 (slice d offset (offset + 4))
                  in StructField fieldName fieldType fieldOffset fieldSize []
                       # parse_subitems n (offset + unat entryLength) d)"

definition GetDataTypeInfo ::
  "plc \<Rightarrow> Addr \<Rightarrow> Addr \<Rightarrow> string \<Rightarrow> Session \<Rightarrow> (error + StructField list) \<times> Session" where
  "GetDataTypeInfo srv target sender typeName s =
     (let typeBytes = bytes_of_string typeName @ [0];
          req = NewReadWriteRequest target sender 0xF011 0 0xFFFF typeBytes
      in case Client_ReadWrite srv req s of
           (Inl e, s') \<Rightarrow> (Inl (Wrap ''failed to get data type info'' e), s')
         | (Inr resp, s') \<Rightarrow>
             if length (rw_Data resp) < 32 then (Inl ErrInvalidDataTypeInfo, s')
             else if length (rw_Data resp) < 42 then (Inl ErrDataTypeInfoTooShort, s')
             else
               let subItems = Uint16 (slice (rw_Data resp) 40 42)
               in if subItems = 0 then (Inr [], s')
                  else
                    let nameLength = Uint16 (slice (rw_Data resp) 32 34);
                        typeLength = Uint16 (slice (rw_Data resp) 34 36);
                        commentLength = Uint16 (slice (rw_Data resp) 36 38);
                        offset = 42 + unat nameLength + 1 + unat typeLength + 1
                                 + unat commentLength + 1
                    in (Inr (parse_subitems (unat subItems) offset (rw_Data resp)), s'))"

text \<open>\<^verbatim>\<open>Session.GetSymbol\<close>: the cache first, the PLC on a miss.\<close>

definition Session_GetSymbol :: "plc \<Rightarrow> string \<Rightarrow> Session \<Rightarrow> (error + SymbolInfo) \<times> Session" where
  "Session_GetSymbol srv name s =
     (case registry s name of
        Some info \<Rightarrow> (Inr info, s)
      | None \<Rightarrow>
          (case Client_GetSymbol srv (targetAddr s) (senderAddr s) name s of
             (Inl e, s') \<Rightarrow> (Inl e, s')
           | (Inr symbol, s') \<Rightarrow>
               let info = \<lparr>si_Name = sym_Name symbol, si_DataType = sym_DataType symbol,
                            si_Size = sym_Size symbol, si_IndexGroup = 0, si_IndexOffset = 0,
                            si_Handle = 0, si_Comment = [], si_Fields = sym_Fields symbol\<rparr>
               in (Inr info, s'\<lparr>registry := (registry s')(name \<mapsto> info)\<rparr>)))"

definition getOrCreateHandle :: "plc \<Rightarrow> string \<Rightarrow> Session \<Rightarrow> (error + u32) \<times> Session" where
  "getOrCreateHandle srv name s =
     (case registry s name of
        Some info \<Rightarrow>
          if si_Handle info \<noteq> 0 then (Inr (si_Handle info), s)
          else
            (case GetSymHandleByName srv (targetAddr s) (senderAddr s) name s of
               (Inl e, s') \<Rightarrow> (Inl e, s')
             | (Inr handle, s') \<Rightarrow>
                 (Inr handle,
                  s'\<lparr>registry := (registry s')(name \<mapsto>
                     (case registry s' name of
                        Some info' \<Rightarrow> info'\<lparr>si_Handle := handle\<rparr>
                      | None \<Rightarrow> \<lparr>si_Name = name, si_DataType = [], si_Size = 0,
                                   si_IndexGroup = 0, si_IndexOffset = 0, si_Handle = handle,
                                   si_Comment = [], si_Fields = []\<rparr>))\<rparr>))
      | None \<Rightarrow>
          (case GetSymHandleByName srv (targetAddr s) (senderAddr s) name s of
             (Inl e, s') \<Rightarrow> (Inl e, s')
           | (Inr handle, s') \<Rightarrow>
               (Inr handle,
                s'\<lparr>registry := (registry s')(name \<mapsto>
                   (case registry s' name of
                      Some info' \<Rightarrow> info'\<lparr>si_Handle := handle\<rparr>
                    | None \<Rightarrow> \<lparr>si_Name = name, si_DataType = [], si_Size = 0,
                                 si_IndexGroup = 0, si_IndexOffset = 0, si_Handle = handle,
                                 si_Comment = [], si_Fields = []\<rparr>))\<rparr>)))"

text \<open>
  \<^verbatim>\<open>copy(data[lo:hi], src)\<close>: the bytes of \<open>src\<close>, as many as fit into the slice, overwrite
  \<open>data\<close> from \<open>lo\<close> on.
\<close>

definition copy_into :: "bytes \<Rightarrow> nat \<Rightarrow> nat \<Rightarrow> bytes \<Rightarrow> bytes" where
  "copy_into data lo hi src =
     (let n = min (hi - lo) (length src)
      in take lo data @ take n src @ drop (lo + n) data)"

text \<open>
  \<^verbatim>\<open>Session.WriteNestedField\<close>. The variable \<^verbatim>\<open>info\<close> is the pointer that the registry holds
  for \<^verbatim>\<open>rootVar\<close>, so after \<^verbatim>\<open>getOrCreateHandle\<close> it is read again from the registry.
\<close>

definition WriteNestedField :: "plc \<Rightarrow> string \<Rightarrow> string list \<Rightarrow> bytes \<Rightarrow> Session \<Rightarrow> error option \<times> Session" where
  "WriteNestedField srv rootVar fieldPath fieldData s =
     (case Session_GetSymbol srv rootVar s of
        (Inl e, s1) \<Rightarrow> (Some (Wrap ''failed to get symbol info'' e), s1)
      | (Inr info0, s1) \<Rightarrow>
     (case getOrCreateHandle srv rootVar s1 of
        (Inl e, s2) \<Rightarrow> (Some (Wrap ''failed to get handle'' e), s2)
      | (Inr handle, s2) \<Rightarrow>
     (let info = (case registry s2 rootVar of Some i \<Rightarrow> i | None \<Rightarrow> info0);
          req = NewReadRequest (targetAddr s2) (senderAddr s2) 0xF005 handle (si_Size info)
      in case Client_Read srv req s2 of
        (Inl e, s3) \<Rightarrow> (Some (Wrap ''failed to read struct'' e), s3)
      | (Inr resp, s3) \<Rightarrow>
     (case (if length (si_Fields info) = 0
            then (case GetDataTypeInfo srv (targetAddr s3) (senderAddr s3) (si_DataType info) s3 of
                    (Inl e, s4) \<Rightarrow> (Inl (Wrap ''failed to get data type info'' e), s4)
                  | (Inr flds, s4) \<Rightarrow>
                      (Inr flds,
                       s4\<lparr>registry := (registry s4)(rootVar \<mapsto> info\<lparr>si_Fields := flds\<rparr>)\<rparr>))
            else (Inr (si_Fields info), s3)) of
        (Inl e, s4) \<Rightarrow> (Some e, s4)
      | (Inr flds, s4) \<Rightarrow>
     (case FindFieldByPathWithOffset flds fieldPath 0 of
        Inl e \<Rightarrow> (Some (Wrap ''field not found'' e), s4)
      | Inr (field, absoluteOffset) \<Rightarrow>
          let fieldEnd = unat absoluteOffset + unat (sf_Size field)
          in if fieldEnd > length (rd_Data resp) \<or> length fieldData \<noteq> unat (sf_Size field)
             then (Some ErrFieldDataSizeMismatch, s4)
             else
               let data = copy_into (rd_Data resp) (unat absoluteOffset) fieldEnd fieldData;
                   writeReq = NewWriteRequest (targetAddr s4) (senderAddr s4) 0xF005 handle data
               in (case Client_Write srv writeReq s4 of
                     (Inl e, s5) \<Rightarrow> (Some e, s5)
                   | (Inr w, s5) \<Rightarrow> (None, s5)))))))"

section \<open>The notification manager (\<^verbatim>\<open>notification.go\<close>)\<close>

subsection \<open>Wall-clock time\<close>

text \<open>
  A \<^verbatim>\<open>time.Time\<close> is an instant: whole seconds since 1970-01-01T00:00:00Z and the
  nanoseconds within that second. \<open>time_Unix\<close> is \<^verbatim>\<open>time.Unix\<close> of Go's standard library,
  which accepts nanoseconds outside \<open>[0, 999999999]\<close> and carries them into the seconds.
  Go's \<^verbatim>\<open>/\<close> and \<^verbatim>\<open>%\<close> on integers truncate towards zero: \<open>sdiv\<close> and \<open>smod\<close>.
\<close>

record Time =
  unix_sec :: int
  unix_nsec :: int

definition time_Unix :: "int \<Rightarrow> int \<Rightarrow> Time" where
  "time_Unix sec nsec =
     (if nsec < 0 \<or> nsec \<ge> 1000000000
      then let n = nsec sdiv 1000000000;
               sec1 = sec + n;
               nsec1 = nsec - n * 1000000000
           in if nsec1 < 0 then \<lparr>unix_sec = sec1 - 1, unix_nsec = nsec1 + 1000000000\<rparr>
              else \<lparr>unix_sec = sec1, unix_nsec = nsec1\<rparr>
      else \<lparr>unix_sec = sec, unix_nsec = nsec\<rparr>)"

text \<open>
  The calendar side, kept apart from the code: the instant that a UTC date and time of day
  names, by counting the days since 1970-01-01 in the Gregorian calendar. It gives meaning
  to a timestamp written as \<open>2021-01-01T00:00:00Z\<close>.
\<close>

definition is_leap_year :: "int \<Rightarrow> bool" where
  "is_leap_year y = (y mod 4 = 0 \<and> (y mod 100 \<noteq> 0 \<or> y mod 400 = 0))"

definition leap_years_before :: "int \<Rightarrow> int" where
  "leap_years_before y = (y - 1) div 4 - (y - 1) div 100 + (y - 1) div 400"

definition days_before_year :: "int \<Rightarrow> int" where
  "days_before_year y = 365 * (y - 1970) + (leap_years_before y - leap_years_before 1970)"

definition days_before_month :: "int \<Rightarrow> int \<Rightarrow> int" where
  "days_before_month y m =
     sum_list (take (nat (m - 1)) [31, if is_leap_year y then 29 else 28, 31, 30, 31, 30, 31, 31, 30, 31, 30, 31])"

definition Date_UTC :: "int \<Rightarrow> int \<Rightarrow> int \<Rightarrow> int \<Rightarrow> int \<Rightarrow> int \<Rightarrow> Time" where
  "Date_UTC y m d hh mm ss =
     \<lparr>unix_sec = (((days_before_year y + days_before_month y m + (d - 1)) * 24 + hh) * 60 + mm) * 60 + ss,
      unix_nsec = 0\<rparr>"

subsection \<open>Subscriptions\<close>

text \<open>
  A user callback is a Go function value; it is known here by a number, and \<open>None\<close> is the
  \<^verbatim>\<open>nil\<close> function. What the dispatcher does is the list of calls it makes: which callback,
  with which sample.
\<close>

type_synonym NotificationCallback = nat

record NotificationSample =
  ns_Handle :: u32
  ns_Timestamp :: Time
  ns_Data :: bytes

record notificationHandler =
  nh_handle :: u32
  nh_varName :: string
  nh_varHandle :: u32
  nh_callback :: "NotificationCallback option"
  nh_symbolInfo :: SymbolInfo

text \<open>
  The manager's own fields. Its session is passed along with it. A stop channel is known
  by its number: \<open>made\<close> counts the channels made so far, \<open>closed\<close> lists the ones closed,
  \<open>started\<close> counts the \<^verbatim>\<open>processNotifications\<close> goroutines started.
\<close>

record NotificationManager =
  handlers :: "u32 \<rightharpoonup> notificationHandler"
  stopCh :: nat
  running :: bool
  made :: nat
  closed :: "nat list"
  started :: nat

definition NewNotificationManager :: NotificationManager where
  "NewNotificationManager =
     \<lparr>handlers = Map.empty, stopCh = 0, running = False, made = 1, closed = [], started = 0\<rparr>"

definition TransModeServerCycle :: u32 where "TransModeServerCycle = 3"
definition TransModeServerOnChange :: u32 where "TransModeServerOnChange = 4"
definition TransModeCyclic :: u32 where "TransModeCyclic = 10"

text \<open>\<^verbatim>\<open>Subscribe\<close>; \<open>cycleTime\<close> is the \<^verbatim>\<open>time.Duration\<close>, a number of nanoseconds.\<close>

definition Subscribe ::
  "plc \<Rightarrow> string \<Rightarrow> int \<Rightarrow> NotificationCallback option \<Rightarrow> NotificationManager \<Rightarrow> Session
   \<Rightarrow> (error + u32) \<times> NotificationManager \<times> Session" where
  "Subscribe srv varName cycleTime callback nm s =
     (case getOrCreateHandle srv varName s of
        (Inl e, s1) \<Rightarrow> (Inl (Wrap (''failed to get handle for '' @ varName) e), nm, s1)
      | (Inr handle, s1) \<Rightarrow>
     (case registry s1 varName of
        None \<Rightarrow> (Inl (ErrSymbolNotInRegistry varName), nm, s1)
      | Some symbolInfo \<Rightarrow>
     (let attribs_Length = si_Size symbolInfo;
          attribs_TransMode = TransModeServerOnChange;
          attribs_MaxDelay = (word_of_int (cycleTime sdiv 100) :: u32);
          attribs_CycleTime = (word_of_int (cycleTime sdiv 100) :: u32);
          req = NewAddDeviceNotificationRequest (targetAddr s1) (senderAddr s1)
                  (si_IndexGroup symbolInfo) (si_IndexOffset symbolInfo)
                  attribs_Length attribs_TransMode attribs_MaxDelay attribs_CycleTime
      in case Client_AddDeviceNotification srv req s1 of
           (Inl e, s2) \<Rightarrow> (Inl (Wrap ''failed to add notification'' e), nm, s2)
         | (Inr resp, s2) \<Rightarrow>
             if adr_Result resp \<noteq> NoError then (Inl (ErrAddNotification (adr_Result resp)), nm, s2)
             else
               let notificationHandle = adr_NotificationHandle resp
               in (Inr notificationHandle,
                   nm\<lparr>handlers := (handlers nm)(notificationHandle \<mapsto>
                        \<lparr>nh_handle = notificationHandle, nh_varName = varName,
                         nh_varHandle = handle, nh_callback = callback,
                         nh_symbolInfo = symbolInfo\<rparr>)\<rparr>,
                   s2))))"

definition Unsubscribe ::
  "plc \<Rightarrow> u32 \<Rightarrow> NotificationManager \<Rightarrow> Session \<Rightarrow> error option \<times> NotificationManager \<times> Session" where
  "Unsubscribe srv notificationHandle nm s =
     (case handlers nm notificationHandle of
        None \<Rightarrow> (Some (ErrHandleNotFound notificationHandle), nm, s)
      | Some hnd \<Rightarrow>
          let nm1 = nm\<lparr>handlers := (handlers nm)(notificationHandle := None)\<rparr>;
              req = NewDeleteDeviceNotificationRequest (targetAddr s) (senderAddr s) notificationHandle
          in case Client_DeleteDeviceNotification srv req s of
               (Inl e, s1) \<Rightarrow> (Some (Wrap ''failed to delete notification'' e), nm1, s1)
             | (Inr resp, s1) \<Rightarrow>
                 if ddr_Result resp \<noteq> NoError
                 then (Some (ErrDeleteNotification (ddr_Result resp)), nm1, s1)
                 else (None, nm1, s1))"

subsection \<open>Start and Stop\<close>

definition Start :: "NotificationManager \<Rightarrow> error option \<times> NotificationManager" where
  "Start nm =
     (if running nm then (Some ErrAlreadyRunning, nm)
      else (None, nm\<lparr>running := True, stopCh := made nm, made := made nm + 1,
                      started := started nm + 1\<rparr>))"

definition Stop :: "NotificationManager \<Rightarrow> NotificationManager" where
  "Stop nm =
     (if \<not> running nm then nm
      else nm\<lparr>running := False, closed := closed nm @ [stopCh nm]\<rparr>)"

subsection \<open>The dispatcher installed by \<^verbatim>\<open>processNotifications\<close>\<close>

text \<open>The conversion of a stamp's FILETIME at the head of the loop over the stamps.\<close>

definition ticksPerSecond :: int where "ticksPerSecond = 10000000"
definition epochDiff :: int where "epochDiff = 11644473600"

definition stamp_time :: "u64 \<Rightarrow> Time" where
  "stamp_time ts =
     (let secs = sint ts sdiv ticksPerSecond - epochDiff;
          nsecs = (sint ts smod ticksPerSecond) * 100
      in time_Unix secs nsecs)"

text \<open>The loop over the samples of one stamp.\<close>

fun dispatch_samples ::
  "(u32 \<rightharpoonup> notificationHandler) \<Rightarrow> Time \<Rightarrow> ams_NotificationSample list
   \<Rightarrow> (NotificationCallback \<times> NotificationSample) list" where
  "dispatch_samples hs timestamp [] = []"
| "dispatch_samples hs timestamp (sample # rest) =
     (case hs (Handle sample) of
        Some hnd \<Rightarrow>
          (case nh_callback hnd of
             Some cb \<Rightarrow>
               (cb, \<lparr>ns_Handle = Handle sample, ns_Timestamp = timestamp, ns_Data = Data sample\<rparr>)
                 # dispatch_samples hs timestamp rest
           | None \<Rightarrow> dispatch_samples hs timestamp rest)
      | None \<Rightarrow> dispatch_samples hs timestamp rest)"

text \<open>The loop over the stamps.\<close>

fun dispatch_stamps ::
  "(u32 \<rightharpoonup> notificationHandler) \<Rightarrow> NotificationStamp list
   \<Rightarrow> (NotificationCallback \<times> NotificationSample) list" where
  "dispatch_stamps hs [] = []"
| "dispatch_stamps hs (stamp # rest) =
     dispatch_samples hs (stamp_time (Timestamp stamp)) (Samples stamp) @ dispatch_stamps hs rest"

text \<open>The closure: the calls of user callbacks that one inbound notification causes.\<close>

definition processNotifications_callback ::
  "NotificationManager \<Rightarrow> DeviceNotificationRequest \<Rightarrow> (NotificationCallback \<times> NotificationSample) list" where
  "processNotifications_callback nm req = dispatch_stamps (handlers nm) (Stamps req)"

section \<open>Notions used in the verification\<close>

subsection \<open>Positions in a buffer and the bytes of a packet\<close>

text \<open>
  \<open>remaining\<close> is what a buffer has not yet read, \<open>advance\<close> moves its read position and
  \<open>appended\<close> adds bytes at its end. The functions \<open>\<dots>_bytes\<close> say which bytes a value
  occupies on the wire. A DeviceNotification packet is well formed when each count it
  carries is the length of the list it counts.
\<close>

definition remaining :: "Buffer \<Rightarrow> bytes" where
  "remaining b = drop (pos b) (buf b)"

definition advance :: "nat \<Rightarrow> Buffer \<Rightarrow> Buffer" where
  "advance n b = b\<lparr>pos := pos b + n\<rparr>"

fun samples_bytes :: "ams_NotificationSample list \<Rightarrow> bytes" where
  "samples_bytes [] = []"
| "samples_bytes (s # ss) = PutUint32 (Handle s) @ PutUint32 (Size s) @ Data s @ samples_bytes ss"

fun stamps_bytes :: "NotificationStamp list \<Rightarrow> bytes" where
  "stamps_bytes [] = []"
| "stamps_bytes (st # sts) =
     PutUint32 (ucast (Timestamp st)) @ PutUint32 (ucast (drop_bit 32 (Timestamp st)))
     @ PutUint32 (SampleCount st) @ samples_bytes (Samples st) @ stamps_bytes sts"

definition wf_sample :: "ams_NotificationSample \<Rightarrow> bool" where
  "wf_sample s = (unat (Size s) = length (Data s))"

definition wf_stamp :: "NotificationStamp \<Rightarrow> bool" where
  "wf_stamp st = (unat (SampleCount st) = length (Samples st) \<and> list_all wf_sample (Samples st))"

definition wf_notification :: "DeviceNotificationRequest \<Rightarrow> bool" where
  "wf_notification r = (unat (StampCount r) = length (Stamps r) \<and> list_all wf_stamp (Stamps r))"

text \<open>
  An allocator grants a packet its allocations when it grants the blocks that the lists of
  the packet itself occupy: one for its stamps and one for the samples of each stamp.
\<close>

definition allocations_granted :: "allocator \<Rightarrow> DeviceNotificationRequest \<Rightarrow> bool" where
  "allocations_granted alloc r =
     (granted alloc (length (Stamps r) * sizeof_NotificationStamp)
      \<and> list_all (\<lambda>st. granted alloc (length (Samples st) * sizeof_NotificationSample)) (Stamps r))"

definition appended :: "bytes \<Rightarrow> Buffer \<Rightarrow> Buffer" where
  "appended d b = b\<lparr>buf := buf b @ d\<rparr>"

definition TCPHeader_bytes :: "TCPHeader \<Rightarrow> bytes" where
  "TCPHeader_bytes h = PutUint16 (tcp_Reserved h) @ PutUint32 (tcp_Length h)"

definition AMSHeader_bytes :: "AMSHeader \<Rightarrow> bytes" where
  "AMSHeader_bytes h = putAddr (Target h) @ putAddr (Sender h) @ PutUint16 (CmdID h)
            @ PutUint16 (StateFlags h) @ PutUint32 (ams_Length h) @ PutUint32 (ErrorCode h)
            @ PutUint32 (InvokeID h)"

definition notification_bytes :: "DeviceNotificationRequest \<Rightarrow> bytes" where
  "notification_bytes r = TCPHeader_bytes (dn_tcpHeader r) @ AMSHeader_bytes (dn_amsHeader r)
     @ PutUint32 (dn_Length r) @ PutUint32 (StampCount r) @ stamps_bytes (Stamps r)"

definition ReadStateResponse_bytes :: "ReadStateResponse \<Rightarrow> bytes" where
  "ReadStateResponse_bytes r = TCPHeader_bytes (rsr_tcpHeader r) @ AMSHeader_bytes (rsr_amsHeader r)
     @ PutUint32 (rsr_Result r) @ PutUint16 (rsr_ADSState r) @ PutUint16 (rsr_DeviceState r)"

subsection \<open>Concrete packets, environments and states\<close>

text \<open>
  The notification frame of the spec's scenario: one stamp with timestamp
  \<open>132580694400000000\<close> and one sample \<open>{handle=7, size=1, data=[0x01]}\<close>.
\<close>

definition scenario_notification :: DeviceNotificationRequest where
  "scenario_notification = \<lparr>dn_tcpHeader = \<lparr>tcp_Reserved = 0, tcp_Length = 57\<rparr>,
     dn_amsHeader = \<lparr>Target = \<lparr>addr_NetID = NetID 192 168 0 2 1 1, addr_Port = 32905\<rparr>,
        Sender = \<lparr>addr_NetID = NetID 192 168 0 1 1 1, addr_Port = 851\<rparr>,
        CmdID = 8, StateFlags = 4, ams_Length = 25, ErrorCode = 0, InvokeID = 0\<rparr>,
     dn_Length = 21, StampCount = 1,
     Stamps = [\<lparr>Timestamp = 132580694400000000, SampleCount = 1,
                Samples = [\<lparr>Handle = 7, Size = 1, Data = [1]\<rparr>]\<rparr>]\<rparr>"

text \<open>
  Small environments and states for concrete runs: a session with nothing cached and
  nothing sent, a PLC that answers every request with the handle \<open>0x12345678\<close>, a PLC that
  never answers in time, and the manager of the spec's notification scenario, which has
  one subscription with notification handle 7 and callback 1.
\<close>

definition scenario_session :: Session where
  "scenario_session = \<lparr>targetAddr = zeroAddr, senderAddr = zeroAddr, registry = Map.empty, sent = []\<rparr>"

definition plc_handle :: plc where
  "plc_handle hist req =
     Inr (PktReadWriteResponse \<lparr>rw_tcpHeader = zeroTCPHeader, rw_amsHeader = zeroAMSHeader,
            rw_Result = 0, rw_Length = 4, rw_Data = [0x78, 0x56, 0x34, 0x12]\<rparr>)"

definition plc_short_handle :: plc where
  "plc_short_handle hist req =
     Inr (PktReadWriteResponse \<lparr>rw_tcpHeader = zeroTCPHeader, rw_amsHeader = zeroAMSHeader,
            rw_Result = 0, rw_Length = 3, rw_Data = [0x78, 0x56, 0x34]\<rparr>)"

definition plc_timeout :: plc where
  "plc_timeout hist req = Inl ErrTimeout"

definition scenario_symbol :: SymbolInfo where
  "scenario_symbol = \<lparr>si_Name = ''MAIN.b'', si_DataType = ''BOOL'', si_Size = 1,
     si_IndexGroup = 0x4020, si_IndexOffset = 0, si_Handle = 1, si_Comment = [], si_Fields = []\<rparr>"

definition scenario_manager :: NotificationManager where
  "scenario_manager = NewNotificationManager\<lparr>handlers :=
     [7 \<mapsto> \<lparr>nh_handle = 7, nh_varName = ''MAIN.b'', nh_varHandle = 1, nh_callback = Some 1,
            nh_symbolInfo = scenario_symbol\<rparr>]\<rparr>"

text \<open>
  A PLC for the symbol \<open>MAIN.b\<close>: it answers the symbol-info request with a symbol entry
  that carries index group \<open>0x4020\<close> and index offset \<open>0x10\<close> (size 1, type \<open>BOOL\<close>), any
  other ReadWrite request with the handle \<open>0x12345678\<close>, an AddDeviceNotification request
  with notification handle 7, a Read request with ten bytes and a Write or
  DeleteDeviceNotification request with result 0.
\<close>

definition symbol_entry_MAIN_b :: bytes where
  "symbol_entry_MAIN_b =
     [43, 0, 0, 0,  0x20, 0x40, 0, 0,  0x10, 0, 0, 0,  1, 0, 0, 0,  33, 0, 0, 0,  0, 0, 0, 0,
      6, 0,  4, 0,  0, 0,
      77, 65, 73, 78, 46, 98, 0,  66, 79, 79, 76, 0,  0]"

definition plc_MAIN_b :: plc where
  "plc_MAIN_b hist req =
     (case req of
        ReqReadWrite r \<Rightarrow>
          Inr (PktReadWriteResponse \<lparr>rw_tcpHeader = zeroTCPHeader, rw_amsHeader = zeroAMSHeader,
                 rw_Result = 0,
                 rw_Length = (if rwq_IndexGroup r = 0xF009 then 43 else 4),
                 rw_Data = (if rwq_IndexGroup r = 0xF009 then symbol_entry_MAIN_b
                            else [0x78, 0x56, 0x34, 0x12])\<rparr>)
      | ReqRead r \<Rightarrow>
          Inr (PktReadResponse \<lparr>rd_tcpHeader = zeroTCPHeader, rd_amsHeader = zeroAMSHeader,
                 rd_Result = 0, rd_Length = 10, rd_Data = [0, 1, 2, 3, 4, 5, 6, 7, 8, 9]\<rparr>)
      | ReqWrite r \<Rightarrow>
          Inr (PktWriteResponse \<lparr>wr_tcpHeader = zeroTCPHeader, wr_amsHeader = zeroAMSHeader,
                 wr_Result = 0\<rparr>)
      | ReqAddDeviceNotification r \<Rightarrow>
          Inr (PktAddDeviceNotificationResponse \<lparr>adr_tcpHeader = zeroTCPHeader,
                 adr_amsHeader = zeroAMSHeader, adr_Result = 0, adr_NotificationHandle = 7\<rparr>)
      | ReqDeleteDeviceNotification r \<Rightarrow>
          Inr (PktDeleteDeviceNotificationResponse \<lparr>ddr_tcpHeader = zeroTCPHeader,
                 ddr_amsHeader = zeroAMSHeader, ddr_Result = 0\<rparr>))"

text \<open>The info that the single-symbol fetch caches for \<open>MAIN.b\<close>, and the session after it.\<close>

definition info_MAIN_b :: SymbolInfo where
  "info_MAIN_b = \<lparr>si_Name = ''MAIN.b'', si_DataType = ''BOOL'', si_Size = 1, si_IndexGroup = 0,
     si_IndexOffset = 0, si_Handle = 0, si_Comment = [], si_Fields = []\<rparr>"

definition session_MAIN_b :: Session where
  "session_MAIN_b = scenario_session\<lparr>registry := [''MAIN.b'' \<mapsto> info_MAIN_b],
     sent := [ReqReadWrite (NewReadWriteRequest zeroAddr zeroAddr 0xF009 0 0xFFFF
                (bytes_of_string ''MAIN.b'' @ [0]))]\<rparr>"

text \<open>
  The struct of the spec's nested-write scenario, \<open>{a: INT@0, b: {c: DINT@0, d: REAL@4}@2}\<close>,
  cached with its field layout for the symbol \<open>root\<close> of size 10 and handle 5; and a PLC
  that answers every Read request with four bytes only.
\<close>

definition fields_root :: "StructField list" where
  "fields_root =
     [StructField ''a'' ''INT'' 0 2 [],
      StructField ''b'' ''ST_B'' 2 8
        [StructField ''c'' ''DINT'' 0 4 [], StructField ''d'' ''REAL'' 4 4 []]]"

definition info_root :: SymbolInfo where
  "info_root = \<lparr>si_Name = ''root'', si_DataType = ''ST_ROOT'', si_Size = 10,
     si_IndexGroup = 0x4020, si_IndexOffset = 0, si_Handle = 5, si_Comment = [],
     si_Fields = fields_root\<rparr>"

definition session_root :: Session where
  "session_root = scenario_session\<lparr>registry := [''root'' \<mapsto> info_root]\<rparr>"

definition plc_short_read :: plc where
  "plc_short_read hist req =
     (case req of
        ReqRead r \<Rightarrow>
          Inr (PktReadResponse \<lparr>rd_tcpHeader = zeroTCPHeader, rd_amsHeader = zeroAMSHeader,
                 rd_Result = 0, rd_Length = 4, rd_Data = [0, 1, 2, 3]\<rparr>)
      | _ \<Rightarrow> plc_MAIN_b hist req)"

text \<open>
  A client whose pump is running, with no pending request and no notification callback,
  and an inbound ReadState request frame with invoke-id \<open>0x2A\<close> from \<open>192.168.0.2.1.1:851\<close>
  to \<open>192.168.0.1.1.1:32905\<close>. In the concrete rounds of the pump the connection writes
  without error, the context is not cancelled, and the runtime can provide blocks of up to
  16 GiB.
\<close>

definition client_running :: Client where
  "client_running = \<lparr>nextInvokeID = 1, handler = Map.empty, chans = [], adsState = ADSStateRun,
     deviceState = ADSStateRun, notificationCallback = None, conn_writes = [], logged = [],
     callback_calls = []\<rparr>"

definition frame_ReadStateRequest :: bytes where
  "frame_ReadStateRequest =
     [0, 0, 32, 0, 0, 0,
      192, 168, 0, 1, 1, 1, 0x89, 0x80,  192, 168, 0, 2, 1, 1, 0x53, 0x03,
      4, 0,  4, 0,  0, 0, 0, 0,  0, 0, 0, 0,  0x2A, 0, 0, 0]"

definition input_ReadStateRequest :: pump_input where
  "input_ReadStateRequest = \<lparr>read_result = Inr frame_ReadStateRequest, write_result = None,
     select_ctx_done = False, can_alloc = (\<lambda>n. n \<le> 17179869184)\<rparr>"

text \<open>
  Three frames cut short: a Read response (invoke-id 2) whose body ends after the result,
  a DeviceNotification that announces one stamp and ends inside it, and a DeviceNotification
  of 50 bytes that announces \<open>0xFFFFFFFF\<close> stamps and ends inside the first; and a client
  that has a notification callback.
\<close>

definition frame_short_ReadResponse :: bytes where
  "frame_short_ReadResponse =
     [0, 0, 44, 0, 0, 0,
      192, 168, 0, 1, 1, 1, 0x89, 0x80,  192, 168, 0, 2, 1, 1, 0x53, 0x03,
      2, 0,  5, 0,  12, 0, 0, 0,  0, 0, 0, 0,  2, 0, 0, 0,
      0, 0, 0, 0]"

definition frame_short_notification :: bytes where
  "frame_short_notification =
     [0, 0, 57, 0, 0, 0,
      192, 168, 0, 1, 1, 1, 0x89, 0x80,  192, 168, 0, 2, 1, 1, 0x53, 0x03,
      8, 0,  4, 0,  25, 0, 0, 0,  0, 0, 0, 0,  0, 0, 0, 0,
      21, 0, 0, 0,  1, 0, 0, 0,  0, 0x60, 0xC9, 0x69]"

definition frame_huge_count_notification :: bytes where
  "frame_huge_count_notification =
     [0, 0, 44, 0, 0, 0,
      192, 168, 0, 1, 1, 1, 0x89, 0x80,  192, 168, 0, 2, 1, 1, 0x53, 0x03,
      8, 0,  4, 0,  12, 0, 0, 0,  0, 0, 0, 0,  0, 0, 0, 0,
      8, 0, 0, 0,  0xFF, 0xFF, 0xFF, 0xFF,  0, 0x60, 0xC9, 0x69]"

definition input_of :: "bytes \<Rightarrow> pump_input" where
  "input_of data = \<lparr>read_result = Inr data, write_result = None, select_ctx_done = False,
     can_alloc = (\<lambda>n. n \<le> 17179869184)\<rparr>"

definition client_with_callback :: Client where
  "client_with_callback = SetNotificationCallback (Some (\<lambda>req. CallbackReturns)) client_running"

text \<open>
  A Read request of 1 byte by handle 5, the client after that request has been sent with a
  successful write, and the complete Read response to invoke-id 2 with the data byte 7.
\<close>

definition request_Read_5 :: request where
  "request_Read_5 = ReqRead (NewReadRequest
     \<lparr>addr_NetID = NetID 192 168 0 2 1 1, addr_Port = 851\<rparr>
     \<lparr>addr_NetID = NetID 192 168 0 1 1 1, addr_Port = 32905\<rparr> 0xF005 5 1)"

definition frame_ReadResponse_2 :: bytes where
  "frame_ReadResponse_2 =
     [0, 0, 41, 0, 0, 0,
      192, 168, 0, 1, 1, 1, 0x89, 0x80,  192, 168, 0, 2, 1, 1, 0x53, 0x03,
      2, 0,  5, 0,  9, 0, 0, 0,  0, 0, 0, 0,  2, 0, 0, 0,
      0, 0, 0, 0,  1, 0, 0, 0,  7]"

definition client_after_send :: Client where
  "client_after_send = snd (send_begin None request_Read_5 client_running)"

section \<open>Verification\<close>

subsection \<open>The codec of DeviceNotification packets\<close>

lemma Uint16_PutUint16: "Uint16 (PutUint16 v @ rest) = v"
proof (rule bit_word_eqI)
  fix n assume n: "n < LENGTH(16)"
  consider "n < 8" | "8 \<le> n" by linarith
  then show "bit (Uint16 (PutUint16 v @ rest)) n = bit v n"
    using n by cases (auto simp: Uint16_def PutUint16_def bit_simps)
qed

lemma Uint32_PutUint32: "Uint32 (PutUint32 v @ rest) = v"
proof (rule bit_word_eqI)
  fix n assume n: "n < LENGTH(32)"
  consider "n < 8" | "8 \<le> n" "n < 16" | "16 \<le> n" "n < 24" | "24 \<le> n" by linarith
  then show "bit (Uint32 (PutUint32 v @ rest)) n = bit v n"
    using n by cases (auto simp: Uint32_def PutUint32_def bit_simps)
qed

lemma length_PutUint16 [simp]: "length (PutUint16 v) = 2"
  by (simp add: PutUint16_def)

lemma length_PutUint32 [simp]: "length (PutUint32 v) = 4"
  by (simp add: PutUint32_def)

lemma Timestamp_halves:
  "(ucast (ucast (t::u64) :: u32) :: u64) OR push_bit 32 (ucast (ucast (drop_bit 32 t) :: u32)) = t"
  by (rule bit_word_eqI) (auto simp: bit_simps)

lemma advance_simps [simp]:
  "err (advance n b) = err b" "buf (advance n b) = buf b" "pos (advance n b) = pos b + n"
  by (simp_all add: advance_def)

lemma advance_advance: "advance m (advance n b) = advance (n + m) b"
  by (simp add: advance_def)

lemma remaining_advance:
  "remaining b = d @ rest \<Longrightarrow> remaining (advance (length d) b) = rest"
  by (simp add: remaining_def advance_def add.commute flip: drop_drop)

lemma ReadN_remaining:
  "err b = None \<Longrightarrow> remaining b = d @ rest \<Longrightarrow> ReadN (length d) b = (d, advance (length d) b)"
  by (simp add: ReadN_def remaining_def advance_def Let_def)

lemma ReadUint32_remaining:
  assumes "err b = None" "remaining b = PutUint32 v @ rest"
  shows "ReadUint32 b = (v, advance 4 b)"
  using ReadN_remaining [OF assms(1), of "PutUint32 v" rest] assms(2) Uint32_PutUint32 [of v "[]"]
  by (simp add: ReadUint32_def)

lemma ReadUint16_remaining:
  assumes "err b = None" "remaining b = PutUint16 v @ rest"
  shows "ReadUint16 b = (v, advance 2 b)"
  using ReadN_remaining [OF assms(1), of "PutUint16 v" rest] assms(2) Uint16_PutUint16 [of v "[]"]
  by (simp add: ReadUint16_def)

lemma appended_simps [simp]:
  "err (appended d b) = err b" "buf (appended d b) = buf b @ d" "pos (appended d b) = pos b"
  by (simp_all add: appended_def)

lemma appended_appended: "appended e (appended d b) = appended (d @ e) b"
  by (simp add: appended_def)

lemma appended_Nil: "appended [] b = b"
  by (simp add: appended_def)

lemma Write_appended: "err b = None \<Longrightarrow> Write d b = appended d b"
  by (simp add: Write_def appended_def)

lemma WriteUint32_appended: "err b = None \<Longrightarrow> WriteUint32 v b = appended (PutUint32 v) b"
  by (simp add: WriteUint32_def Write_appended)

lemma WriteN_appended: "err b = None \<Longrightarrow> n = length d \<Longrightarrow> WriteN d n b = appended d b"
  by (simp add: WriteN_def Write_appended)

lemma encode_samples_appended:
  "err b = None \<Longrightarrow> list_all wf_sample ss \<Longrightarrow> encode_samples ss b = appended (samples_bytes ss) b"
proof (induction ss arbitrary: b)
  case Nil
  show ?case by (simp add: appended_Nil)
next
  case (Cons s ss)
  from Cons.prems have ws: "wf_sample s" and ss: "list_all wf_sample ss"
    by simp_all
  from ws have s: "unat (Size s) = length (Data s)"
    by (simp add: wf_sample_def)
  have "encode_samples (s # ss) b
      = encode_samples ss (appended (PutUint32 (Handle s) @ PutUint32 (Size s) @ Data s) b)"
    using Cons.prems(1) s
    by (simp add: WriteUint32_appended WriteN_appended appended_appended)
  also have "\<dots> = appended (samples_bytes ss) (appended (PutUint32 (Handle s) @ PutUint32 (Size s) @ Data s) b)"
    using Cons.prems(1) ss by (intro Cons.IH) simp_all
  finally show ?case by (simp add: appended_appended)
qed

lemma encode_stamps_appended:
  "err b = None \<Longrightarrow> list_all wf_stamp sts \<Longrightarrow> encode_stamps sts b = appended (stamps_bytes sts) b"
proof (induction sts arbitrary: b)
  case Nil
  show ?case by (simp add: appended_Nil)
next
  case (Cons st sts)
  from Cons.prems have wst: "wf_stamp st" and sts: "list_all wf_stamp sts"
    by simp_all
  from wst have st: "list_all wf_sample (Samples st)"
    by (simp add: wf_stamp_def)
  let ?hd = "PutUint32 (ucast (Timestamp st)) @ PutUint32 (ucast (drop_bit 32 (Timestamp st)))
     @ PutUint32 (SampleCount st)"
  have "encode_stamps (st # sts) b = encode_stamps sts (encode_samples (Samples st) (appended ?hd b))"
    using Cons.prems(1) by (simp add: WriteUint32_appended appended_appended)
  also have "encode_samples (Samples st) (appended ?hd b) = appended (samples_bytes (Samples st)) (appended ?hd b)"
    using Cons.prems(1) st by (intro encode_samples_appended) simp_all
  also have "encode_stamps sts \<dots> = appended (stamps_bytes sts) \<dots>"
    using Cons.prems(1) sts by (intro Cons.IH) simp_all
  finally show ?case by (simp add: appended_appended)
qed

lemma decode_samples_remaining:
  "err b = None \<Longrightarrow> list_all wf_sample ss \<Longrightarrow> remaining b = samples_bytes ss @ rest \<Longrightarrow>
   decode_samples (length ss) b = Inr (ss, advance (length (samples_bytes ss)) b)"
proof (induction ss arbitrary: b)
  case Nil
  show ?case by (simp add: advance_def)
next
  case (Cons s ss)
  from Cons.prems have ws: "wf_sample s" and ss: "list_all wf_sample ss"
    by simp_all
  from ws have s: "unat (Size s) = length (Data s)"
    by (simp add: wf_sample_def)
  let ?b1 = "advance 4 b" and ?b2 = "advance 4 (advance 4 b)"
  let ?b3 = "advance (length (Data s)) (advance 4 (advance 4 b))"
  have r0: "remaining b = PutUint32 (Handle s) @ (PutUint32 (Size s) @ Data s @ samples_bytes ss @ rest)"
    using Cons.prems(3) by simp
  have h: "ReadUint32 b = (Handle s, ?b1)"
    using Cons.prems(1) r0 by (rule ReadUint32_remaining)
  have r1: "remaining ?b1 = PutUint32 (Size s) @ (Data s @ samples_bytes ss @ rest)"
    using remaining_advance [OF r0] by simp
  have sz: "ReadUint32 ?b1 = (Size s, ?b2)"
    using r1 Cons.prems(1) by (intro ReadUint32_remaining) simp_all
  have r2: "remaining ?b2 = Data s @ (samples_bytes ss @ rest)"
    using remaining_advance [OF r1] by simp
  have d: "ReadN (unat (Size s)) ?b2 = (Data s, ?b3)"
    unfolding s using r2 Cons.prems(1) by (intro ReadN_remaining) simp_all
  have r3: "remaining ?b3 = samples_bytes ss @ rest"
    using remaining_advance [OF r2] by simp
  have rec: "decode_samples (length ss) ?b3 = Inr (ss, advance (length (samples_bytes ss)) ?b3)"
    using Cons.prems(1) ss r3 by (intro Cons.IH) simp_all
  have "decode_samples (length (s # ss)) b = Inr (s # ss, advance (length (samples_bytes ss)) ?b3)"
    using Cons.prems(1) by (simp add: h sz d rec)
  moreover have "advance (length (samples_bytes ss)) ?b3 = advance (length (samples_bytes (s # ss))) b"
    by (simp add: advance_def)
  ultimately show ?case by simp
qed

lemma decode_stamps_remaining:
  "err b = None \<Longrightarrow> list_all wf_stamp sts \<Longrightarrow>
   list_all (\<lambda>st. granted alloc (length (Samples st) * sizeof_NotificationSample)) sts \<Longrightarrow>
   remaining b = stamps_bytes sts @ rest \<Longrightarrow>
   decode_stamps alloc (length sts) b = Some (Inr (sts, advance (length (stamps_bytes sts)) b))"
proof (induction sts arbitrary: b)
  case Nil
  show ?case by (simp add: advance_def)
next
  case (Cons st sts)
  from Cons.prems have wst: "wf_stamp st" and sts: "list_all wf_stamp sts"
    by simp_all
  from Cons.prems have gst: "granted alloc (length (Samples st) * sizeof_NotificationSample)"
    and gsts: "list_all (\<lambda>st. granted alloc (length (Samples st) * sizeof_NotificationSample)) sts"
    by simp_all
  from wst have cnt: "unat (SampleCount st) = length (Samples st)"
    and st: "list_all wf_sample (Samples st)"
    by (simp_all add: wf_stamp_def)
  let ?lo = "ucast (Timestamp st) :: u32" and ?hi = "ucast (drop_bit 32 (Timestamp st)) :: u32"
  let ?b1 = "advance 4 b" and ?b2 = "advance 4 (advance 4 b)"
  let ?b3 = "advance 4 (advance 4 (advance 4 b))"
  let ?b4 = "advance (length (samples_bytes (Samples st))) ?b3"
  have r0: "remaining b = PutUint32 ?lo @ (PutUint32 ?hi @ PutUint32 (SampleCount st)
      @ samples_bytes (Samples st) @ stamps_bytes sts @ rest)"
    using Cons.prems(4) by simp
  have lo: "ReadUint32 b = (?lo, ?b1)"
    using Cons.prems(1) r0 by (rule ReadUint32_remaining)
  have r1: "remaining ?b1 = PutUint32 ?hi @ (PutUint32 (SampleCount st)
      @ samples_bytes (Samples st) @ stamps_bytes sts @ rest)"
    using remaining_advance [OF r0] by simp
  have hi: "ReadUint32 ?b1 = (?hi, ?b2)"
    using r1 Cons.prems(1) by (intro ReadUint32_remaining) simp_all
  have r2: "remaining ?b2 = PutUint32 (SampleCount st) @ (samples_bytes (Samples st) @ stamps_bytes sts @ rest)"
    using remaining_advance [OF r1] by simp
  have c: "ReadUint32 ?b2 = (SampleCount st, ?b3)"
    using r2 Cons.prems(1) by (intro ReadUint32_remaining) simp_all
  have r3: "remaining ?b3 = samples_bytes (Samples st) @ (stamps_bytes sts @ rest)"
    using remaining_advance [OF r2] by simp
  have ss: "decode_samples (unat (SampleCount st)) ?b3 = Inr (Samples st, ?b4)"
    unfolding cnt using Cons.prems(1) st r3 by (intro decode_samples_remaining) simp_all
  have r4: "remaining ?b4 = stamps_bytes sts @ rest"
    using remaining_advance [OF r3] by simp
  have rec: "decode_stamps alloc (length sts) ?b4
      = Some (Inr (sts, advance (length (stamps_bytes sts)) ?b4))"
    using Cons.prems(1) sts gsts r4 by (intro Cons.IH) simp_all
  have ts: "(ucast ?lo :: u64) OR push_bit 32 (ucast ?hi) = Timestamp st"
    by (rule Timestamp_halves)
  have "decode_stamps alloc (length (st # sts)) b
      = Some (Inr (st # sts, advance (length (stamps_bytes sts)) ?b4))"
    using Cons.prems(1) gst by (simp add: lo hi c ss [unfolded cnt] rec ts cnt)
  moreover have "advance (length (stamps_bytes sts)) ?b4 = advance (length (stamps_bytes (st # sts))) b"
    by (simp add: advance_def)
  ultimately show ?case by simp
qed

lemma length_putAddr [simp]: "length (putAddr a) = 8"
  by (cases "addr_NetID a") (simp add: putAddr_def)

lemma length_TCPHeader_bytes [simp]: "length (TCPHeader_bytes h) = 6"
  by (simp add: TCPHeader_bytes_def)

lemma length_AMSHeader_bytes [simp]: "length (AMSHeader_bytes h) = 32"
  by (simp add: AMSHeader_bytes_def)

lemma getAddr_putAddr: "getAddr (putAddr a @ rest) = a"
proof (cases "addr_NetID a")
  case (NetID a0 a1 a2 a3 a4 a5)
  then show ?thesis
    using Uint16_PutUint16 [of "addr_Port a" rest] by (simp add: getAddr_def putAddr_def)
qed

lemma TCPHeader_decode_bytes:
  "\<lparr>tcp_Reserved = Uint16 (TCPHeader_bytes h), tcp_Length = Uint32 (drop 2 (TCPHeader_bytes h))\<rparr> = h"
  using Uint16_PutUint16 [of "tcp_Reserved h" "PutUint32 (tcp_Length h)"]
    Uint32_PutUint32 [of "tcp_Length h" "[]"]
  by (simp add: TCPHeader_bytes_def)

lemma AMSHeader_decode_bytes:
  fixes h :: AMSHeader
  defines "d \<equiv> AMSHeader_bytes h"
  shows "\<lparr>Target = getAddr d, Sender = getAddr (drop 8 d), CmdID = Uint16 (drop 16 d),
           StateFlags = Uint16 (drop 18 d), ams_Length = Uint32 (drop 20 d),
           ErrorCode = Uint32 (drop 24 d), InvokeID = Uint32 (drop 28 d)\<rparr> = h"
proof -
  have "getAddr d = Target h"
    unfolding d_def AMSHeader_bytes_def by (rule getAddr_putAddr)
  moreover have "getAddr (drop 8 d) = Sender h"
    unfolding d_def AMSHeader_bytes_def by (simp add: getAddr_putAddr)
  moreover have "Uint16 (drop 16 d) = CmdID h"
    unfolding d_def AMSHeader_bytes_def by (simp add: Uint16_PutUint16)
  moreover have "Uint16 (drop 18 d) = StateFlags h"
    unfolding d_def AMSHeader_bytes_def by (simp add: Uint16_PutUint16)
  moreover have "Uint32 (drop 20 d) = ams_Length h"
    unfolding d_def AMSHeader_bytes_def by (simp add: Uint32_PutUint32)
  moreover have "Uint32 (drop 24 d) = ErrorCode h"
    unfolding d_def AMSHeader_bytes_def by (simp add: Uint32_PutUint32)
  moreover have "Uint32 (drop 28 d) = InvokeID h"
    unfolding d_def AMSHeader_bytes_def using Uint32_PutUint32 [of "InvokeID h" "[]"] by simp
  ultimately show ?thesis by simp
qed

lemma ReadStruct_TCPHeader_remaining:
  assumes "err b = None" "remaining b = TCPHeader_bytes h @ rest"
  shows "ReadStruct_TCPHeader b = (h, advance 6 b)"
  using ReadN_remaining [OF assms(1), of "TCPHeader_bytes h" rest] assms(2)
  by (simp add: ReadStruct_TCPHeader_def TCPHeader_decode_bytes)

lemma ReadStruct_AMSHeader_remaining:
  assumes "err b = None" "remaining b = AMSHeader_bytes h @ rest"
  shows "ReadStruct_AMSHeader b = (h, advance 32 b)"
  using ReadN_remaining [OF assms(1), of "AMSHeader_bytes h" rest] assms(2)
  by (simp add: ReadStruct_AMSHeader_def AMSHeader_decode_bytes)

lemma WriteStruct_TCPHeader_appended:
  "err b = None \<Longrightarrow> WriteStruct_TCPHeader h b = appended (TCPHeader_bytes h) b"
  by (simp add: WriteStruct_TCPHeader_def TCPHeader_bytes_def Write_appended)

lemma WriteStruct_AMSHeader_appended:
  "err b = None \<Longrightarrow> WriteStruct_AMSHeader h b = appended (AMSHeader_bytes h) b"
  by (simp add: WriteStruct_AMSHeader_def AMSHeader_bytes_def Write_appended)

lemma DeviceNotificationRequest_Encode_bytes:
  assumes "wf_notification r"
  shows "DeviceNotificationRequest_Encode r (NewBuffer []) = (None, NewBuffer (notification_bytes r))"
proof -
  have sts: "list_all wf_stamp (Stamps r)"
    using assms by (simp add: wf_notification_def)
  let ?b4 = "appended (TCPHeader_bytes (dn_tcpHeader r) @ AMSHeader_bytes (dn_amsHeader r)
     @ PutUint32 (dn_Length r) @ PutUint32 (StampCount r)) (NewBuffer [])"
  have e: "err ?b4 = None" by (simp add: NewBuffer_def)
  have "encode_stamps (Stamps r) ?b4 = appended (stamps_bytes (Stamps r)) ?b4"
    using e sts by (rule encode_stamps_appended)
  also have "\<dots> = NewBuffer (notification_bytes r)"
    by (simp add: appended_def NewBuffer_def notification_bytes_def)
  finally have "encode_stamps (Stamps r) ?b4 = NewBuffer (notification_bytes r)" .
  moreover have "WriteUint32 (StampCount r) (WriteUint32 (dn_Length r)
      (WriteStruct_AMSHeader (dn_amsHeader r) (WriteStruct_TCPHeader (dn_tcpHeader r) (NewBuffer [])))) = ?b4"
    by (simp add: WriteStruct_TCPHeader_appended WriteStruct_AMSHeader_appended
        WriteUint32_appended appended_appended NewBuffer_def)
  ultimately show ?thesis
    by (simp add: DeviceNotificationRequest_Encode_def Let_def NewBuffer_def)
qed

lemma DeviceNotificationRequest_Decode_bytes:
  assumes "wf_notification r" "allocations_granted alloc r"
  shows "DeviceNotificationRequest_Decode alloc (NewBuffer (notification_bytes r @ rest)) = Some (Inr r)"
proof -
  from assms have cnt: "unat (StampCount r) = length (Stamps r)"
    and sts: "list_all wf_stamp (Stamps r)"
    by (simp_all add: wf_notification_def)
  from assms(2) have g: "granted alloc (unat (StampCount r) * sizeof_NotificationStamp)"
    and gs: "list_all (\<lambda>st. granted alloc (length (Samples st) * sizeof_NotificationSample)) (Stamps r)"
    by (simp_all add: allocations_granted_def cnt)
  let ?b = "NewBuffer (notification_bytes r @ rest)"
  let ?b1 = "advance 6 ?b"
  let ?b2 = "advance 32 ?b1"
  let ?b3 = "advance 4 ?b2"
  let ?b4 = "advance 4 ?b3"
  have e: "err ?b = None" by (simp add: NewBuffer_def)
  have r0: "remaining ?b = TCPHeader_bytes (dn_tcpHeader r) @ (AMSHeader_bytes (dn_amsHeader r)
     @ PutUint32 (dn_Length r) @ PutUint32 (StampCount r) @ stamps_bytes (Stamps r) @ rest)"
    by (simp add: remaining_def NewBuffer_def notification_bytes_def)
  have tcp: "ReadStruct_TCPHeader ?b = (dn_tcpHeader r, ?b1)"
    using e r0 by (rule ReadStruct_TCPHeader_remaining)
  have r1: "remaining ?b1 = AMSHeader_bytes (dn_amsHeader r)
     @ (PutUint32 (dn_Length r) @ PutUint32 (StampCount r) @ stamps_bytes (Stamps r) @ rest)"
    using remaining_advance [OF r0] by simp
  have ams: "ReadStruct_AMSHeader ?b1 = (dn_amsHeader r, ?b2)"
    using r1 e by (intro ReadStruct_AMSHeader_remaining) simp_all
  have r2: "remaining ?b2 = PutUint32 (dn_Length r) @ (PutUint32 (StampCount r) @ stamps_bytes (Stamps r) @ rest)"
    using remaining_advance [OF r1] by simp
  have len: "ReadUint32 ?b2 = (dn_Length r, ?b3)"
    using r2 e by (intro ReadUint32_remaining) simp_all
  have r3: "remaining ?b3 = PutUint32 (StampCount r) @ (stamps_bytes (Stamps r) @ rest)"
    using remaining_advance [OF r2] by simp
  have c: "ReadUint32 ?b3 = (StampCount r, ?b4)"
    using r3 e by (intro ReadUint32_remaining) simp_all
  have r4: "remaining ?b4 = stamps_bytes (Stamps r) @ rest"
    using remaining_advance [OF r3] by simp
  have dec: "decode_stamps alloc (unat (StampCount r)) ?b4
      = Some (Inr (Stamps r, advance (length (stamps_bytes (Stamps r))) ?b4))"
    unfolding cnt using sts gs r4 e by (intro decode_stamps_remaining) simp_all
  have empty: "StampCount r = 0 \<Longrightarrow> Stamps r = []"
    using cnt by simp
  have e2: "err ?b2 = None" "err ?b3 = None" "err ?b4 = None"
    using e by simp_all
  show ?thesis
    using e2 empty g by (simp add: DeviceNotificationRequest_Decode_def tcp ams len c dec)
qed

lemma allocations_granted_always: "allocations_granted (\<lambda>n. True) r"
  by (simp add: allocations_granted_def granted_def list_all_iff)

lemma wf_scenario_notification: "wf_notification scenario_notification"
  by (simp add: wf_notification_def wf_stamp_def wf_sample_def scenario_notification_def)

lemma granted_scenario_notification:
  "allocations_granted (\<lambda>n. n \<le> 17179869184) scenario_notification"
  by (simp add: allocations_granted_def granted_def scenario_notification_def
      sizeof_NotificationStamp_def sizeof_NotificationSample_def)

text \<open>
  Claim C5. For every well-formed DeviceNotification packet \<open>x\<close> (StampCount is the number
  of stamps, each stamp's SampleCount is the number of its samples, each sample's Size is
  the length of its Data), \<^verbatim>\<open>Encode\<close> into an empty buffer reports no error, and \<^verbatim>\<open>Decode\<close>
  of the bytes it wrote returns and yields \<open>x\<close> again, headers and all fields included, on
  every machine that provides the memory for the lists of \<open>x\<close> itself: the block for its
  stamps and the block for the samples of each stamp. The headers need no condition: the
  codec writes and reads them as they are.
\<close>

theorem DeviceNotificationRequest_roundtrip:
  assumes "wf_notification x"
  shows "fst (DeviceNotificationRequest_Encode x (NewBuffer [])) = None
       \<and> (\<forall>alloc. allocations_granted alloc x \<longrightarrow>
            DeviceNotificationRequest_Decode alloc
              (NewBuffer (Bytes (snd (DeviceNotificationRequest_Encode x (NewBuffer [])))))
            = Some (Inr x))"
  using DeviceNotificationRequest_Encode_bytes [OF assms]
    DeviceNotificationRequest_Decode_bytes [OF assms, of _ "[]"]
  by (simp add: Bytes_def NewBuffer_def)

theorem DeviceNotificationRequest_roundtrip_witness:
  "wf_notification scenario_notification
   \<and> allocations_granted (\<lambda>n. n \<le> 17179869184) scenario_notification
   \<and> allocations_granted (\<lambda>n. True) scenario_notification
   \<and> fst (DeviceNotificationRequest_Encode scenario_notification (NewBuffer [])) = None
   \<and> DeviceNotificationRequest_Decode (\<lambda>n. n \<le> 17179869184)
        (NewBuffer (Bytes (snd (DeviceNotificationRequest_Encode scenario_notification (NewBuffer [])))))
      = Some (Inr scenario_notification)
   \<and> DeviceNotificationRequest_Decode (\<lambda>n. True)
        (NewBuffer (Bytes (snd (DeviceNotificationRequest_Encode scenario_notification (NewBuffer [])))))
      = Some (Inr scenario_notification)"
  using DeviceNotificationRequest_roundtrip [OF wf_scenario_notification]
    wf_scenario_notification granted_scenario_notification
    allocations_granted_always [of scenario_notification]
  by blast

subsection \<open>Handle acquisition\<close>

lemma Uint32_arith:
  "unat (Uint32 [a, b, c, d]) = unat a + 256 * unat b + 65536 * unat c + 16777216 * unat d"
proof -
  let ?a = "ucast a :: u32" and ?b = "push_bit 8 (ucast b) :: u32"
  let ?c = "push_bit 16 (ucast c) :: u32" and ?d = "push_bit 24 (ucast d) :: u32"
  have cd: "?c OR ?d = ?c + ?d"
    by (rule disjunctive_add_eq_or [symmetric]) (auto simp: bit_eq_iff bit_simps dest: bit_imp_le_length)
  have bcd: "?b OR (?c OR ?d) = ?b + (?c OR ?d)"
    by (rule disjunctive_add_eq_or [symmetric]) (auto simp: bit_eq_iff bit_simps dest: bit_imp_le_length)
  have abcd: "?a OR (?b OR (?c OR ?d)) = ?a + (?b OR (?c OR ?d))"
    by (rule disjunctive_add_eq_or [symmetric]) (auto simp: bit_eq_iff bit_simps dest: bit_imp_le_length)
  have e: "Uint32 [a, b, c, d] = ?a + ?b + ?c + ?d"
    unfolding Uint32_def using cd bcd abcd by simp
  have lt: "unat a < 256" "unat b < 256" "unat c < 256" "unat d < 256"
    using unsigned_less [of a] unsigned_less [of b] unsigned_less [of c] unsigned_less [of d]
    by simp_all
  have ua: "unat ?a = unat a"
    by (simp add: unsigned_ucast_eq take_bit_nat_eq_self_iff) (use lt in simp)
  have ub: "unat ?b = 256 * unat b"
    using lt by (simp only: unsigned_push_bit_eq unsigned_ucast_eq)
      (simp add: take_bit_nat_eq_self push_bit_eq_mult)
  have uc: "unat ?c = 65536 * unat c"
    using lt by (simp only: unsigned_push_bit_eq unsigned_ucast_eq)
      (simp add: take_bit_nat_eq_self push_bit_eq_mult)
  have ud: "unat ?d = 16777216 * unat d"
    using lt by (simp only: unsigned_push_bit_eq unsigned_ucast_eq)
      (simp add: take_bit_nat_eq_self push_bit_eq_mult)
  have s1: "unat (?a + ?b) = unat a + 256 * unat b"
    using lt by (simp add: unat_word_ariths ua ub)
  have s2: "unat (?a + ?b + ?c) = unat a + 256 * unat b + 65536 * unat c"
    using lt by (simp add: unat_word_ariths(1) [of "?a + ?b" ?c] s1 uc)
  have s3: "unat (?a + ?b + ?c + ?d) = unat a + 256 * unat b + 65536 * unat c + 16777216 * unat d"
    using lt by (simp add: unat_word_ariths(1) [of "?a + ?b + ?c" ?d] s2 ud)
  show ?thesis
    unfolding e by (rule s3)
qed

lemma take_4: "4 \<le> length d \<Longrightarrow> take 4 d = [d ! 0, d ! 1, d ! 2, d ! 3]"
  by (auto simp: list_eq_iff_nth_eq less_Suc_eq numeral_eq_Suc)

text \<open>
  Claim C7. When the round trip of \<^verbatim>\<open>GetSymHandleByName(name)\<close> delivers a ReadWrite
  response with error code zero and at least 4 data bytes \<open>d\<close>, the call returns the handle
  \<open>d\<^sub>0 + 2\<^sup>8 d\<^sub>1 + 2\<^sup>1\<^sup>6 d\<^sub>2 + 2\<^sup>2\<^sup>4 d\<^sub>3\<close>, the little-endian value of the first four bytes; when
  the response has fewer than 4 data bytes, the call returns an error.
\<close>

theorem GetSymHandleByName_little_endian:
  assumes "srv (sent s) (ReqReadWrite (NewReadWriteRequest target sender IdxGetSymHandleByName 0 4
             (bytes_of_string name))) = Inr (PktReadWriteResponse res)"
  shows "(ErrorCode (rw_amsHeader res) = 0 \<and> 4 \<le> length (rw_Data res) \<longrightarrow>
            (\<exists>h. fst (GetSymHandleByName srv target sender name s) = Inr h
               \<and> unat h = unat (rw_Data res ! 0) + 256 * unat (rw_Data res ! 1)
                   + 65536 * unat (rw_Data res ! 2) + 16777216 * unat (rw_Data res ! 3)))
       \<and> (length (rw_Data res) < 4 \<longrightarrow>
            (\<exists>e. fst (GetSymHandleByName srv target sender name s) = Inl e))"
proof -
  have rt: "Client_ReadWrite srv (NewReadWriteRequest target sender IdxGetSymHandleByName 0 4
      (bytes_of_string name)) s = (Inr res, s\<lparr>sent := sent s @ [ReqReadWrite
        (NewReadWriteRequest target sender IdxGetSymHandleByName 0 4 (bytes_of_string name))]\<rparr>)"
    using assms by (simp add: Client_ReadWrite_def Client_send_def)
  show ?thesis
    by (auto simp: GetSymHandleByName_def rt NoError_def Let_def take_4 Uint32_arith)
qed

theorem GetSymHandleByName_little_endian_witness:
  "fst (GetSymHandleByName plc_handle zeroAddr zeroAddr ''MAIN.x'' scenario_session) = Inr 0x12345678
   \<and> (\<exists>e. fst (GetSymHandleByName plc_short_handle zeroAddr zeroAddr ''MAIN.x'' scenario_session) = Inl e)"
  using GetSymHandleByName_little_endian [of plc_handle scenario_session zeroAddr zeroAddr "''MAIN.x''"
      "\<lparr>rw_tcpHeader = zeroTCPHeader, rw_amsHeader = zeroAMSHeader,
            rw_Result = 0, rw_Length = 4, rw_Data = [0x78, 0x56, 0x34, 0x12]\<rparr>"]
    GetSymHandleByName_little_endian [of plc_short_handle scenario_session zeroAddr zeroAddr "''MAIN.x''"
      "\<lparr>rw_tcpHeader = zeroTCPHeader, rw_amsHeader = zeroAMSHeader,
            rw_Result = 0, rw_Length = 3, rw_Data = [0x78, 0x56, 0x34]\<rparr>"]
  by (auto simp: plc_handle_def plc_short_handle_def zeroAMSHeader_def word_unat_eq_iff)

subsection \<open>Start and Stop\<close>

text \<open>
  Claim C8, as stated, fails: a second \<^verbatim>\<open>Start\<close> does not succeed. After one \<^verbatim>\<open>Start\<close> of a
  new manager the manager is running, and \<^verbatim>\<open>Start\<close> again returns the error "notification
  manager already running".
\<close>

theorem Start_twice_counterexample:
  "running (snd (Start NewNotificationManager))
   \<and> fst (Start (snd (Start NewNotificationManager))) = Some ErrAlreadyRunning"
  by (simp add: Start_def NewNotificationManager_def)

text \<open>
  Claim C8, amended. \<^verbatim>\<open>Stop\<close> is idempotent: on a manager that is not running it changes
  nothing. \<^verbatim>\<open>Start\<close> on a manager that is already running returns the error "notification
  manager already running" and changes nothing, so the manager is in the state the single
  \<^verbatim>\<open>Start\<close> left it in.
\<close>

theorem Start_Stop_repeated:
  "(running nm \<longrightarrow> Start nm = (Some ErrAlreadyRunning, nm))
   \<and> (\<not> running nm \<longrightarrow> Stop nm = nm)
   \<and> Stop (Stop nm) = Stop nm
   \<and> Start (snd (Start nm)) = (Some ErrAlreadyRunning, snd (Start nm))"
  by (simp add: Start_def Stop_def)

theorem Start_Stop_repeated_witness:
  "\<not> running NewNotificationManager
   \<and> Stop NewNotificationManager = NewNotificationManager
   \<and> running (snd (Start NewNotificationManager))
   \<and> Start (snd (Start NewNotificationManager)) = (Some ErrAlreadyRunning, snd (Start NewNotificationManager))"
  using Start_Stop_repeated [of NewNotificationManager]
    Start_Stop_repeated [of "snd (Start NewNotificationManager)"]
  by (simp add: NewNotificationManager_def Start_def)

subsection \<open>Unsubscribe\<close>

text \<open>
  Claim C10. \<^verbatim>\<open>Unsubscribe(h)\<close> on a registered handle removes the entry for \<open>h\<close> from the
  handler map and leaves the other entries alone, whatever the round trip of the
  DeleteDeviceNotification request then yields (an error, a non-zero result or success);
  that request is the one request it sends. On a handle that is not registered it returns
  the error "notification handle not found", sends nothing and leaves the map unchanged.
\<close>

theorem Unsubscribe_removes_entry:
  "(handlers nm h \<noteq> None \<longrightarrow>
      handlers (fst (snd (Unsubscribe srv h nm s))) = (handlers nm)(h := None)
      \<and> sent (snd (snd (Unsubscribe srv h nm s)))
          = sent s @ [ReqDeleteDeviceNotification
                        (NewDeleteDeviceNotificationRequest (targetAddr s) (senderAddr s) h)])
   \<and> (handlers nm h = None \<longrightarrow> Unsubscribe srv h nm s = (Some (ErrHandleNotFound h), nm, s))"
  by (auto simp: Unsubscribe_def Client_DeleteDeviceNotification_def Client_send_def Let_def
      split: sum.splits packet.splits)

theorem Unsubscribe_removes_entry_witness:
  "handlers scenario_manager 7 \<noteq> None
   \<and> fst (Unsubscribe plc_timeout 7 scenario_manager scenario_session)
       = Some (Wrap ''failed to delete notification'' ErrTimeout)
   \<and> handlers (fst (snd (Unsubscribe plc_timeout 7 scenario_manager scenario_session))) 7 = None
   \<and> handlers scenario_manager 8 = None
   \<and> Unsubscribe plc_timeout 8 scenario_manager scenario_session
       = (Some (ErrHandleNotFound 8), scenario_manager, scenario_session)"
  using Unsubscribe_removes_entry [of scenario_manager 7 plc_timeout scenario_session]
    Unsubscribe_removes_entry [of scenario_manager 8 plc_timeout scenario_session]
  by (simp add: scenario_manager_def NewNotificationManager_def Unsubscribe_def plc_timeout_def
      Client_DeleteDeviceNotification_def Client_send_def)

subsection \<open>The timestamp of a dispatched sample\<close>

lemma time_Unix_total:
  assumes "- 1000000000 < nsec" "nsec < 1000000000"
  shows "unix_sec (time_Unix sec nsec) * 1000000000 + unix_nsec (time_Unix sec nsec)
           = sec * 1000000000 + nsec
       \<and> 0 \<le> unix_nsec (time_Unix sec nsec) \<and> unix_nsec (time_Unix sec nsec) < 1000000000"
proof (cases "nsec < 0")
  case True
  then have "nsec sdiv 1000000000 = 0"
    using assms by (simp add: signed_divide_int_def div_pos_pos_trivial)
  with True assms show ?thesis
    by (simp add: time_Unix_def Let_def)
next
  case False
  with assms show ?thesis
    by (simp add: time_Unix_def)
qed

lemma smod_bounds:
  fixes a :: int
  shows "- 10000000 < a smod 10000000 \<and> a smod 10000000 < 10000000"
proof -
  have "0 \<le> \<bar>a\<bar> mod 10000000" "\<bar>a\<bar> mod 10000000 < 10000000"
    by simp_all
  then show ?thesis
    by (cases "0 \<le> a") (auto simp: signed_modulo_int_def sgn_if)
qed

lemma stamp_time_total:
  "unix_sec (stamp_time ts) * 1000000000 + unix_nsec (stamp_time ts)
       = 100 * sint ts - 11644473600 * 1000000000
   \<and> 0 \<le> unix_nsec (stamp_time ts) \<and> unix_nsec (stamp_time ts) < 1000000000"
proof -
  let ?q = "sint ts sdiv 10000000" and ?r = "sint ts smod 10000000"
  have a: "sint ts = ?q * 10000000 + ?r"
    by (simp add: sdiv_mult_smod_eq)
  have b: "- 1000000000 < ?r * 100" "?r * 100 < 1000000000"
    using smod_bounds [of "sint ts"] by simp_all
  have st: "stamp_time ts = time_Unix (?q - 11644473600) (?r * 100)"
    by (simp add: stamp_time_def ticksPerSecond_def epochDiff_def)
  have "(?q - 11644473600) * 1000000000 + ?r * 100 = 100 * (?q * 10000000 + ?r) - 11644473600 * 1000000000"
    by (simp add: algebra_simps)
  also have "\<dots> = 100 * sint ts - 11644473600 * 1000000000"
    using a by simp
  finally show ?thesis
    using time_Unix_total [OF b, of "?q - 11644473600"] unfolding st by simp
qed

lemma stamp_time_nonneg:
  assumes "0 \<le> sint ts"
  shows "stamp_time ts = \<lparr>unix_sec = sint ts div 10000000 - 11644473600,
                           unix_nsec = (sint ts mod 10000000) * 100\<rparr>"
proof -
  have q: "sint ts sdiv 10000000 = sint ts div 10000000"
    using assms by (simp add: signed_divide_int_def sgn_if)
  have r: "sint ts smod 10000000 = sint ts mod 10000000"
    using assms by (simp add: signed_modulo_int_def sgn_if)
  have "0 \<le> sint ts mod 10000000" "sint ts mod 10000000 < 10000000"
    by simp_all
  then have "\<not> ((sint ts mod 10000000) * 100 < 0 \<or> (sint ts mod 10000000) * 100 \<ge> 1000000000)"
    by linarith
  then have "time_Unix (sint ts div 10000000 - 11644473600) ((sint ts mod 10000000) * 100)
      = \<lparr>unix_sec = sint ts div 10000000 - 11644473600, unix_nsec = (sint ts mod 10000000) * 100\<rparr>"
    unfolding time_Unix_def by (rule if_not_P)
  then show ?thesis
    by (simp add: stamp_time_def ticksPerSecond_def epochDiff_def q r)
qed

lemma dispatch_samples_time:
  "(cb, smp) \<in> set (dispatch_samples hs t ss) \<Longrightarrow> ns_Timestamp smp = t"
  by (induction ss) (auto split: option.splits)

lemma dispatch_stamps_time:
  "(cb, smp) \<in> set (dispatch_stamps hs sts) \<Longrightarrow>
   \<exists>stamp \<in> set sts. ns_Timestamp smp = stamp_time (Timestamp stamp)"
  by (induction sts) (auto dest: dispatch_samples_time)

lemma scenario_dispatch:
  "processNotifications_callback scenario_manager scenario_notification
     = [(1, \<lparr>ns_Handle = 7, ns_Timestamp = \<lparr>unix_sec = 1613595840, unix_nsec = 0\<rparr>, ns_Data = [1]\<rparr>)]"
  by (simp add: processNotifications_callback_def scenario_manager_def scenario_notification_def
      stamp_time_nonneg)

lemma Date_UTC_2021_01_01: "Date_UTC 2021 1 1 0 0 0 = \<lparr>unix_sec = 1609459200, unix_nsec = 0\<rparr>"
  by (simp add: Date_UTC_def days_before_year_def days_before_month_def leap_years_before_def
      is_leap_year_def)

lemma Date_UTC_2021_02_17: "Date_UTC 2021 2 17 21 4 0 = \<lparr>unix_sec = 1613595840, unix_nsec = 0\<rparr>"
  by (simp add: Date_UTC_def days_before_year_def days_before_month_def leap_years_before_def
      is_leap_year_def)

text \<open>
  Claim C6, as stated, fails in its example: for the frame of the scenario (one stamp with
  timestamp \<open>132580694400000000\<close>, one sample with handle 7 and data \<open>[0x01]\<close>) and a manager
  with a subscription for handle 7, the call the dispatcher makes does not carry the
  timestamp 2021-01-01T00:00:00Z.
\<close>

theorem scenario_timestamp_counterexample:
  "processNotifications_callback scenario_manager scenario_notification
     \<noteq> [(1, \<lparr>ns_Handle = 7, ns_Timestamp = Date_UTC 2021 1 1 0 0 0, ns_Data = [1]\<rparr>)]"
  by (simp add: scenario_dispatch Date_UTC_2021_01_01)

text \<open>
  Claim C6, amended. Every sample the dispatcher hands to a callback carries the wall-clock
  time of its stamp, computed from the stamp's FILETIME by subtracting the epoch difference
  of 11644473600 seconds: in nanoseconds since 1970 the time is \<open>100 \<sqdot> ticks - 11644473600
  \<sqdot> 10\<^sup>9\<close>, and for a FILETIME below \<open>2\<^sup>6\<^sup>3\<close> its seconds are \<open>ticks div 10\<^sup>7 - 11644473600\<close>.
  In particular the frame with stamp timestamp \<open>132580694400000000\<close> is delivered with
  timestamp 2021-02-17T21:04:00Z; the FILETIME of 2021-01-01T00:00:00Z is
  \<open>132539328000000000\<close>.
\<close>

theorem stamp_time_epoch_difference:
  "unix_sec (stamp_time ts) * 1000000000 + unix_nsec (stamp_time ts)
       = 100 * sint ts - 11644473600 * 1000000000
   \<and> 0 \<le> unix_nsec (stamp_time ts) \<and> unix_nsec (stamp_time ts) < 1000000000
   \<and> (0 \<le> sint ts \<longrightarrow>
        stamp_time ts = \<lparr>unix_sec = sint ts div 10000000 - 11644473600,
                          unix_nsec = (sint ts mod 10000000) * 100\<rparr>)
   \<and> (\<forall>(cb, smp) \<in> set (processNotifications_callback nm req).
        \<exists>stamp \<in> set (Stamps req). ns_Timestamp smp = stamp_time (Timestamp stamp))
   \<and> processNotifications_callback scenario_manager scenario_notification
        = [(1, \<lparr>ns_Handle = 7, ns_Timestamp = Date_UTC 2021 2 17 21 4 0, ns_Data = [1]\<rparr>)]
   \<and> stamp_time 132539328000000000 = Date_UTC 2021 1 1 0 0 0"
proof -
  have "\<forall>(cb, smp) \<in> set (processNotifications_callback nm req).
        \<exists>stamp \<in> set (Stamps req). ns_Timestamp smp = stamp_time (Timestamp stamp)"
    unfolding processNotifications_callback_def by (auto dest: dispatch_stamps_time)
  moreover have "stamp_time 132539328000000000 = Date_UTC 2021 1 1 0 0 0"
    by (simp add: stamp_time_nonneg Date_UTC_2021_01_01)
  ultimately show ?thesis
    using stamp_time_total [of ts] stamp_time_nonneg [of ts]
    by (simp add: scenario_dispatch Date_UTC_2021_02_17)
qed

theorem stamp_time_epoch_difference_witness:
  "0 \<le> sint (132580694400000000 :: u64)
   \<and> stamp_time 132580694400000000 = \<lparr>unix_sec = 13258069440 - 11644473600, unix_nsec = 0\<rparr>
   \<and> (1, \<lparr>ns_Handle = 7, ns_Timestamp = Date_UTC 2021 2 17 21 4 0, ns_Data = [1]\<rparr>)
        \<in> set (processNotifications_callback scenario_manager scenario_notification)
   \<and> (\<exists>stamp \<in> set (Stamps scenario_notification).
         Date_UTC 2021 2 17 21 4 0 = stamp_time (Timestamp stamp))"
  using stamp_time_epoch_difference [of 132580694400000000 scenario_manager scenario_notification]
  by auto

subsection \<open>Symbols fetched one at a time\<close>

lemma Client_send_addrs [simp]:
  "targetAddr (snd (Client_send srv req s)) = targetAddr s"
  "senderAddr (snd (Client_send srv req s)) = senderAddr s"
  "registry (snd (Client_send srv req s)) = registry s"
  by (simp_all add: Client_send_def)

lemma Client_ReadWrite_keeps:
  "Client_ReadWrite srv r s = (res, s') \<Longrightarrow>
   targetAddr s' = targetAddr s \<and> senderAddr s' = senderAddr s \<and> registry s' = registry s"
  by (auto simp: Client_ReadWrite_def Client_send_def split: sum.splits packet.splits)

lemma GetSymHandleByName_keeps:
  "GetSymHandleByName srv t sd name s = (res, s') \<Longrightarrow>
   targetAddr s' = targetAddr s \<and> senderAddr s' = senderAddr s \<and> registry s' = registry s"
  by (auto simp: GetSymHandleByName_def Let_def split: prod.splits sum.splits if_splits
      dest: Client_ReadWrite_keeps)

lemma Client_GetSymbol_keeps:
  "Client_GetSymbol srv t sd name s = (res, s') \<Longrightarrow>
   targetAddr s' = targetAddr s \<and> senderAddr s' = senderAddr s \<and> registry s' = registry s"
  by (auto simp: Client_GetSymbol_def Let_def split: prod.splits sum.splits if_splits
      dest: Client_ReadWrite_keeps)

lemma Session_GetSymbol_miss:
  assumes "registry s name = None" "Session_GetSymbol srv name s = (Inr info, s1)"
  shows "si_IndexGroup info = 0 \<and> si_IndexOffset info = 0 \<and> registry s1 name = Some info
       \<and> targetAddr s1 = targetAddr s \<and> senderAddr s1 = senderAddr s"
  using assms
  by (auto simp: Session_GetSymbol_def Let_def split: prod.splits sum.splits
      dest: Client_GetSymbol_keeps)

lemma getOrCreateHandle_keeps:
  assumes "registry s name = Some info" "getOrCreateHandle srv name s = (Inr h, s')"
  shows "targetAddr s' = targetAddr s \<and> senderAddr s' = senderAddr s
       \<and> (\<exists>info'. registry s' name = Some info' \<and> si_IndexGroup info' = si_IndexGroup info
             \<and> si_IndexOffset info' = si_IndexOffset info \<and> si_Size info' = si_Size info
             \<and> si_Fields info' = si_Fields info \<and> si_DataType info' = si_DataType info)"
  using assms
  by (auto simp: getOrCreateHandle_def split: prod.splits sum.splits if_splits
      dest: GetSymHandleByName_keeps)

text \<open>
  Claim C9. When \<^verbatim>\<open>Session.GetSymbol(name)\<close> misses the cache and the fetch succeeds, the
  info it caches and returns has IndexGroup 0 and IndexOffset 0 (the fetch yields a
  \<^verbatim>\<open>Symbol\<close>, which has no such fields). A \<^verbatim>\<open>Subscribe\<close> for that name then, once it has its
  symbol handle, sends as its next request an AddDeviceNotification request with index
  group 0 and index offset 0 (and the cached size as length).
\<close>

theorem GetSymbol_miss_zero_index:
  assumes "registry s name = None"
      and "Session_GetSymbol srv name s = (Inr info, s1)"
  shows "si_IndexGroup info = 0 \<and> si_IndexOffset info = 0 \<and> registry s1 name = Some info
       \<and> (\<forall>h s2. getOrCreateHandle srv name s1 = (Inr h, s2) \<longrightarrow>
             (\<exists>a. sent (snd (snd (Subscribe srv name cycleTime callback nm s1)))
                     = sent s2 @ [ReqAddDeviceNotification a]
                 \<and> IndexGroup a = 0 \<and> IndexOff a = 0 \<and> adn_Length a = si_Size info))"
proof -
  note m = Session_GetSymbol_miss [OF assms]
  have "\<exists>a. sent (snd (snd (Subscribe srv name cycleTime callback nm s1)))
                     = sent s2 @ [ReqAddDeviceNotification a]
                 \<and> IndexGroup a = 0 \<and> IndexOff a = 0 \<and> adn_Length a = si_Size info"
    if h: "getOrCreateHandle srv name s1 = (Inr h, s2)" for h s2
  proof -
    from m have r1: "registry s1 name = Some info" by simp
    from getOrCreateHandle_keeps [OF r1 h] obtain info' where
      i: "registry s2 name = Some info'" "si_IndexGroup info' = 0" "si_IndexOffset info' = 0"
        "si_Size info' = si_Size info"
      using m by auto
    show ?thesis
      by (auto simp: Subscribe_def h i Let_def Client_AddDeviceNotification_def Client_send_def
          NewAddDeviceNotificationRequest_def split: sum.splits packet.splits)
  qed
  with m show ?thesis by blast
qed

lemma scenario_GetSymbol:
  "Session_GetSymbol plc_MAIN_b ''MAIN.b'' scenario_session = (Inr info_MAIN_b, session_MAIN_b)"
  by (simp add: Session_GetSymbol_def Client_GetSymbol_def Client_ReadWrite_def Client_send_def
      scenario_session_def plc_MAIN_b_def symbol_entry_MAIN_b_def Let_def slice_def
      Uint32_def Uint16_def string_of_bytes_def cut_at_nul_def char_of_def NewReadWriteRequest_def
      bit_Suc_0_iff info_MAIN_b_def session_MAIN_b_def)

lemma scenario_getOrCreateHandle:
  "getOrCreateHandle plc_MAIN_b ''MAIN.b'' session_MAIN_b =
     (Inr 0x12345678,
      session_MAIN_b\<lparr>registry := [''MAIN.b'' \<mapsto> info_MAIN_b\<lparr>si_Handle := 0x12345678\<rparr>],
        sent := sent session_MAIN_b @ [ReqReadWrite (NewReadWriteRequest zeroAddr zeroAddr
                  IdxGetSymHandleByName 0 4 (bytes_of_string ''MAIN.b''))]\<rparr>)"
  by (simp add: getOrCreateHandle_def GetSymHandleByName_def Client_ReadWrite_def Client_send_def
      session_MAIN_b_def info_MAIN_b_def scenario_session_def plc_MAIN_b_def Let_def
      NewReadWriteRequest_def IdxGetSymHandleByName_def NoError_def zeroAMSHeader_def Uint32_def)

theorem GetSymbol_miss_zero_index_witness:
  "registry scenario_session ''MAIN.b'' = None
   \<and> Session_GetSymbol plc_MAIN_b ''MAIN.b'' scenario_session = (Inr info_MAIN_b, session_MAIN_b)
   \<and> si_IndexGroup info_MAIN_b = 0 \<and> si_IndexOffset info_MAIN_b = 0
   \<and> fst (getOrCreateHandle plc_MAIN_b ''MAIN.b'' session_MAIN_b) = Inr 0x12345678
   \<and> (\<exists>a. sent (snd (snd (Subscribe plc_MAIN_b ''MAIN.b'' 1000000 (Some 1) NewNotificationManager
                              session_MAIN_b)))
             = sent (snd (getOrCreateHandle plc_MAIN_b ''MAIN.b'' session_MAIN_b))
                 @ [ReqAddDeviceNotification a]
          \<and> IndexGroup a = 0 \<and> IndexOff a = 0 \<and> adn_Length a = 1)"
proof -
  have miss: "registry scenario_session ''MAIN.b'' = None"
    by (simp add: scenario_session_def)
  from GetSymbol_miss_zero_index [OF miss scenario_GetSymbol, of 1000000 "Some 1" NewNotificationManager]
    scenario_getOrCreateHandle miss scenario_GetSymbol
  show ?thesis
    by (simp add: info_MAIN_b_def)
qed

subsection \<open>Writing a nested field\<close>

lemma FindFieldByPathWithOffset_fields_along:
  "FindFieldByPathWithOffset fs path base = Inr (f, off) \<Longrightarrow>
   \<exists>chain. fields_along fs path = Some chain \<and> chain \<noteq> [] \<and> last chain = f
      \<and> off = base + sum_list (map sf_Offset chain)"
proof (induction fs path base rule: FindFieldByPathWithOffset.induct)
  case (1 flds baseOffset)
  then show ?case by simp
next
  case (2 flds p ps baseOffset)
  from "2.prems" obtain g where g: "find (\<lambda>f. sf_Name f = p) flds = Some g"
    by (auto split: option.splits)
  show ?case
  proof (cases "ps = []")
    case True
    with "2.prems" g show ?thesis by (auto simp: Let_def)
  next
    case False
    with "2.prems" g
    have "FindFieldByPathWithOffset (sf_Fields g) ps (baseOffset + sf_Offset g) = Inr (f, off)"
      by (simp add: Let_def)
    from "2.IH" [OF g refl False this] obtain chain where
      "fields_along (sf_Fields g) ps = Some chain" "chain \<noteq> []" "last chain = f"
      "off = baseOffset + sf_Offset g + sum_list (map sf_Offset chain)"
      by blast
    with g show ?thesis by (simp add: add.assoc)
  qed
qed

lemma Client_Read_keeps:
  "Client_Read srv r s = (res, s') \<Longrightarrow>
   targetAddr s' = targetAddr s \<and> senderAddr s' = senderAddr s \<and> registry s' = registry s
   \<and> sent s' = sent s @ [ReqRead r]"
  by (auto simp: Client_Read_def Client_send_def split: sum.splits packet.splits)

lemma Client_Write_sent:
  "sent (snd (Client_Write srv r s)) = sent s @ [ReqWrite r]"
  by (auto simp: Client_Write_def Client_send_def split: sum.splits packet.splits)

lemma copy_into_splice:
  "length src = hi - lo \<Longrightarrow> copy_into data lo hi src = take lo data @ src @ drop (lo + length src) data"
  by (simp add: copy_into_def)

text \<open>
  Claim C2, as stated, fails: data of the field's declared size is not enough for the write
  to happen. With the layout of the scenario cached for \<open>root\<close>, the path \<open>b.d\<close> resolving to
  the 4-byte field at absolute offset 6, and 4 bytes of data, a PLC that returns only four
  bytes for the struct makes \<^verbatim>\<open>WriteNestedField\<close> return the size-mismatch error after the
  read, without a write.
\<close>

theorem WriteNestedField_short_read_counterexample:
  "registry session_root ''root'' = Some info_root
   \<and> FindFieldByPathWithOffset (si_Fields info_root) [''b'', ''d''] 0
       = Inr (StructField ''d'' ''REAL'' 4 4 [], 6)
   \<and> length [0x00, 0x00, 0xC0, 0x3F :: u8] = unat (sf_Size (StructField ''d'' ''REAL'' 4 4 []))
   \<and> WriteNestedField plc_short_read ''root'' [''b'', ''d''] [0x00, 0x00, 0xC0, 0x3F] session_root
       = (Some ErrFieldDataSizeMismatch,
          session_root\<lparr>sent := [ReqRead (NewReadRequest zeroAddr zeroAddr 0xF005 5 10)]\<rparr>)"
  by (simp add: WriteNestedField_def Session_GetSymbol_def getOrCreateHandle_def Client_Read_def
      Client_send_def session_root_def info_root_def fields_root_def scenario_session_def
      plc_short_read_def Let_def)

lemma unat_sum_list:
  "sum_list (map unat ws) < 2 ^ 32 \<Longrightarrow> unat (sum_list ws :: u32) = sum_list (map unat ws)"
proof (induction ws)
  case Nil
  show ?case by simp
next
  case (Cons w ws)
  from Cons.prems have "sum_list (map unat ws) < 2 ^ 32"
    by simp
  then have ih: "unat (sum_list ws) = sum_list (map unat ws)"
    by (rule Cons.IH)
  have "unat (w + sum_list ws) = (unat w + unat (sum_list ws)) mod 2 ^ 32"
    by (simp add: unat_word_ariths)
  with ih Cons.prems show ?case
    by simp
qed

lemma unat_offset_along:
  "offset_along chain < 2 ^ 32 \<Longrightarrow> unat (sum_list (map sf_Offset chain)) = offset_along chain"
  using unat_sum_list [of "map sf_Offset chain"] by (simp add: offset_along_def comp_def)

text \<open>
  The offsets are added in \<^verbatim>\<open>uint32\<close>, unchecked: relative offsets \<open>0xFFFFFFFE\<close> and \<open>4\<close>
  along a path give the offset \<open>2\<close>.
\<close>

lemma FindFieldByPathWithOffset_wraps:
  "FindFieldByPathWithOffset
     [StructField ''b'' ''ST_B'' 0xFFFFFFFE 8 [StructField ''d'' ''REAL'' 4 4 []]] [''b'', ''d''] 0
   = Inr (StructField ''d'' ''REAL'' 4 4 [], 2)"
  by simp

text \<open>
  Claim C2, amended. Let \<open>root\<close> be cached with a field layout, let the path resolve to the
  field \<open>f\<close>, and let the handle be obtained and the read of the struct succeed. The
  absolute offset of the path is the sum of the relative offsets of the fields along it. If
  the data \<open>d\<close> has the declared size of \<open>f\<close>, the absolute offset is less than \<open>2\<^sup>3\<^sup>2\<close>, and the
  field's byte range, from the absolute offset on, lies within the bytes just read, then
  \<^verbatim>\<open>WriteNestedField\<close> sends, as its one further request, the write of those bytes with \<open>d\<close>
  in place of the range and every other byte unchanged. If the length of \<open>d\<close> differs from the
  declared size, it returns the size-mismatch error and sends no write: the read is the
  last request sent.
\<close>

theorem WriteNestedField_splice:
  assumes "registry s root = Some info" and "si_Fields info \<noteq> []"
      and "FindFieldByPathWithOffset (si_Fields info) path 0 = Inr (f, off)"
      and "getOrCreateHandle srv root s = (Inr h, s2)"
      and "Client_Read srv (NewReadRequest (targetAddr s) (senderAddr s) 0xF005 h (si_Size info)) s2
             = (Inr resp, s3)"
  shows "\<exists>chain. fields_along (si_Fields info) path = Some chain \<and> chain \<noteq> [] \<and> last chain = f
       \<and> (length d = unat (sf_Size f) \<and> offset_along chain < 2 ^ 32
           \<and> offset_along chain + unat (sf_Size f) \<le> length (rd_Data resp) \<longrightarrow>
            sent (snd (WriteNestedField srv root path d s))
              = sent s3 @ [ReqWrite (NewWriteRequest (targetAddr s) (senderAddr s) 0xF005 h
                             (take (offset_along chain) (rd_Data resp) @ d
                              @ drop (offset_along chain + length d) (rd_Data resp)))])
       \<and> (length d \<noteq> unat (sf_Size f) \<longrightarrow>
            WriteNestedField srv root path d s = (Some ErrFieldDataSizeMismatch, s3))"
proof -
  have get: "Session_GetSymbol srv root s = (Inr info, s)"
    using assms(1) by (simp add: Session_GetSymbol_def)
  from getOrCreateHandle_keeps [OF assms(1) assms(4)] obtain info' where
    k: "targetAddr s2 = targetAddr s" "senderAddr s2 = senderAddr s"
      "registry s2 root = Some info'" "si_Size info' = si_Size info"
      "si_Fields info' = si_Fields info"
    by blast
  from Client_Read_keeps [OF assms(5)] have
    k3: "targetAddr s3 = targetAddr s2" "senderAddr s3 = senderAddr s2"
    by simp_all
  have rd: "Client_Read srv (NewReadRequest (targetAddr s2) (senderAddr s2) 0xF005 h (si_Size info')) s2
      = (Inr resp, s3)"
    using assms(5) k by simp
  have ne: "si_Fields info' \<noteq> []"
    using assms(2) k by simp
  have path: "FindFieldByPathWithOffset (si_Fields info') path 0 = Inr (f, off)"
    using assms(3) k by simp
  have step: "WriteNestedField srv root path d s =
      (let fieldEnd = unat off + unat (sf_Size f)
       in if fieldEnd > length (rd_Data resp) \<or> length d \<noteq> unat (sf_Size f)
          then (Some ErrFieldDataSizeMismatch, s3)
          else
            let data = copy_into (rd_Data resp) (unat off) fieldEnd d;
                writeReq = NewWriteRequest (targetAddr s3) (senderAddr s3) 0xF005 h data
            in (case Client_Write srv writeReq s3 of
                  (Inl e, s5) \<Rightarrow> (Some e, s5)
                | (Inr w, s5) \<Rightarrow> (None, s5)))"
    unfolding WriteNestedField_def get
    by (simp add: assms(4) k(3) rd path ne)
  from FindFieldByPathWithOffset_fields_along [OF assms(3)] obtain chain where
    chain: "fields_along (si_Fields info) path = Some chain" "chain \<noteq> []" "last chain = f"
    and off: "off = sum_list (map sf_Offset chain)"
    by auto
  have fail: "WriteNestedField srv root path d s = (Some ErrFieldDataSizeMismatch, s3)"
    if "length d \<noteq> unat (sf_Size f)"
    using that unfolding step by (simp add: Let_def)
  have ok: "sent (snd (WriteNestedField srv root path d s))
              = sent s3 @ [ReqWrite (NewWriteRequest (targetAddr s) (senderAddr s) 0xF005 h
                             (take (offset_along chain) (rd_Data resp) @ d
                              @ drop (offset_along chain + length d) (rd_Data resp)))]"
    if "length d = unat (sf_Size f)" "offset_along chain < 2 ^ 32"
      "offset_along chain + unat (sf_Size f) \<le> length (rd_Data resp)"
  proof -
    have abs: "unat off = offset_along chain"
      unfolding off using that(2) by (rule unat_offset_along)
    let ?w = "NewWriteRequest (targetAddr s) (senderAddr s) 0xF005 h
        (take (offset_along chain) (rd_Data resp) @ d
         @ drop (offset_along chain + length d) (rd_Data resp))"
    have "WriteNestedField srv root path d s =
        (case Client_Write srv ?w s3 of (Inl e, s5) \<Rightarrow> (Some e, s5) | (Inr w, s5) \<Rightarrow> (None, s5))"
      unfolding step abs using that(1,3) k k3 by (simp add: Let_def copy_into_splice)
    then have "snd (WriteNestedField srv root path d s) = snd (Client_Write srv ?w s3)"
      by (simp split: prod.splits sum.splits)
    then show ?thesis
      by (simp add: Client_Write_sent)
  qed
  from chain fail ok show ?thesis by blast
qed

lemma scenario_root_cached:
  "registry session_root ''root'' = Some info_root" "si_Fields info_root \<noteq> []"
  by (simp_all add: session_root_def info_root_def fields_root_def)

lemma scenario_root_path:
  "FindFieldByPathWithOffset (si_Fields info_root) [''b'', ''d''] 0
     = Inr (StructField ''d'' ''REAL'' 4 4 [], 6)"
  by (simp add: info_root_def fields_root_def)

lemma scenario_root_handle: "getOrCreateHandle plc_MAIN_b ''root'' session_root = (Inr 5, session_root)"
  by (simp add: getOrCreateHandle_def session_root_def info_root_def)

lemma scenario_root_read:
  "Client_Read plc_MAIN_b (NewReadRequest (targetAddr session_root) (senderAddr session_root)
       0xF005 5 (si_Size info_root)) session_root
     = (Inr \<lparr>rd_tcpHeader = zeroTCPHeader, rd_amsHeader = zeroAMSHeader, rd_Result = 0,
              rd_Length = 10, rd_Data = [0, 1, 2, 3, 4, 5, 6, 7, 8, 9]\<rparr>,
        session_root\<lparr>sent := [ReqRead (NewReadRequest zeroAddr zeroAddr 0xF005 5 10)]\<rparr>)"
  by (simp add: Client_Read_def Client_send_def plc_MAIN_b_def session_root_def
      scenario_session_def info_root_def)

lemma scenario_root_chain:
  "fields_along (si_Fields info_root) [''b'', ''d'']
     = Some [StructField ''b'' ''ST_B'' 2 8
               [StructField ''c'' ''DINT'' 0 4 [], StructField ''d'' ''REAL'' 4 4 []],
             StructField ''d'' ''REAL'' 4 4 []]"
  by (simp add: info_root_def fields_root_def)

theorem WriteNestedField_splice_witness:
  "registry session_root ''root'' = Some info_root \<and> si_Fields info_root \<noteq> []
   \<and> FindFieldByPathWithOffset (si_Fields info_root) [''b'', ''d''] 0
       = Inr (StructField ''d'' ''REAL'' 4 4 [], 6)
   \<and> getOrCreateHandle plc_MAIN_b ''root'' session_root = (Inr 5, session_root)
   \<and> Client_Read plc_MAIN_b (NewReadRequest (targetAddr session_root) (senderAddr session_root)
         0xF005 5 (si_Size info_root)) session_root
       = (Inr \<lparr>rd_tcpHeader = zeroTCPHeader, rd_amsHeader = zeroAMSHeader, rd_Result = 0,
                rd_Length = 10, rd_Data = [0, 1, 2, 3, 4, 5, 6, 7, 8, 9]\<rparr>,
          session_root\<lparr>sent := [ReqRead (NewReadRequest zeroAddr zeroAddr 0xF005 5 10)]\<rparr>)
   \<and> offset_along [StructField ''b'' ''ST_B'' 2 8
                       [StructField ''c'' ''DINT'' 0 4 [], StructField ''d'' ''REAL'' 4 4 []],
                     StructField ''d'' ''REAL'' 4 4 []] = 6
   \<and> sent (snd (WriteNestedField plc_MAIN_b ''root'' [''b'', ''d''] [0x00, 0x00, 0xC0, 0x3F]
                   session_root))
       = [ReqRead (NewReadRequest zeroAddr zeroAddr 0xF005 5 10),
          ReqWrite (NewWriteRequest zeroAddr zeroAddr 0xF005 5
                      [0, 1, 2, 3, 4, 5, 0x00, 0x00, 0xC0, 0x3F])]
   \<and> WriteNestedField plc_MAIN_b ''root'' [''b'', ''d''] [0x00, 0x00, 0xC0] session_root
       = (Some ErrFieldDataSizeMismatch,
          session_root\<lparr>sent := [ReqRead (NewReadRequest zeroAddr zeroAddr 0xF005 5 10)]\<rparr>)"
proof -
  let ?chain = "[StructField ''b'' ''ST_B'' 2 8
                   [StructField ''c'' ''DINT'' 0 4 [], StructField ''d'' ''REAL'' 4 4 []],
                 StructField ''d'' ''REAL'' 4 4 []]"
  have off: "offset_along ?chain = 6"
    by (simp add: offset_along_def)
  have addr: "targetAddr session_root = zeroAddr" "senderAddr session_root = zeroAddr"
    by (simp_all add: session_root_def scenario_session_def)
  have "sent (snd (WriteNestedField plc_MAIN_b ''root'' [''b'', ''d''] [0x00, 0x00, 0xC0, 0x3F]
                   session_root))
       = [ReqRead (NewReadRequest zeroAddr zeroAddr 0xF005 5 10),
          ReqWrite (NewWriteRequest zeroAddr zeroAddr 0xF005 5
                      [0, 1, 2, 3, 4, 5, 0x00, 0x00, 0xC0, 0x3F])]"
    using WriteNestedField_splice [OF scenario_root_cached scenario_root_path scenario_root_handle
      scenario_root_read, of "[0x00, 0x00, 0xC0, 0x3F]"]
    unfolding scenario_root_chain by (simp add: off addr)
  moreover have "WriteNestedField plc_MAIN_b ''root'' [''b'', ''d''] [0x00, 0x00, 0xC0] session_root
       = (Some ErrFieldDataSizeMismatch,
          session_root\<lparr>sent := [ReqRead (NewReadRequest zeroAddr zeroAddr 0xF005 5 10)]\<rparr>)"
    using WriteNestedField_splice [OF scenario_root_cached scenario_root_path scenario_root_handle
      scenario_root_read, of "[0x00, 0x00, 0xC0]"]
    unfolding scenario_root_chain by simp
  ultimately show ?thesis
    using scenario_root_cached scenario_root_path scenario_root_handle scenario_root_read off
    by simp
qed

subsection \<open>The answer to an inbound ReadState request\<close>

lemma WriteUint16_appended: "err b = None \<Longrightarrow> WriteUint16 v b = appended (PutUint16 v) b"
  by (simp add: WriteUint16_def Write_appended)

lemma ReadStateResponse_Encode_bytes:
  "ReadStateResponse_Encode r (NewBuffer []) = (None, NewBuffer (ReadStateResponse_bytes r))"
  by (simp add: ReadStateResponse_Encode_def Let_def WriteStruct_TCPHeader_appended
      WriteStruct_AMSHeader_appended WriteUint32_appended WriteUint16_appended
      appended_def NewBuffer_def ReadStateResponse_bytes_def)

lemma ReadStateResponse_Decode_bytes:
  "ReadStateResponse_Decode (NewBuffer (ReadStateResponse_bytes r)) = Inr r"
proof -
  let ?b = "NewBuffer (ReadStateResponse_bytes r)"
  let ?b1 = "advance 6 ?b"
  let ?b2 = "advance 32 ?b1"
  let ?b3 = "advance 4 ?b2"
  let ?b4 = "advance 2 ?b3"
  let ?b5 = "advance 2 ?b4"
  have e: "err ?b = None" by (simp add: NewBuffer_def)
  have r0: "remaining ?b = TCPHeader_bytes (rsr_tcpHeader r) @ (AMSHeader_bytes (rsr_amsHeader r)
     @ PutUint32 (rsr_Result r) @ PutUint16 (rsr_ADSState r) @ PutUint16 (rsr_DeviceState r))"
    by (simp add: remaining_def NewBuffer_def ReadStateResponse_bytes_def)
  have tcp: "ReadStruct_TCPHeader ?b = (rsr_tcpHeader r, ?b1)"
    using e r0 by (rule ReadStruct_TCPHeader_remaining)
  have r1: "remaining ?b1 = AMSHeader_bytes (rsr_amsHeader r)
     @ (PutUint32 (rsr_Result r) @ PutUint16 (rsr_ADSState r) @ PutUint16 (rsr_DeviceState r))"
    using remaining_advance [OF r0] by simp
  have ams: "ReadStruct_AMSHeader ?b1 = (rsr_amsHeader r, ?b2)"
    using r1 e by (intro ReadStruct_AMSHeader_remaining) simp_all
  have r2: "remaining ?b2 = PutUint32 (rsr_Result r) @ (PutUint16 (rsr_ADSState r) @ PutUint16 (rsr_DeviceState r))"
    using remaining_advance [OF r1] by simp
  have res: "ReadUint32 ?b2 = (rsr_Result r, ?b3)"
    using r2 e by (intro ReadUint32_remaining) simp_all
  have r3: "remaining ?b3 = PutUint16 (rsr_ADSState r) @ (PutUint16 (rsr_DeviceState r))"
    using remaining_advance [OF r2] by simp
  have a: "ReadUint16 ?b3 = (rsr_ADSState r, ?b4)"
    using r3 e by (intro ReadUint16_remaining) simp_all
  have r4: "remaining ?b4 = PutUint16 (rsr_DeviceState r) @ []"
    using remaining_advance [OF r3] by simp
  have d: "ReadUint16 ?b4 = (rsr_DeviceState r, ?b5)"
    using r4 e by (intro ReadUint16_remaining) simp_all
  have e5: "err ?b5 = None" using e by simp
  show ?thesis
    using e5 by (simp add: ReadStateResponse_Decode_def tcp ams res a d)
qed

lemma Bytes_NewBuffer: "Bytes (NewBuffer d) = d"
  by (simp add: Bytes_def NewBuffer_def)

lemma IsReadStateRequest_selected:
  "IsReadStateRequest h \<Longrightarrow> select_packet_type h = Some TReadStateRequest"
  by (simp add: select_packet_type_def IsReadStateRequest_def IsReadResponse_def IsWriteResponse_def
      IsReadWriteResponse_def CmdADSReadState_def CmdADSRead_def CmdADSWrite_def CmdADSReadWrite_def)

lemma ReadStateRequest_Decode_Header:
  "Header_Decode b = Inr hdr \<Longrightarrow>
   ReadStateRequest_Decode b = Inr \<lparr>rsq_tcpHeader = hdr_TCPHeader hdr, rsq_amsHeader = hdr_AMSHeader hdr\<rparr>"
  by (auto simp: Header_Decode_def ReadStateRequest_Decode_def split: prod.splits option.splits)

text \<open>
  Claim C4. When the pump reads a frame that is a ReadState request, that round writes
  exactly one frame to the connection. The frame decodes as a ReadStateResponse with result
  0 whose adsState and deviceState are the client's cached ADSState and DeviceState and
  whose invoke-id is the invoke-id of the request; it is addressed back to the sender of
  the request. The pump goes on unless that write fails.
\<close>

theorem ReadStateRequest_answered:
  assumes "read_result ev = Inr data"
      and "Header_Decode (NewBuffer data) = Inr hdr"
      and "IsReadStateRequest (hdr_AMSHeader hdr)"
  shows "\<exists>frame r. conn_writes (snd (receive_step ev c)) = conn_writes c @ [frame]
           \<and> ReadStateResponse_Decode (NewBuffer frame) = Inr r
           \<and> rsr_Result r = NoError
           \<and> rsr_ADSState r = adsState c \<and> rsr_DeviceState r = deviceState c
           \<and> InvokeID (rsr_amsHeader r) = InvokeID (hdr_AMSHeader hdr)
           \<and> Target (rsr_amsHeader r) = Sender (hdr_AMSHeader hdr)
           \<and> Sender (rsr_amsHeader r) = Target (hdr_AMSHeader hdr)
           \<and> CmdID (rsr_amsHeader r) = CmdADSReadState
           \<and> HasState (rsr_amsHeader r) StateResponse
           \<and> fst (receive_step ev c) = (case write_result ev of None \<Rightarrow> Continue | Some e \<Rightarrow> Return e)"
proof -
  let ?h = "hdr_AMSHeader hdr"
  let ?r = "(NewReadStateResponse (Sender ?h) (Target ?h) NoError (adsState c) (deviceState c))
      \<lparr>rsr_amsHeader := (rsr_amsHeader (NewReadStateResponse (Sender ?h) (Target ?h) NoError
          (adsState c) (deviceState c)))\<lparr>InvokeID := InvokeID ?h\<rparr>\<rparr>"
  have step: "receive_step ev c =
      (case write_result ev of None \<Rightarrow> Continue | Some e \<Rightarrow> Return e,
       c\<lparr>conn_writes := conn_writes c @ [ReadStateResponse_bytes ?r]\<rparr>)"
    using assms
    by (simp add: receive_step_def IsReadStateRequest_selected ReadStateRequest_Decode_Header
        handleReadStateRequest_def sendResponse_def Let_def ReadStateResponse_Encode_bytes
        Bytes_NewBuffer split: option.splits)
  have "HasState (rsr_amsHeader ?r) StateResponse"
    by (simp add: NewReadStateResponse_def HasState_def StateResponse_def StateADSCommand_def)
  then show ?thesis
    unfolding step
    by (intro exI [of _ "ReadStateResponse_bytes ?r"] exI [of _ ?r])
      (simp add: ReadStateResponse_Decode_bytes NewReadStateResponse_def)
qed

lemma scenario_ReadStateRequest_header:
  "Header_Decode (NewBuffer frame_ReadStateRequest)
     = Inr \<lparr>hdr_TCPHeader = \<lparr>tcp_Reserved = 0, tcp_Length = 32\<rparr>,
            hdr_AMSHeader = \<lparr>Target = \<lparr>addr_NetID = NetID 192 168 0 1 1 1, addr_Port = 32905\<rparr>,
              Sender = \<lparr>addr_NetID = NetID 192 168 0 2 1 1, addr_Port = 851\<rparr>,
              CmdID = 4, StateFlags = 4, ams_Length = 0, ErrorCode = 0, InvokeID = 0x2A\<rparr>\<rparr>"
  by (simp add: Header_Decode_def ReadStruct_TCPHeader_def ReadStruct_AMSHeader_def ReadN_def
      NewBuffer_def frame_ReadStateRequest_def Uint16_def Uint32_def getAddr_def Let_def)

theorem ReadStateRequest_answered_witness:
  "read_result input_ReadStateRequest = Inr frame_ReadStateRequest
   \<and> (\<exists>hdr. Header_Decode (NewBuffer frame_ReadStateRequest) = Inr hdr
          \<and> IsReadStateRequest (hdr_AMSHeader hdr) \<and> InvokeID (hdr_AMSHeader hdr) = 0x2A)
   \<and> (\<exists>frame r. conn_writes (snd (receive_step input_ReadStateRequest client_running)) = [frame]
          \<and> ReadStateResponse_Decode (NewBuffer frame) = Inr r
          \<and> rsr_ADSState r = ADSStateRun \<and> rsr_DeviceState r = ADSStateRun
          \<and> InvokeID (rsr_amsHeader r) = 0x2A)
   \<and> fst (receive_step input_ReadStateRequest client_running) = Continue"
proof -
  have rd: "read_result input_ReadStateRequest = Inr frame_ReadStateRequest"
    by (simp add: input_ReadStateRequest_def)
  have is_req: "IsReadStateRequest (hdr_AMSHeader
      \<lparr>hdr_TCPHeader = \<lparr>tcp_Reserved = 0, tcp_Length = 32\<rparr>,
       hdr_AMSHeader = \<lparr>Target = \<lparr>addr_NetID = NetID 192 168 0 1 1 1, addr_Port = 32905\<rparr>,
         Sender = \<lparr>addr_NetID = NetID 192 168 0 2 1 1, addr_Port = 851\<rparr>,
         CmdID = 4, StateFlags = 4, ams_Length = 0, ErrorCode = 0, InvokeID = 0x2A\<rparr>\<rparr>)"
    by (simp add: IsReadStateRequest_def CmdADSReadState_def StateADSCommand_def)
  from ReadStateRequest_answered [OF rd scenario_ReadStateRequest_header is_req, of client_running]
    rd scenario_ReadStateRequest_header is_req
  show ?thesis
    by (auto simp: client_running_def input_ReadStateRequest_def)
qed

subsection \<open>Frames that fail to decode\<close>

lemma selected_notification:
  "select_packet_type h = Some ty \<Longrightarrow> CmdID h = CmdADSDeviceNotification \<Longrightarrow>
   ty = TDeviceNotificationRequest"
  by (auto simp: select_packet_type_def IsReadResponse_def IsWriteResponse_def
      IsReadWriteResponse_def IsReadStateRequest_def IsDeviceNotificationRequest_def
      CmdADSDeviceNotification_def CmdADSRead_def CmdADSWrite_def CmdADSReadWrite_def
      CmdADSReadState_def split: if_splits)

lemma selected_response:
  assumes "select_packet_type h = Some ty" "HasState h StateResponse"
    "CmdID h \<noteq> CmdADSDeviceNotification"
  shows "ty \<noteq> TDeviceNotificationRequest \<and> ty \<noteq> TReadStateRequest"
proof -
  have "\<not> IsReadStateRequest h"
    using assms(2)
    by (auto simp: IsReadStateRequest_def HasState_def StateResponse_def StateADSCommand_def)
  with assms(1,3) show ?thesis
    by (auto simp: select_packet_type_def IsDeviceNotificationRequest_def split: if_splits)
qed

text \<open>
  Let the pump read a frame whose header decodes and whose packet type it recognises, and
  let the decoding of the full packet return the error \<open>e\<close>. If the frame is a response
  (the Response bit is set; a DeviceNotification frame never has it), the pump logs the
  failure and returns \<open>e\<close>: no later input is read. If the frame is a DeviceNotification,
  the pump goes on with the next input, having logged the failure if a notification
  callback is registered and having logged nothing otherwise.
\<close>

lemma decode_error_fatal_for_responses_only:
  assumes "read_result ev = Inr data"
      and "Header_Decode (NewBuffer data) = Inr hdr"
      and "select_packet_type (hdr_AMSHeader hdr) = Some ty"
      and "packet_Decode (can_alloc ev) ty (NewBuffer data) = Some (Inl e)"
  shows "(HasState (hdr_AMSHeader hdr) StateResponse
            \<and> CmdID (hdr_AMSHeader hdr) \<noteq> CmdADSDeviceNotification \<longrightarrow>
          receive_loop (ev # evs) c = (Returned e, c\<lparr>logged := logged c @ [LogFailedDecode e]\<rparr>))
       \<and> (CmdID (hdr_AMSHeader hdr) = CmdADSDeviceNotification \<longrightarrow>
          receive_loop (ev # evs) c
            = receive_loop evs
                (if notificationCallback c = None then c
                 else c\<lparr>logged := logged c @ [LogFailedDecodeNotification e]\<rparr>))"
proof (intro conjI impI)
  assume "HasState (hdr_AMSHeader hdr) StateResponse
      \<and> CmdID (hdr_AMSHeader hdr) \<noteq> CmdADSDeviceNotification"
  with selected_response [OF assms(3)] have "ty \<noteq> TDeviceNotificationRequest"
    by simp
  with assms show "receive_loop (ev # evs) c = (Returned e, c\<lparr>logged := logged c @ [LogFailedDecode e]\<rparr>)"
    by (simp add: receive_step_def del: packet_Decode.simps)
next
  assume "CmdID (hdr_AMSHeader hdr) = CmdADSDeviceNotification"
  with selected_notification [OF assms(3)] have "ty = TDeviceNotificationRequest"
    by simp
  with assms show "receive_loop (ev # evs) c
            = receive_loop evs
                (if notificationCallback c = None then c
                 else c\<lparr>logged := logged c @ [LogFailedDecodeNotification e]\<rparr>)"
    by (simp add: receive_step_def del: packet_Decode.simps)
qed

text \<open>
  The decoders of the response packets allocate nothing that depends on the frame, so they
  always return; only the decoder of a DeviceNotification may fail to.
\<close>

lemma packet_Decode_response_returns:
  "ty \<noteq> TDeviceNotificationRequest \<Longrightarrow> \<exists>r. packet_Decode alloc ty b = Some r"
  by (cases ty) simp_all

lemma header_short_ReadResponse:
  "Header_Decode (NewBuffer frame_short_ReadResponse)
     = Inr \<lparr>hdr_TCPHeader = \<lparr>tcp_Reserved = 0, tcp_Length = 44\<rparr>,
            hdr_AMSHeader = \<lparr>Target = \<lparr>addr_NetID = NetID 192 168 0 1 1 1, addr_Port = 32905\<rparr>,
              Sender = \<lparr>addr_NetID = NetID 192 168 0 2 1 1, addr_Port = 851\<rparr>,
              CmdID = 2, StateFlags = 5, ams_Length = 12, ErrorCode = 0, InvokeID = 2\<rparr>\<rparr>"
  by (simp add: Header_Decode_def ReadStruct_TCPHeader_def ReadStruct_AMSHeader_def ReadN_def
      NewBuffer_def frame_short_ReadResponse_def Uint16_def Uint32_def getAddr_def Let_def)

lemma header_short_notification:
  "Header_Decode (NewBuffer frame_short_notification)
     = Inr \<lparr>hdr_TCPHeader = \<lparr>tcp_Reserved = 0, tcp_Length = 57\<rparr>,
            hdr_AMSHeader = \<lparr>Target = \<lparr>addr_NetID = NetID 192 168 0 1 1 1, addr_Port = 32905\<rparr>,
              Sender = \<lparr>addr_NetID = NetID 192 168 0 2 1 1, addr_Port = 851\<rparr>,
              CmdID = 8, StateFlags = 4, ams_Length = 25, ErrorCode = 0, InvokeID = 0\<rparr>\<rparr>"
  by (simp add: Header_Decode_def ReadStruct_TCPHeader_def ReadStruct_AMSHeader_def ReadN_def
      NewBuffer_def frame_short_notification_def Uint16_def Uint32_def getAddr_def Let_def)

lemma header_huge_count_notification:
  "Header_Decode (NewBuffer frame_huge_count_notification)
     = Inr \<lparr>hdr_TCPHeader = \<lparr>tcp_Reserved = 0, tcp_Length = 44\<rparr>,
            hdr_AMSHeader = \<lparr>Target = \<lparr>addr_NetID = NetID 192 168 0 1 1 1, addr_Port = 32905\<rparr>,
              Sender = \<lparr>addr_NetID = NetID 192 168 0 2 1 1, addr_Port = 851\<rparr>,
              CmdID = 8, StateFlags = 4, ams_Length = 12, ErrorCode = 0, InvokeID = 0\<rparr>\<rparr>"
  by (simp add: Header_Decode_def ReadStruct_TCPHeader_def ReadStruct_AMSHeader_def ReadN_def
      NewBuffer_def frame_huge_count_notification_def Uint16_def Uint32_def getAddr_def Let_def)

lemma decode_short_ReadResponse:
  "packet_Decode alloc TReadResponse (NewBuffer frame_short_ReadResponse)
     = Some (Inl ErrUnexpectedEOF)"
  by (simp add: ReadResponse_Decode_def ReadStruct_TCPHeader_def ReadStruct_AMSHeader_def
      ReadUint32_def ReadN_def NewBuffer_def frame_short_ReadResponse_def Let_def)

lemma decode_short_notification:
  "packet_Decode (can_alloc (input_of d)) TDeviceNotificationRequest
     (NewBuffer frame_short_notification) = Some (Inl ErrUnexpectedEOF)"
  by (simp add: input_of_def DeviceNotificationRequest_Decode_def ReadStruct_TCPHeader_def
      ReadStruct_AMSHeader_def ReadUint32_def ReadN_def NewBuffer_def
      frame_short_notification_def Let_def Uint32_def granted_def
      sizeof_NotificationStamp_def sizeof_NotificationSample_def)

text \<open>
  The frame of 50 bytes: \<^verbatim>\<open>Decode\<close> reads the count \<open>0xFFFFFFFF\<close> and asks for
  \<open>40 * 4294967295 = 171798691800\<close> bytes before it reads any stamp.
\<close>

lemma decode_stamps_timestamp_error:
  "0 < n \<Longrightarrow> ReadUint32 b = (low, b1) \<Longrightarrow> ReadUint32 b1 = (high, b2) \<Longrightarrow> err b2 = Some e \<Longrightarrow>
   decode_stamps alloc n b = Some (Inl e)"
  by (cases n) simp_all

lemma decode_huge_count_notification:
  "DeviceNotificationRequest_Decode alloc (NewBuffer frame_huge_count_notification)
     = (if alloc 171798691800 then Some (Inl ErrUnexpectedEOF) else None)"
proof -
  let ?at = "\<lambda>n e. \<lparr>buf = frame_huge_count_notification, pos = n, err = e\<rparr>"
  have low: "ReadUint32 (?at 46 None) = (0x69C96000, ?at 50 None)"
    by (simp add: ReadUint32_def ReadN_def frame_huge_count_notification_def Let_def Uint32_def)
  have high: "ReadUint32 (?at 50 None) = (0, ?at 50 (Some ErrUnexpectedEOF))"
    by (simp add: ReadUint32_def ReadN_def frame_huge_count_notification_def Let_def Uint32_def)
  have stamps: "decode_stamps alloc 4294967295 (?at 46 None) = Some (Inl ErrUnexpectedEOF)"
    by (rule decode_stamps_timestamp_error [OF _ low high]) simp_all
  have tcp: "ReadStruct_TCPHeader (NewBuffer frame_huge_count_notification)
      = (\<lparr>tcp_Reserved = 0, tcp_Length = 44\<rparr>, ?at 6 None)"
    by (simp add: ReadStruct_TCPHeader_def ReadN_def NewBuffer_def
        frame_huge_count_notification_def Let_def Uint16_def Uint32_def)
  obtain ams where ams: "ReadStruct_AMSHeader (?at 6 None) = (ams, ?at 38 None)"
    by (simp add: ReadStruct_AMSHeader_def ReadN_def frame_huge_count_notification_def Let_def)
  have len: "ReadUint32 (?at 38 None) = (8, ?at 42 None)"
    by (simp add: ReadUint32_def ReadN_def frame_huge_count_notification_def Let_def Uint32_def)
  have cnt: "ReadUint32 (?at 42 None) = (0xFFFFFFFF, ?at 46 None)"
    by (simp add: ReadUint32_def ReadN_def frame_huge_count_notification_def Let_def Uint32_def)
  show ?thesis
    by (simp add: DeviceNotificationRequest_Decode_def tcp ams len cnt stamps granted_def
        sizeof_NotificationStamp_def)
qed

lemma select_short_ReadResponse:
  "select_packet_type \<lparr>Target = \<lparr>addr_NetID = NetID 192 168 0 1 1 1, addr_Port = 32905\<rparr>,
      Sender = \<lparr>addr_NetID = NetID 192 168 0 2 1 1, addr_Port = 851\<rparr>,
      CmdID = 2, StateFlags = 5, ams_Length = 12, ErrorCode = 0, InvokeID = 2\<rparr> = Some TReadResponse"
  by (simp add: select_packet_type_def IsReadResponse_def CmdADSRead_def HasState_def
      StateResponse_def)

lemma select_short_notification:
  "select_packet_type \<lparr>Target = \<lparr>addr_NetID = NetID 192 168 0 1 1 1, addr_Port = 32905\<rparr>,
      Sender = \<lparr>addr_NetID = NetID 192 168 0 2 1 1, addr_Port = 851\<rparr>,
      CmdID = 8, StateFlags = 4, ams_Length = len, ErrorCode = 0, InvokeID = 0\<rparr>
     = Some TDeviceNotificationRequest"
  by (simp add: select_packet_type_def IsReadResponse_def IsWriteResponse_def
      IsReadWriteResponse_def IsReadStateRequest_def IsDeviceNotificationRequest_def
      CmdADSDeviceNotification_def CmdADSRead_def CmdADSWrite_def CmdADSReadWrite_def
      CmdADSReadState_def)

text \<open>
  On frames that are merely cut short the pump does what the source's comment says: a
  truncated Read response ends it (the ReadState request that follows is not answered), a
  truncated DeviceNotification is skipped, and logged only where a callback is registered.
\<close>

lemma short_frames_run:
  "receive_loop [input_of frame_short_ReadResponse, input_ReadStateRequest] client_running
     = (Returned ErrUnexpectedEOF, client_running\<lparr>logged := [LogFailedDecode ErrUnexpectedEOF]\<rparr>)
   \<and> receive_loop [input_of frame_short_notification] client_running = (Blocked, client_running)
   \<and> receive_loop [input_of frame_short_notification] client_with_callback
       = (Blocked, client_with_callback\<lparr>logged := [LogFailedDecodeNotification ErrUnexpectedEOF]\<rparr>)"
proof -
  have rd: "read_result (input_of d) = Inr d" for d
    by (simp add: input_of_def)
  note resp = decode_error_fatal_for_responses_only
    [OF rd header_short_ReadResponse _ decode_short_ReadResponse,
      of "[input_ReadStateRequest]" client_running]
  note notif = decode_error_fatal_for_responses_only
    [OF rd header_short_notification _ decode_short_notification, of "[]"]
  from resp notif [of client_running] notif [of client_with_callback]
  show ?thesis
    by (simp add: select_short_ReadResponse select_short_notification HasState_def
        StateResponse_def CmdADSDeviceNotification_def client_running_def
        client_with_callback_def SetNotificationCallback_def)
qed

text \<open>
  Claim C3, at the input where the code departs from it. The pump of a client with a
  notification callback reads the DeviceNotification frame of 50 bytes that announces
  \<open>0xFFFFFFFF\<close> stamps and ends inside the first, and after it a ReadState request. The body
  of the frame cannot be decoded. On a machine that provides no block of more than 16 GiB,
  \<^verbatim>\<open>Decode\<close> does not return: the allocation of \<open>171798691800\<close> bytes for the stamps ends the
  process. The pump has logged nothing and does not continue: the ReadState request is never
  read, nothing is written to the connection.
\<close>

theorem notification_huge_count_ends_pump:
  "packet_Decode (\<lambda>n. n \<le> 17179869184) TDeviceNotificationRequest
     (NewBuffer frame_huge_count_notification) = None
   \<and> receive_loop [input_of frame_huge_count_notification, input_ReadStateRequest]
       client_with_callback
     = (Crashed, client_with_callback)
   \<and> logged client_with_callback = []
   \<and> conn_writes client_with_callback = []"
proof -
  have step: "receive_step (input_of frame_huge_count_notification) client_with_callback
      = (Crash, client_with_callback)"
    by (simp add: receive_step_def input_of_def header_huge_count_notification
        select_short_notification decode_huge_count_notification)
  have "receive_loop [input_of frame_huge_count_notification, input_ReadStateRequest]
       client_with_callback = (Crashed, client_with_callback)"
    by (simp add: step)
  moreover have "logged client_with_callback = [] \<and> conn_writes client_with_callback = []"
    by (simp add: client_with_callback_def client_running_def SetNotificationCallback_def)
  ultimately show ?thesis
    by (simp add: decode_huge_count_notification)
qed

text \<open>
  Where the machine does provide the block, the same frame is a decode error like any
  other truncated notification: logged, and the pump goes on to answer the ReadState request.
\<close>

lemma notification_huge_count_granted:
  "receive_step (input_of frame_huge_count_notification\<lparr>can_alloc := \<lambda>n. True\<rparr>) client_with_callback
     = (Continue, client_with_callback\<lparr>logged := [LogFailedDecodeNotification ErrUnexpectedEOF]\<rparr>)"
  by (simp add: receive_step_def input_of_def header_huge_count_notification
      select_short_notification decode_huge_count_notification client_with_callback_def
      client_running_def SetNotificationCallback_def)

subsection \<open>A send that ends by timeout or cancellation\<close>

lemma send_begin_scenario:
  "fst (send_begin None request_Read_5 client_running) = Inr (2, 0)
   \<and> handler client_after_send 2 = Some 0
   \<and> chans client_after_send = [\<lparr>chan_buf = [], chan_closed = False\<rparr>]
   \<and> logged client_after_send = []"
  by (simp add: client_after_send_def send_begin_def request_Read_5_def client_running_def
      NewReadRequest_def ReadRequest_Encode_def Let_def NewBuffer_def WriteStruct_TCPHeader_def
      WriteStruct_AMSHeader_def WriteUint32_def Write_def)

lemma packet_ReadResponse_2:
  "packet_Decode alloc TReadResponse (NewBuffer frame_ReadResponse_2)
     = Some (Inr (PktReadResponse \<lparr>rd_tcpHeader = \<lparr>tcp_Reserved = 0, tcp_Length = 41\<rparr>,
        rd_amsHeader = \<lparr>Target = \<lparr>addr_NetID = NetID 192 168 0 1 1 1, addr_Port = 32905\<rparr>,
          Sender = \<lparr>addr_NetID = NetID 192 168 0 2 1 1, addr_Port = 851\<rparr>,
          CmdID = 2, StateFlags = 5, ams_Length = 9, ErrorCode = 0, InvokeID = 2\<rparr>,
        rd_Result = 0, rd_Length = 1, rd_Data = [7]\<rparr>))"
  by (simp add: ReadResponse_Decode_def ReadStruct_TCPHeader_def ReadStruct_AMSHeader_def
      ReadUint32_def ReadN_def NewBuffer_def frame_ReadResponse_2_def Let_def Uint16_def
      Uint32_def getAddr_def)

lemma header_ReadResponse_2:
  "Header_Decode (NewBuffer frame_ReadResponse_2)
     = Inr \<lparr>hdr_TCPHeader = \<lparr>tcp_Reserved = 0, tcp_Length = 41\<rparr>,
            hdr_AMSHeader = \<lparr>Target = \<lparr>addr_NetID = NetID 192 168 0 1 1 1, addr_Port = 32905\<rparr>,
              Sender = \<lparr>addr_NetID = NetID 192 168 0 2 1 1, addr_Port = 851\<rparr>,
              CmdID = 2, StateFlags = 5, ams_Length = 9, ErrorCode = 0, InvokeID = 2\<rparr>\<rparr>"
  by (simp add: Header_Decode_def ReadStruct_TCPHeader_def ReadStruct_AMSHeader_def ReadN_def
      NewBuffer_def frame_ReadResponse_2_def Uint16_def Uint32_def getAddr_def Let_def)

lemma select_ReadResponse_2:
  "select_packet_type \<lparr>Target = \<lparr>addr_NetID = NetID 192 168 0 1 1 1, addr_Port = 32905\<rparr>,
      Sender = \<lparr>addr_NetID = NetID 192 168 0 2 1 1, addr_Port = 851\<rparr>,
      CmdID = 2, StateFlags = 5, ams_Length = 9, ErrorCode = 0, InvokeID = 2\<rparr> = Some TReadResponse"
  by (simp add: select_packet_type_def IsReadResponse_def CmdADSRead_def HasState_def
      StateResponse_def)

text \<open>
  Claim C1 against the code. A Read request is sent by a client whose pump is running; the
  write succeeds, so the request waits with invoke-id 2 on channel 0. The wait ends by
  timeout with the error \<^verbatim>\<open>ErrTimeout\<close>, or by cancellation with the context's error, and
  in both cases the client state is what it was: the slot for invoke-id 2 is still
  registered. When the response to invoke-id 2 arrives afterwards, the pump finds that
  slot, removes it, puts the response into the channel and closes it; it logs nothing, so
  the response is not dropped for want of a handler. Only the write-error path of \<^verbatim>\<open>send\<close>
  removes the registration.
\<close>

theorem send_timeout_keeps_registration:
  "fst (send_begin None request_Read_5 client_running) = Inr (2, 0)
   \<and> send_wait TimeoutElapsed 0 Read_callback client_after_send
       = Some (Some ErrTimeout, client_after_send)
   \<and> send_wait (CtxDone ErrCanceled) 0 Read_callback client_after_send
       = Some (Some ErrCanceled, client_after_send)
   \<and> handler client_after_send 2 = Some 0
   \<and> fst (receive_step (input_of frame_ReadResponse_2) client_after_send) = Continue
   \<and> handler (snd (receive_step (input_of frame_ReadResponse_2) client_after_send)) 2 = None
   \<and> logged (snd (receive_step (input_of frame_ReadResponse_2) client_after_send)) = []
   \<and> map chan_buf (chans (snd (receive_step (input_of frame_ReadResponse_2) client_after_send)))
       = [[PktReadResponse \<lparr>rd_tcpHeader = \<lparr>tcp_Reserved = 0, tcp_Length = 41\<rparr>,
            rd_amsHeader = \<lparr>Target = \<lparr>addr_NetID = NetID 192 168 0 1 1 1, addr_Port = 32905\<rparr>,
              Sender = \<lparr>addr_NetID = NetID 192 168 0 2 1 1, addr_Port = 851\<rparr>,
              CmdID = 2, StateFlags = 5, ams_Length = 9, ErrorCode = 0, InvokeID = 2\<rparr>,
            rd_Result = 0, rd_Length = 1, rd_Data = [7]\<rparr>]]
   \<and> handler (snd (send_begin (Some ErrConn) request_Read_5 client_running)) 2 = None"
proof -
  have step: "receive_step (input_of frame_ReadResponse_2) client_after_send
      = (Continue, forward_response False 2
           (PktReadResponse \<lparr>rd_tcpHeader = \<lparr>tcp_Reserved = 0, tcp_Length = 41\<rparr>,
            rd_amsHeader = \<lparr>Target = \<lparr>addr_NetID = NetID 192 168 0 1 1 1, addr_Port = 32905\<rparr>,
              Sender = \<lparr>addr_NetID = NetID 192 168 0 2 1 1, addr_Port = 851\<rparr>,
              CmdID = 2, StateFlags = 5, ams_Length = 9, ErrorCode = 0, InvokeID = 2\<rparr>,
            rd_Result = 0, rd_Length = 1, rd_Data = [7]\<rparr>) client_after_send)"
    by (simp add: receive_step_def input_of_def header_ReadResponse_2 select_ReadResponse_2
        packet_ReadResponse_2 del: packet_Decode.simps)
  have err: "handler (snd (send_begin (Some ErrConn) request_Read_5 client_running)) 2 = None"
    by (simp add: send_begin_def request_Read_5_def client_running_def
      NewReadRequest_def ReadRequest_Encode_def Let_def NewBuffer_def WriteStruct_TCPHeader_def
      WriteStruct_AMSHeader_def WriteUint32_def Write_def)
  show ?thesis
    using send_begin_scenario err
    by (simp add: step send_wait_def forward_response_def Let_def)
qed

end
